(* ===== verification/Prelude.thy ===== *)
theory Prelude
  imports Main "HOL-Library.Word"
begin

text \<open>
  Shared vocabulary of the wgsl_bindgen development: the fixed-width integers of
  the Rust code, the error type of \<open>src/wgsl_bindgen/src/lib.rs\<close>
  (\<open>CreateModuleError\<close>) together with the panics of its \<open>unwrap\<close>s and
  \<open>todo!\<close>s, the result monad that threads them, association lists in insertion
  order (the merge engine) and in key order (Rust's \<open>BTreeMap\<close>), and the ASCII
  case mappings used to form generated identifiers.
\<close>

named_theorems gen_simps "evaluation rules of the generation result monad"
named_theorems alist_simps "rules of the association-list helpers"

section \<open>Machine integers and errors\<close>

type_synonym u32 = "32 word"

type_synonym u8 = "8 word"

text \<open>\<open>CreateModuleError\<close> (lib.rs): the two structural errors of bind-group analysis.\<close>

datatype create_module_error =
    NonConsecutiveBindGroups
  | DuplicateBinding u32

text \<open>
  A generation run either returns a value or stops: with a \<open>CreateModuleError\<close>
  propagated by \<open>?\<close>, or with a panic (an \<open>unwrap\<close> on an \<open>Err\<close>, a
  \<open>todo!\<close>). Both abort the run; only the first is a value the Rust caller sees,
  the second is written out so that the model does not hide it.
\<close>

datatype gen_failure =
    ModuleError create_module_error
  | Panic string

type_synonym 'a gen = "gen_failure + 'a"

definition gen_bind :: "'a gen \<Rightarrow> ('a \<Rightarrow> 'b gen) \<Rightarrow> 'b gen" where
  "gen_bind m f = (case m of Inl e \<Rightarrow> Inl e | Inr x \<Rightarrow> f x)"

text \<open>\<open>Result::unwrap\<close>: an \<open>Err\<close> becomes a panic.\<close>

definition unwrap :: "string \<Rightarrow> ('e + 'a) \<Rightarrow> 'a gen" where
  "unwrap msg r = (case r of Inl _ \<Rightarrow> Inl (Panic msg) | Inr x \<Rightarrow> Inr x)"

text \<open>\<open>Option::unwrap\<close> and \<open>Option::expect\<close>: \<open>None\<close> becomes a panic.\<close>

definition expect :: "string \<Rightarrow> 'a option \<Rightarrow> 'a gen" where
  "expect msg x = (case x of None \<Rightarrow> Inl (Panic msg) | Some y \<Rightarrow> Inr y)"

text \<open>Indexing an arena or a slice (\<open>module.types[h]\<close>): out of range is a panic.\<close>

definition nth_checked :: "'a list \<Rightarrow> nat \<Rightarrow> 'a gen" where
  "nth_checked xs i = (if i < length xs then Inr (xs ! i) else Inl (Panic ''index out of bounds''))"

text \<open>Mapping a fallible function over a list stops at the first failure, as a panic in an iterator does.\<close>

fun gen_map :: "('a \<Rightarrow> 'b gen) \<Rightarrow> 'a list \<Rightarrow> 'b list gen" where
  "gen_map f [] = Inr []"
| "gen_map f (x # xs) = gen_bind (f x) (\<lambda>y. gen_bind (gen_map f xs) (\<lambda>ys. Inr (y # ys)))"

section \<open>Association lists in insertion order\<close>

text \<open>
  Update the entry of key \<open>k\<close> with \<open>f\<close>, or append a new entry \<open>f d\<close> at the
  end when there is none: an ordered-insertion map whose iteration order is the
  order in which keys were first seen.
\<close>

fun al_upd :: "'k \<Rightarrow> 'v \<Rightarrow> ('v \<Rightarrow> 'v) \<Rightarrow> ('k \<times> 'v) list \<Rightarrow> ('k \<times> 'v) list" where
  "al_upd k d f [] = [(k, f d)]"
| "al_upd k d f ((k', v) # xs) =
     (if k = k' then (k', f v) # xs else (k', v) # al_upd k d f xs)"

text \<open>The keys of a list in the order of their first occurrence.\<close>

definition first_seen :: "'a list \<Rightarrow> 'a list" where
  "first_seen xs = rev (remdups (rev xs))"

section \<open>Association lists in key order\<close>

text \<open>
  Rust's \<open>BTreeMap::entry(k).or_insert(d)\<close> followed by an update of the value,
  on a list kept sorted by strictly increasing keys.
\<close>

fun ord_upd :: "'k::linorder \<Rightarrow> 'v \<Rightarrow> ('v \<Rightarrow> 'v) \<Rightarrow> ('k \<times> 'v) list \<Rightarrow> ('k \<times> 'v) list" where
  "ord_upd k d f [] = [(k, f d)]"
| "ord_upd k d f ((k', v) # xs) =
     (if k < k' then (k, f d) # (k', v) # xs
      else if k = k' then (k', f v) # xs
      else (k', v) # ord_upd k d f xs)"

section \<open>ASCII case mapping\<close>

text \<open>
  \<open>str::to_uppercase\<close> as the code uses it, on identifiers: the ASCII letters
  \<open>a\<close>..\<open>z\<close> move to \<open>A\<close>..\<open>Z\<close>, every other byte is kept.
\<close>

definition ascii_upper :: "char \<Rightarrow> char" where
  "ascii_upper c =
     (let n = (of_char c :: nat) in if 97 \<le> n \<and> n \<le> 122 then char_of (n - 32) else c)"

definition ascii_lower :: "char \<Rightarrow> char" where
  "ascii_lower c =
     (let n = (of_char c :: nat) in if 65 \<le> n \<and> n \<le> 90 then char_of (n + 32) else c)"

definition is_ascii_upper :: "char \<Rightarrow> bool" where
  "is_ascii_upper c \<longleftrightarrow> (65::nat) \<le> of_char c \<and> of_char c \<le> (90::nat)"

definition to_uppercase :: "string \<Rightarrow> string" where
  "to_uppercase s = map ascii_upper s"

section \<open>Decimal formatting\<close>

text \<open>\<open>format!("{}", n)\<close> on an unsigned integer: its decimal digits, most significant first.\<close>

fun string_of_nat :: "nat \<Rightarrow> string" where
  "string_of_nat n =
     (if n < 10 then [char_of (48 + n)] else string_of_nat (n div 10) @ [char_of (48 + n mod 10)])"

definition u32_to_string :: "u32 \<Rightarrow> string" where
  "u32_to_string i = string_of_nat (unat i)"

text \<open>Reading a string of decimal digits back (the inverse used to show that formatting is injective).\<close>

definition digits_value :: "string \<Rightarrow> nat" where
  "digits_value s = foldl (\<lambda>acc c. 10 * acc + (of_char c - 48)) 0 s"

section \<open>Lemmas of the shared vocabulary\<close>

lemma gen_bind_Inl [simp, gen_simps]: "gen_bind (Inl e) f = Inl e"
  by (simp add: gen_bind_def)

lemma gen_bind_Inr [simp, gen_simps]: "gen_bind (Inr x) f = f x"
  by (simp add: gen_bind_def)

lemma gen_bind_eq_Inr [gen_simps]:
  "gen_bind m f = Inr y \<longleftrightarrow> (\<exists>x. m = Inr x \<and> f x = Inr y)"
  by (cases m) auto

lemma gen_bind_eq_Inl [gen_simps]:
  "gen_bind m f = Inl e \<longleftrightarrow> (m = Inl e \<or> (\<exists>x. m = Inr x \<and> f x = Inl e))"
  by (cases m) auto

lemma unwrap_simps [simp, gen_simps]:
  "unwrap msg (Inl e) = Inl (Panic msg)"
  "unwrap msg (Inr x) = Inr x"
  by (simp_all add: unwrap_def)

lemma expect_simps [simp, gen_simps]:
  "expect msg None = Inl (Panic msg)"
  "expect msg (Some y) = Inr y"
  by (simp_all add: expect_def)

lemma nth_checked_in [simp, gen_simps]: "i < length xs \<Longrightarrow> nth_checked xs i = Inr (xs ! i)"
  by (simp add: nth_checked_def)

lemma gen_map_Inr_iff [gen_simps]:
  "gen_map f xs = Inr ys \<longleftrightarrow> list_all2 (\<lambda>x y. f x = Inr y) xs ys"
proof (induction xs arbitrary: ys)
  case Nil
  then show ?case by auto
next
  case (Cons x xs)
  then show ?case
    by (cases ys) (auto simp: gen_bind_eq_Inr)
qed

lemma gen_map_total [gen_simps]:
  "(\<And>x. x \<in> set xs \<Longrightarrow> f x = Inr (g x)) \<Longrightarrow> gen_map f xs = Inr (map g xs)"
  by (induction xs) auto

lemma gen_map_length:
  "gen_map f xs = Inr ys \<Longrightarrow> length ys = length xs"
  by (simp add: gen_map_Inr_iff list_all2_lengthD)

lemma al_upd_keys [alist_simps]:
  "map fst (al_upd k d f xs) = map fst xs @ (if k \<in> set (map fst xs) then [] else [k])"
  by (induction xs) (auto simp: rev_image_eqI)

lemma al_upd_distinct [alist_simps]:
  "distinct (map fst xs) \<Longrightarrow> distinct (map fst (al_upd k d f xs))"
  by (simp add: al_upd_keys)

lemma al_upd_lookup [alist_simps]:
  "distinct (map fst xs) \<Longrightarrow>
   map_of (al_upd k d f xs) k' =
     (if k' = k then Some (f (case map_of xs k of None \<Rightarrow> d | Some v \<Rightarrow> v)) else map_of xs k')"
  by (induction xs) (auto simp: map_of_eq_None_iff)

lemma map_of_al_upd:
  "map_of (al_upd k d f xs) = (map_of xs)(k \<mapsto> f (case map_of xs k of None \<Rightarrow> d | Some v \<Rightarrow> v))"
  by (induction xs) (auto simp: fun_eq_iff)

lemma al_upd_all:
  "\<forall>(p, v) \<in> set xs. P p v \<Longrightarrow> P k (f (case map_of xs k of None \<Rightarrow> d | Some v \<Rightarrow> v)) \<Longrightarrow>
   \<forall>(p, v) \<in> set (al_upd k d f xs). P p v"
  by (induction xs) (auto split: if_splits)

lemma first_seen_snoc [simp]: "first_seen (xs @ [x]) = first_seen xs @ (if x \<in> set xs then [] else [x])"
  by (simp add: first_seen_def)

lemma first_seen_Nil [simp]: "first_seen [] = []"
  by (simp add: first_seen_def)

lemma set_first_seen [simp]: "set (first_seen xs) = set xs"
  by (simp add: first_seen_def)

lemma al_upd_keys_first_seen:
  "map fst xs = first_seen ks \<Longrightarrow> map fst (al_upd k d f xs) = first_seen (ks @ [k])"
proof -
  assume k: "map fst xs = first_seen ks"
  then have "set (map fst xs) = set ks" by simp
  with k show ?thesis by (simp add: al_upd_keys)
qed

lemma al_upd_extends: "\<exists>ks. map fst (al_upd k d f xs) = map fst xs @ ks"
  by (simp add: al_upd_keys)

lemma ord_upd_keys [alist_simps]: "set (map fst (ord_upd k d f xs)) = insert k (set (map fst xs))"
proof (induction xs)
  case (Cons p xs)
  then show ?case by (cases p) (simp add: insert_commute)
qed simp

lemma ord_upd_keys_image [alist_simps]: "fst ` set (ord_upd k d f xs) = insert k (fst ` set xs)"
  using ord_upd_keys [of k d f xs] by simp

lemma ord_upd_memD: "(a, b) \<in> set (ord_upd k d f xs) \<Longrightarrow> a = k \<or> a \<in> fst ` set xs"
  using ord_upd_keys [of k d f xs] by (auto simp: rev_image_eqI)

lemma ord_upd_sorted [alist_simps]:
  "sorted_wrt (<) (map fst xs) \<Longrightarrow> sorted_wrt (<) (map fst (ord_upd k d f xs))"
proof (induction xs)
  case Nil
  then show ?case by simp
next
  case (Cons p xs)
  obtain k0 v where p: "p = (k0, v)" by fastforce
  from Cons.prems have above: "\<forall>x \<in> set xs. k0 < fst x" and sxs: "sorted_wrt (<) (map fst xs)"
    by (simp_all add: p)
  show ?case
  proof (cases "k < k0")
    case True
    have "\<forall>x \<in> set xs. k < fst x"
      using above True by (auto intro: less_trans)
    with True above sxs show ?thesis by (simp add: p)
  next
    case False
    have "\<forall>x \<in> set (ord_upd k d f xs). k0 < fst x" if "k \<noteq> k0"
    proof -
      from False that have "k0 < k" by (meson linorder_neqE)
      with above show ?thesis by (fastforce dest: ord_upd_memD)
    qed
    with False above sxs Cons.IH show ?thesis by (auto simp: p)
  qed
qed

lemma keys_above_lookup_None:
  fixes k :: "'k::linorder"
  assumes "\<forall>x \<in> set xs. k' < fst x" and "k < k'"
  shows "map_of xs k = None"
proof (rule ccontr)
  assume "map_of xs k \<noteq> None"
  then obtain w where "(k, w) \<in> set xs" by (auto dest: map_of_SomeD)
  with assms(1) have "k' < k" by fastforce
  with assms(2) show False by (meson less_asym)
qed

lemma ord_upd_lookup [alist_simps]:
  "sorted_wrt (<) (map fst xs) \<Longrightarrow>
   map_of (ord_upd k d f xs) k' =
     (if k' = k then Some (f (case map_of xs k of None \<Rightarrow> d | Some v \<Rightarrow> v)) else map_of xs k')"
proof (induction xs)
  case Nil
  then show ?case by simp
next
  case (Cons p xs)
  obtain k0 v where p: "p = (k0, v)" by fastforce
  show ?case
  proof (cases "k < k0")
    case True
    with Cons.prems have "map_of xs k = None"
      by (intro keys_above_lookup_None [of xs k0]) (simp_all add: p)
    with True show ?thesis by (auto simp: p)
  next
    case False
    with Cons show ?thesis by (auto simp: p)
  qed
qed

lemma length_ord_upd [alist_simps]:
  "sorted_wrt (<) (map fst xs) \<Longrightarrow>
   length (ord_upd k d f xs) = length xs + (if k \<in> set (map fst xs) then 0 else 1)"
proof (induction xs)
  case Nil
  then show ?case by simp
next
  case (Cons p xs)
  obtain k0 v where p: "p = (k0, v)" by fastforce
  from Cons.prems have above: "\<forall>x \<in> set xs. k0 < fst x"
    by (simp add: p)
  have "k \<notin> set (map fst xs)" if "k < k0"
    using above that by fastforce
  with Cons show ?case by (auto simp: p)
qed

lemma length_to_uppercase [simp]: "length (to_uppercase s) = length s"
  by (simp add: to_uppercase_def)

lemma to_uppercase_append [simp]: "to_uppercase (a @ b) = to_uppercase a @ to_uppercase b"
  by (simp add: to_uppercase_def)

lemma digits_value_snoc: "digits_value (s @ [c]) = 10 * digits_value s + (of_char c - 48)"
  by (simp add: digits_value_def)

lemma digits_value_string_of_nat [simp]: "digits_value (string_of_nat n) = n"
proof (induction n rule: string_of_nat.induct)
  case (1 n)
  show ?case
  proof (cases "n < 10")
    case True
    then show ?thesis by (simp add: digits_value_def)
  next
    case False
    then have "digits_value (string_of_nat n) = 10 * (n div 10) + n mod 10"
      using "1.IH" by (simp add: digits_value_snoc)
    then show ?thesis by simp
  qed
qed

lemma string_of_nat_inj: "string_of_nat m = string_of_nat n \<longleftrightarrow> m = n"
  by (metis digits_value_string_of_nat)

lemma string_of_nat_nonempty [simp]: "string_of_nat n \<noteq> []"
  by (subst string_of_nat.simps) simp

lemma u32_to_string_inj: "u32_to_string i = u32_to_string j \<longleftrightarrow> i = j"
  unfolding u32_to_string_def string_of_nat_inj by (rule word_unat_eq_iff [symmetric])

declare string_of_nat.simps [simp del]

end
