(* ===== verification/Naga.thy ===== *)
theory Naga
  imports Prelude
begin

text \<open>
  The shader IR that wgsl_bindgen reads (the \<open>naga::Module\<close> built by the external
  front end). Only the parts the generator inspects are kept: the type arena, the
  global variables with their \<open>@group/@binding\<close> attributes, and the entry points
  with their stage, workgroup size and arguments. Handles into the type arena are
  indices; \<open>module_wf\<close> says that every handle is in range, which the
  front end's validation guarantees and which the code relies on when it indexes
  the arena (an out-of-range index would panic).
\<close>

datatype scalar_kind = Sint | Uint | Float | Bool

datatype vector_size = Bi | Tri | Quad

datatype binding = BuiltIn | Location nat

datatype address_space =
    AsFunction | AsPrivate | AsWorkGroup | AsUniform | AsStorage bool | AsHandle | AsPushConstant

record struct_member =
  m_name :: "string option"
  m_ty :: nat
  m_binding :: "binding option"
  m_offset :: nat

datatype type_inner =
    Scalar scalar_kind nat
  | Vector vector_size scalar_kind nat
  | Matrix vector_size vector_size nat
  | Array nat "nat option" nat
  | Struct "struct_member list" nat
  | Image
  | Sampler bool
  | Atomic scalar_kind nat

record naga_type =
  ty_name :: "string option"
  inner :: type_inner

datatype shader_stage = Vertex | Fragment | Compute

record function_argument =
  arg_name :: "string option"
  arg_ty :: nat
  arg_binding :: "binding option"

record entry_point =
  ep_name :: string
  stage :: shader_stage
  workgroup_size :: "u32 \<times> u32 \<times> u32"
  arguments :: "function_argument list"

record resource_binding =
  rb_group :: u32
  rb_binding :: u32

record global_variable =
  gv_name :: "string option"
  space :: address_space
  gv_binding :: "resource_binding option"
  gv_ty :: nat

record naga_module =
  types :: "naga_type list"
  global_variables :: "global_variable list"
  entry_points :: "entry_point list"

definition vector_size_count :: "vector_size \<Rightarrow> nat" where
  "vector_size_count v = (case v of Bi \<Rightarrow> 2 | Tri \<Rightarrow> 3 | Quad \<Rightarrow> 4)"

text \<open>Every type handle of the module points into the type arena.\<close>

definition module_wf :: "naga_module \<Rightarrow> bool" where
  "module_wf m \<longleftrightarrow>
     (\<forall>g \<in> set (global_variables m). gv_ty g < length (types m)) \<and>
     (\<forall>e \<in> set (entry_points m). \<forall>a \<in> set (arguments e). arg_ty a < length (types m)) \<and>
     (\<forall>t \<in> set (types m). case inner t of
         Struct ms _ \<Rightarrow> (\<forall>x \<in> set ms. m_ty x < length (types m))
       | Array b _ _ \<Rightarrow> b < length (types m)
       | _ \<Rightarrow> True)"

end
