(* ===== verification/BindGroups.thy ===== *)
theory BindGroups
  imports Naga
begin

unbundle bit_operations_syntax

text \<open>
  Bind Group Analyzer (spec section 4.3; \<open>bindgroup.rs\<close> and \<open>wgsl::shader_stages\<close>
  are not among the sources, so they are modelled from the spec and from the way
  \<open>create_rust_bindings\<close> in \<open>lib.rs\<close> calls them). Every global variable with a
  \<open>@group/@binding\<close> attribute is collected, in declaration order, into a table
  keyed by group index and kept in key order (Rust's \<open>BTreeMap\<close>); then the table
  is validated: the group indices must be exactly \<open>0..n\<close>
  (\<open>NonConsecutiveBindGroups\<close>) and no two variables of one group may share a
  binding index (\<open>DuplicateBinding\<close>). A valid table lists each group's bindings
  ordered by binding index.

  The theory proves that the collecting loop computes an abstract table
  (\<open>group_table\<close>, one entry per used group with its members), and from that the
  complete functional behaviour of \<open>get_bind_group_data\<close>: when it fails with each
  error, and what the table holds when it succeeds.
\<close>

record group_binding =
  gb_name :: "string option"
  binding_index :: u32
  binding_type :: naga_type
  gb_space :: address_space

type_synonym bind_group_data = "(u32 \<times> group_binding list) list"

definition group_binding_of :: "naga_module \<Rightarrow> global_variable \<Rightarrow> resource_binding \<Rightarrow> group_binding" where
  "group_binding_of m g rb =
     \<lparr>gb_name = gv_name g, binding_index = rb_binding rb,
      binding_type = types m ! gv_ty g, gb_space = space g\<rparr>"

text \<open>The collecting loop over the global variables, inserting into the key-ordered table.\<close>

fun collect_groups :: "naga_module \<Rightarrow> global_variable list \<Rightarrow> bind_group_data \<Rightarrow> bind_group_data" where
  "collect_groups m [] acc = acc"
| "collect_groups m (g # gs) acc =
     (case gv_binding g of
        None \<Rightarrow> collect_groups m gs acc
      | Some rb \<Rightarrow>
          collect_groups m gs (ord_upd (rb_group rb) [] (\<lambda>bs. bs @ [group_binding_of m g rb]) acc))"

definition consecutive_groups :: "bind_group_data \<Rightarrow> bool" where
  "consecutive_groups gs \<longleftrightarrow> map (\<lambda>p. unat (fst p)) gs = [0..<length gs]"

fun first_repeat :: "u32 list \<Rightarrow> u32 list \<Rightarrow> u32 option" where
  "first_repeat seen [] = None"
| "first_repeat seen (b # bs) = (if b \<in> set seen then Some b else first_repeat (b # seen) bs)"

fun find_duplicate :: "bind_group_data \<Rightarrow> u32 option" where
  "find_duplicate [] = None"
| "find_duplicate ((_, bs) # gs) =
     (case first_repeat [] (map binding_index bs) of
        Some b \<Rightarrow> Some b
      | None \<Rightarrow> find_duplicate gs)"

definition get_bind_group_data :: "naga_module \<Rightarrow> create_module_error + bind_group_data" where
  "get_bind_group_data m =
     (let groups = collect_groups m (global_variables m) [] in
      if \<not> consecutive_groups groups then Inl NonConsecutiveBindGroups
      else case find_duplicate groups of
             Some b \<Rightarrow> Inl (DuplicateBinding b)
           | None \<Rightarrow> Inr (map (\<lambda>(k, bs). (k, sort_key binding_index bs)) groups))"

text \<open>
  \<open>wgsl::shader_stages\<close>: the union, as \<open>wgpu::ShaderStages\<close> bit flags
  (VERTEX = 1, FRAGMENT = 2, COMPUTE = 4), of the stages of all entry points.
  \<open>create_rust_bindings\<close> passes this one set as the visibility of every binding.
\<close>

definition stage_bit :: "shader_stage \<Rightarrow> u32" where
  "stage_bit s = (case s of Vertex \<Rightarrow> 1 | Fragment \<Rightarrow> 2 | Compute \<Rightarrow> 4)"

definition shader_stages :: "naga_module \<Rightarrow> u32" where
  "shader_stages m = fold (\<lambda>e acc. acc OR stage_bit (stage e)) (entry_points m) 0"

subsection \<open>Abstract view of the table\<close>

definition bound :: "global_variable list \<Rightarrow> (global_variable \<times> resource_binding) list" where
  "bound gs = concat (map (\<lambda>g. case gv_binding g of None \<Rightarrow> [] | Some rb \<Rightarrow> [(g, rb)]) gs)"

definition used_groups :: "naga_module \<Rightarrow> u32 list" where
  "used_groups m = map (\<lambda>p. rb_group (snd p)) (bound (global_variables m))"

definition bound_slots :: "naga_module \<Rightarrow> (u32 \<times> u32) list" where
  "bound_slots m = map (\<lambda>p. (rb_group (snd p), rb_binding (snd p))) (bound (global_variables m))"

definition members :: "naga_module \<Rightarrow> global_variable list \<Rightarrow> u32 \<Rightarrow> group_binding list" where
  "members m gs k =
     map (\<lambda>p. group_binding_of m (fst p) (snd p)) (filter (\<lambda>p. rb_group (snd p) = k) (bound gs))"

definition group_table :: "naga_module \<Rightarrow> bind_group_data" where
  "group_table m =
     map (\<lambda>k. (k, members m (global_variables m) k)) (sorted_list_of_set (set (used_groups m)))"

definition slots :: "global_variable list \<Rightarrow> (u32 \<times> u32) list" where
  "slots gs = map (\<lambda>p. (rb_group (snd p), rb_binding (snd p))) (bound gs)"

subsection \<open>The example programs of the spec\<close>

definition example_struct_A :: naga_type where
  "example_struct_A =
     \<lparr>ty_name = Some ''A'',
      inner = Struct [\<lparr>m_name = Some ''f'', m_ty = 1, m_binding = None, m_offset = 0\<rparr>] 16\<rparr>"

definition example_uniform :: "string \<Rightarrow> u32 \<Rightarrow> u32 \<Rightarrow> global_variable" where
  "example_uniform n g b =
     \<lparr>gv_name = Some n, space = AsUniform, gv_binding = Some \<lparr>rb_group = g, rb_binding = b\<rparr>, gv_ty = 0\<rparr>"

definition example_module :: "global_variable list \<Rightarrow> naga_module" where
  "example_module gs =
     \<lparr>types = [example_struct_A, \<lparr>ty_name = None, inner = Vector Quad Float 4\<rparr>],
      global_variables = gs, entry_points = []\<rparr>"

text \<open>
  Spec section 8: one struct \<open>A\<close> bound as a uniform at groups 0 and 1 (valid); groups
  \<open>{0, 1, 3}\<close> (a gap); two variables at group 0, binding 2 (a duplicate).
\<close>

definition example_two_groups :: naga_module where
  "example_two_groups = example_module [example_uniform ''a'' 0 0, example_uniform ''b'' 1 0]"

definition example_gap :: naga_module where
  "example_gap =
     example_module [example_uniform ''a'' 0 0, example_uniform ''b'' 1 0, example_uniform ''c'' 3 0]"

definition example_duplicate :: naga_module where
  "example_duplicate = example_module [example_uniform ''a'' 0 2, example_uniform ''b'' 0 2]"

subsection \<open>The collecting loop computes the abstract table\<close>

lemmas example_defs = example_module_def example_uniform_def example_struct_A_def
  example_two_groups_def example_gap_def example_duplicate_def

lemma bound_Cons [simp]:
  "bound (g # gs) = (case gv_binding g of None \<Rightarrow> [] | Some rb \<Rightarrow> [(g, rb)]) @ bound gs"
  by (simp add: bound_def)

lemma bound_Nil [simp]: "bound [] = []"
  by (simp add: bound_def)

lemma members_Nil [simp]: "members m [] k = []"
  by (simp add: members_def)

lemma members_Cons_None [simp]:
  "gv_binding g = None \<Longrightarrow> members m (g # gs) k = members m gs k"
  by (simp add: members_def)

lemma members_Cons_Some [simp]:
  "gv_binding g = Some rb \<Longrightarrow>
   members m (g # gs) k = (if rb_group rb = k then [group_binding_of m g rb] else []) @ members m gs k"
  by (simp add: members_def)

lemma collect_groups_sorted:
  "sorted_wrt (<) (map fst acc) \<Longrightarrow> sorted_wrt (<) (map fst (collect_groups m gs acc))"
  by (induction gs arbitrary: acc) (auto split: option.splits simp: ord_upd_sorted)

lemma collect_groups_keys:
  "set (map fst (collect_groups m gs acc)) =
     set (map fst acc) \<union> set (map (\<lambda>p. rb_group (snd p)) (bound gs))"
  by (induction gs arbitrary: acc) (auto split: option.splits simp: ord_upd_keys_image)

lemma collect_groups_lookup:
  "sorted_wrt (<) (map fst acc) \<Longrightarrow>
   map_of (collect_groups m gs acc) k =
     (case map_of acc k of
        None \<Rightarrow> if members m gs k = [] then None else Some (members m gs k)
      | Some bs \<Rightarrow> Some (bs @ members m gs k))"
proof (induction gs arbitrary: acc)
  case Nil
  then show ?case by (simp split: option.splits)
next
  case (Cons g gs)
  show ?case
  proof (cases "gv_binding g")
    case None
    then have c: "collect_groups m (g # gs) acc = collect_groups m gs acc" by simp
    show ?thesis
      unfolding c members_Cons_None [OF None] by (rule Cons.IH [OF Cons.prems])
  next
    case (Some rb)
    with Cons.prems Cons.IH [OF ord_upd_sorted [OF Cons.prems]] show ?thesis
      by (auto simp: ord_upd_lookup split: option.splits)
  qed
qed

lemma alist_of_values:
  "(\<forall>p \<in> set xs. snd p = f (fst p)) \<Longrightarrow> xs = map (\<lambda>k. (k, f k)) (map fst xs)"
  by (induction xs) auto

lemma members_nonempty_iff:
  "members m gs k \<noteq> [] \<longleftrightarrow> k \<in> set (map (\<lambda>p. rb_group (snd p)) (bound gs))"
  by (auto simp: members_def filter_empty_conv)

lemma collect_groups_eq_group_table:
  "collect_groups m (global_variables m) [] = group_table m"
proof -
  let ?t = "collect_groups m (global_variables m) []"
  have sorted: "sorted_wrt (<) (map fst ?t)"
    by (rule collect_groups_sorted) simp
  have keys: "set (map fst ?t) = set (used_groups m)"
    using collect_groups_keys [of m "global_variables m" "[]"] by (simp add: used_groups_def)
  have fst_t: "map fst ?t = sorted_list_of_set (set (used_groups m))"
    using sorted keys by (metis sorted_list_of_set.idem_if_sorted_distinct strict_sorted_iff)
  have vals: "\<forall>p \<in> set ?t. snd p = members m (global_variables m) (fst p)"
  proof
    fix p assume "p \<in> set ?t"
    moreover have "distinct (map fst ?t)" using sorted by (simp add: strict_sorted_iff)
    ultimately have "map_of ?t (fst p) = Some (snd p)" by simp
    then show "snd p = members m (global_variables m) (fst p)"
      by (simp add: collect_groups_lookup split: if_splits)
  qed
  show ?thesis
    using alist_of_values [OF vals] fst_t by (simp add: group_table_def)
qed


lemma first_repeat_None:
  "first_repeat seen xs = None \<longleftrightarrow> distinct xs \<and> set xs \<inter> set seen = {}"
  by (induction seen xs rule: first_repeat.induct) auto

lemma first_repeat_Some:
  "first_repeat seen xs = Some b \<Longrightarrow> (b \<in> set seen \<and> b \<in> set xs) \<or> 2 \<le> count_list xs b"
proof (induction seen xs rule: first_repeat.induct)
  case (1 seen)
  then show ?case by simp
next
  case (2 seen x xs)
  show ?case
  proof (cases "x \<in> set seen")
    case True
    with "2.prems" show ?thesis by simp
  next
    case False
    with "2.prems" "2.IH" have
      "(b \<in> set (x # seen) \<and> b \<in> set xs) \<or> 2 \<le> count_list xs b" by simp
    moreover have "x \<in> set xs \<Longrightarrow> 2 \<le> count_list (x # xs) x"
      using count_list_0_iff [of xs x] by simp
    ultimately show ?thesis
      by auto
  qed
qed

lemma first_repeat_Some_not_distinct: "first_repeat [] xs = Some b \<Longrightarrow> \<not> distinct xs"
  using first_repeat_None [of "[]" xs] by auto

lemma find_duplicate_None:
  "find_duplicate t = None \<longleftrightarrow> (\<forall>p \<in> set t. distinct (map binding_index (snd p)))"
  by (induction t rule: find_duplicate.induct)
    (auto simp: first_repeat_None dest: first_repeat_Some_not_distinct split: option.splits)

lemma find_duplicate_Some:
  "find_duplicate t = Some b \<Longrightarrow> \<exists>p \<in> set t. 2 \<le> count_list (map binding_index (snd p)) b"
  by (induction t rule: find_duplicate.induct) (auto dest: first_repeat_Some split: option.splits)

lemma binding_indices_members:
  "map binding_index (members m gs k) = map snd (filter (\<lambda>p. fst p = k) (slots gs))"
  by (simp add: members_def slots_def group_binding_of_def filter_map comp_def)

lemma distinct_pairs_by_key:
  "distinct xs \<longleftrightarrow> (\<forall>k. distinct (map snd (filter (\<lambda>p. fst p = k) xs)))"
proof (induction xs)
  case Nil
  then show ?case by simp
next
  case (Cons x xs)
  obtain a b where x: "x = (a, b)" by fastforce
  have "(a, b) \<notin> set xs \<longleftrightarrow> b \<notin> snd ` {p \<in> set xs. fst p = a}"
    by force
  with Cons show ?case
    by (auto simp: x)
qed

lemma count_list_pairs:
  "count_list xs (k, b) = count_list (map snd (filter (\<lambda>p. fst p = k) xs)) b"
  by (induction xs) auto


lemma get_bind_group_data_table:
  "get_bind_group_data m =
     (if \<not> consecutive_groups (group_table m) then Inl NonConsecutiveBindGroups
      else case find_duplicate (group_table m) of
             Some b \<Rightarrow> Inl (DuplicateBinding b)
           | None \<Rightarrow> Inr (map (\<lambda>(k, bs). (k, sort_key binding_index bs)) (group_table m)))"
  by (simp add: get_bind_group_data_def collect_groups_eq_group_table Let_def)

lemma used_groups_slots: "set (used_groups m) = fst ` set (slots (global_variables m))"
  by (force simp: used_groups_def slots_def)

lemma bound_slots_slots: "bound_slots m = slots (global_variables m)"
  by (simp add: bound_slots_def slots_def)

lemma sorted_unat_map:
  "sorted_wrt (<) (xs :: u32 list) \<Longrightarrow> sorted_wrt (<) (map unat xs)"
proof -
  assume "sorted_wrt (<) xs"
  then have "sorted_wrt (\<lambda>x y. unat x < unat y) xs"
    by (rule sorted_wrt_mono_rel [rotated]) (simp add: word_less_nat_alt)
  then show ?thesis by (simp add: sorted_wrt_map)
qed

lemma consecutive_group_table:
  "consecutive_groups (group_table m) \<longleftrightarrow>
     unat ` set (used_groups m) = {0..<card (set (used_groups m))}"
proof -
  let ?U = "set (used_groups m)"
  let ?L = "sorted_list_of_set ?U"
  have "sorted_wrt (<) (map unat ?L)"
    by (rule sorted_unat_map) simp
  then have L: "map unat ?L = sorted_list_of_set (unat ` ?U)"
    by (metis finite_set list.set_map set_sorted_list_of_set
          sorted_list_of_set.idem_if_sorted_distinct strict_sorted_iff)
  have card: "card (unat ` ?U) = card ?U"
    by (simp add: card_image inj_on_def word_unat_eq_iff)
  have "consecutive_groups (group_table m) \<longleftrightarrow> map unat ?L = [0..<card ?U]"
    by (simp add: consecutive_groups_def group_table_def comp_def)
  also have "\<dots> \<longleftrightarrow> unat ` ?U = {0..<card ?U}"
  proof
    assume "map unat ?L = [0..<card ?U]"
    then have "set (map unat ?L) = {0..<card ?U}" by simp
    then show "unat ` ?U = {0..<card ?U}" by simp
  next
    assume "unat ` ?U = {0..<card ?U}"
    then show "map unat ?L = [0..<card ?U]" by (simp add: L)
  qed
  finally show ?thesis .
qed

lemma group_table_distinct:
  "(\<forall>p \<in> set (group_table m). distinct (map binding_index (snd p))) \<longleftrightarrow> distinct (bound_slots m)"
proof -
  let ?S = "slots (global_variables m)"
  have empty: "filter (\<lambda>p. fst p = k) ?S = []" if "k \<notin> set (used_groups m)" for k
    using that by (auto simp: used_groups_slots filter_empty_conv)
  have "(\<forall>p \<in> set (group_table m). distinct (map binding_index (snd p))) \<longleftrightarrow>
        (\<forall>k \<in> set (used_groups m). distinct (map snd (filter (\<lambda>p. fst p = k) ?S)))"
    by (simp add: group_table_def binding_indices_members)
  also have "\<dots> \<longleftrightarrow> (\<forall>k. distinct (map snd (filter (\<lambda>p. fst p = k) ?S)))"
    using empty by auto
  also have "\<dots> \<longleftrightarrow> distinct (bound_slots m)"
    by (simp add: bound_slots_slots distinct_pairs_by_key [symmetric])
  finally show ?thesis .
qed

lemma group_table_duplicate:
  "find_duplicate (group_table m) = Some b \<Longrightarrow> \<exists>k. 2 \<le> count_list (bound_slots m) (k, b)"
  by (fastforce dest!: find_duplicate_Some simp: group_table_def binding_indices_members
        bound_slots_slots count_list_pairs)

text \<open>
  C2: Bind-group analysis fails with \<open>NonConsecutiveBindGroups\<close> exactly when the
  set of group indices in use is not \<open>{0..<n}\<close> for its size \<open>n\<close>, whatever index is missing.
\<close>

theorem get_bind_group_data_NonConsecutive:
  "get_bind_group_data m = Inl NonConsecutiveBindGroups \<longleftrightarrow>
     unat ` set (used_groups m) \<noteq> {0..<card (set (used_groups m))}"
  by (simp add: get_bind_group_data_table consecutive_group_table split: option.splits)

text \<open>
  C3: When bind-group analysis reports \<open>DuplicateBinding b\<close>, binding index \<open>b\<close> is
  really shared: some group holds two resource variables at binding \<open>b\<close>.
\<close>

theorem get_bind_group_data_Duplicate:
  "get_bind_group_data m = Inl (DuplicateBinding b) \<Longrightarrow> \<exists>k. 2 \<le> count_list (bound_slots m) (k, b)"
  by (auto simp: get_bind_group_data_table split: if_splits option.splits intro: group_table_duplicate)

text \<open>
  C4: A program whose groups are consecutive but in which two resource variables
  share a (group, binding) slot is always rejected with \<open>DuplicateBinding\<close>.
\<close>

theorem get_bind_group_data_Duplicate_raised:
  "unat ` set (used_groups m) = {0..<card (set (used_groups m))} \<Longrightarrow> \<not> distinct (bound_slots m) \<Longrightarrow>
   \<exists>b. get_bind_group_data m = Inl (DuplicateBinding b)"
  using group_table_distinct [of m] find_duplicate_None [of "group_table m"]
  by (auto simp: get_bind_group_data_table consecutive_group_table split: option.splits)

lemma sorted_group_table:
  "map (\<lambda>(k, bs). (k, sort_key binding_index bs)) (group_table m) =
   map (\<lambda>k. (k, sort_key binding_index (members m (global_variables m) k)))
       (sorted_list_of_set (set (used_groups m)))"
  by (simp add: group_table_def)

text \<open>
  C1: Bind-group analysis succeeds exactly when the group indices in use are
  \<open>0..n-1\<close> and no two resource variables share a (group, binding) slot; the table it
  then returns has one entry per used group, in ascending group order, listing the
  group's variables ordered by binding index.
\<close>

theorem get_bind_group_data_Inr:
  "get_bind_group_data m = Inr t \<longleftrightarrow>
     unat ` set (used_groups m) = {0..<card (set (used_groups m))} \<and> distinct (bound_slots m) \<and>
     t = map (\<lambda>k. (k, sort_key binding_index (members m (global_variables m) k)))
             (sorted_list_of_set (set (used_groups m)))"
  using group_table_distinct [of m] find_duplicate_None [of "group_table m"]
  by (auto simp: get_bind_group_data_table consecutive_group_table sorted_group_table split: option.splits)


lemma distinct_map_sort_key:
  "distinct (map f (sort_key f xs)) \<longleftrightarrow> distinct (map f xs)"
  by (metis card_distinct distinct_card length_map length_sort list.set_map set_sort)

lemma consecutive_groups_keys:
  "consecutive_groups gs \<Longrightarrow> map fst gs = map of_nat [0..<length gs]"
proof -
  assume "consecutive_groups gs"
  then have "map of_nat (map (\<lambda>p. unat (fst p)) gs) = map (of_nat :: nat \<Rightarrow> u32) [0..<length gs]"
    by (simp add: consecutive_groups_def)
  then show ?thesis by (simp add: comp_def)
qed

lemma get_bind_group_data_consecutive:
  "get_bind_group_data m = Inr t \<Longrightarrow> consecutive_groups t"
proof -
  assume ok: "get_bind_group_data m = Inr t"
  let ?g = "group_table m"
  from ok have cons: "consecutive_groups ?g"
    and t: "t = map (\<lambda>(k, bs). (k, sort_key binding_index bs)) ?g"
    by (auto simp: get_bind_group_data_table split: if_splits option.splits)
  have "map (\<lambda>p. unat (fst p)) t = map (\<lambda>p. unat (fst p)) ?g"
    by (simp add: t case_prod_beta)
  moreover have "length t = length ?g" by (simp add: t)
  ultimately show ?thesis using cons by (simp only: consecutive_groups_def)
qed

text \<open>
  C5: A table returned by bind-group analysis has group keys exactly
  \<open>0, 1, ..., n-1\<close> in order, and within each group strictly increasing binding indices.
\<close>

theorem get_bind_group_data_shape:
  "get_bind_group_data m = Inr t \<Longrightarrow>
   map fst t = map of_nat [0..<length t] \<and> (\<forall>p \<in> set t. sorted_wrt (<) (map binding_index (snd p)))"
proof -
  assume ok: "get_bind_group_data m = Inr t"
  let ?g = "group_table m"
  from ok have dup: "find_duplicate ?g = None"
    and t: "t = map (\<lambda>(k, bs). (k, sort_key binding_index bs)) ?g"
    by (auto simp: get_bind_group_data_table split: if_splits option.splits)
  have keys: "map fst t = map of_nat [0..<length t]"
    by (rule consecutive_groups_keys [OF get_bind_group_data_consecutive [OF ok]])
  have "\<forall>p \<in> set t. sorted_wrt (<) (map binding_index (snd p))"
  proof
    fix p assume "p \<in> set t"
    then obtain k bs where p: "p = (k, sort_key binding_index bs)" and kbs: "(k, bs) \<in> set ?g"
      by (auto simp: t)
    from dup kbs have "distinct (map binding_index bs)"
      by (auto simp: find_duplicate_None)
    then show "sorted_wrt (<) (map binding_index (snd p))"
      by (simp add: p strict_sorted_iff distinct_map_sort_key)
  qed
  with keys show ?thesis by simp
qed

theorem get_bind_group_data_Inr_witness:
  "\<exists>t. get_bind_group_data example_two_groups = Inr t \<and>
       unat ` set (used_groups example_two_groups) = {0..<card (set (used_groups example_two_groups))} \<and>
       distinct (bound_slots example_two_groups)"
proof -
  obtain t where t: "get_bind_group_data example_two_groups = Inr t"
    by (simp add: get_bind_group_data_def example_defs consecutive_groups_def group_binding_of_def)
  then show ?thesis
    using get_bind_group_data_Inr [of example_two_groups t] by blast
qed

theorem get_bind_group_data_NonConsecutive_witness:
  "get_bind_group_data example_gap = Inl NonConsecutiveBindGroups \<and>
   unat ` set (used_groups example_gap) \<noteq> {0..<card (set (used_groups example_gap))}"
proof -
  have h: "get_bind_group_data example_gap = Inl NonConsecutiveBindGroups"
    by (simp add: get_bind_group_data_def example_defs consecutive_groups_def group_binding_of_def)
  then show ?thesis
    using get_bind_group_data_NonConsecutive [of example_gap] by simp
qed

theorem get_bind_group_data_Duplicate_witness:
  "get_bind_group_data example_duplicate = Inl (DuplicateBinding 2) \<and>
   (\<exists>k. 2 \<le> count_list (bound_slots example_duplicate) (k, 2))"
proof -
  have h: "get_bind_group_data example_duplicate = Inl (DuplicateBinding 2)"
    by (simp add: get_bind_group_data_def example_defs consecutive_groups_def group_binding_of_def)
  then show ?thesis
    using get_bind_group_data_Duplicate [OF h] by simp
qed

theorem get_bind_group_data_Duplicate_raised_witness:
  "unat ` set (used_groups example_duplicate) = {0..<card (set (used_groups example_duplicate))} \<and>
   \<not> distinct (bound_slots example_duplicate) \<and>
   (\<exists>b. get_bind_group_data example_duplicate = Inl (DuplicateBinding b))"
proof -
  have h1: "unat ` set (used_groups example_duplicate) = {0..<card (set (used_groups example_duplicate))}"
    by (simp add: used_groups_def bound_def example_defs)
  have h2: "\<not> distinct (bound_slots example_duplicate)"
    by (simp add: bound_slots_def bound_def example_defs)
  show ?thesis
    using h1 h2 get_bind_group_data_Duplicate_raised [OF h1 h2] by blast
qed

theorem get_bind_group_data_shape_witness:
  "\<exists>t. get_bind_group_data example_two_groups = Inr t \<and> map fst t = map of_nat [0..<length t] \<and>
       (\<forall>p \<in> set t. sorted_wrt (<) (map binding_index (snd p)))"
proof -
  obtain t where t: "get_bind_group_data example_two_groups = Inr t"
    by (simp add: get_bind_group_data_def example_defs consecutive_groups_def group_binding_of_def)
  then show ?thesis
    using get_bind_group_data_shape [OF t] by blast
qed

end
