(* ===== verification/Base32.thy ===== *)
theory Base32
  imports Prelude
begin

text \<open>
  RFC 4648 base32 without padding (\<open>data_encoding::BASE32_NOPAD\<close>), the encoding the
  shader composer uses to embed a module path in a mangled identifier. A byte string
  is read as a bit string (eight bits per byte, most significant first), cut into
  groups of five bits, the last group filled with zero bits, and each group written
  as one letter of \<open>A..Z2..7\<close>. Decoding inverts this and rejects what the
  library rejects: a letter outside the alphabet, a length that leaves five or more
  spare bits, and spare bits that are not zero. The theory proves the round trip
  \<open>decode (encode s) = Some s\<close>.
\<close>

fun nat_to_bits :: "nat \<Rightarrow> nat \<Rightarrow> bool list" where
  "nat_to_bits 0 n = []"
| "nat_to_bits (Suc w) n = nat_to_bits w (n div 2) @ [odd n]"

definition bits_to_nat :: "bool list \<Rightarrow> nat" where
  "bits_to_nat bs = foldl (\<lambda>a b. 2 * a + (if b then 1 else 0)) 0 bs"

definition byte_bits :: "char \<Rightarrow> bool list" where
  "byte_bits c = nat_to_bits 8 (of_char c)"

text \<open>Cutting a list into groups of \<open>k\<close> elements, the last one possibly shorter.\<close>

function chunks :: "nat \<Rightarrow> 'a list \<Rightarrow> 'a list list" where
  "chunks k xs = (if xs = [] \<or> k = 0 then [] else take k xs # chunks k (drop k xs))"
  by pat_completeness auto
termination
  by (relation "measure (\<lambda>(k, xs). length xs)") auto

definition pad_to :: "nat \<Rightarrow> bool list \<Rightarrow> bool list" where
  "pad_to k g = g @ replicate (k - length g) False"

text \<open>The alphabet: 0..25 are \<open>A..Z\<close>, 26..31 are \<open>2..7\<close>.\<close>

definition b32_char :: "nat \<Rightarrow> char" where
  "b32_char i = (if i < 26 then char_of (65 + i) else char_of (24 + i))"

definition b32_value :: "char \<Rightarrow> nat option" where
  "b32_value c =
     (let n = (of_char c :: nat) in
      if 65 \<le> n \<and> n \<le> 90 then Some (n - 65)
      else if 50 \<le> n \<and> n \<le> 55 then Some (n - 24)
      else None)"

definition base32_encode :: "string \<Rightarrow> string" where
  "base32_encode s =
     map (\<lambda>g. b32_char (bits_to_nat (pad_to 5 g))) (chunks 5 (concat (map byte_bits s)))"

fun opt_map :: "('a \<Rightarrow> 'b option) \<Rightarrow> 'a list \<Rightarrow> 'b list option" where
  "opt_map f [] = Some []"
| "opt_map f (x # xs) =
     (case f x of None \<Rightarrow> None
      | Some y \<Rightarrow> (case opt_map f xs of None \<Rightarrow> None | Some ys \<Rightarrow> Some (y # ys)))"

definition base32_decode :: "string \<Rightarrow> string option" where
  "base32_decode t =
     (case opt_map b32_value t of
        None \<Rightarrow> None
      | Some vs \<Rightarrow>
          (let bits = concat (map (nat_to_bits 5) vs);
               n = length bits div 8;
               spare = drop (8 * n) bits
           in if length spare < 5 \<and> (\<forall>b \<in> set spare. \<not> b)
              then Some (map (\<lambda>g. char_of (bits_to_nat g)) (chunks 8 (take (8 * n) bits)))
              else None))"

declare chunks.simps [simp del]

lemma length_nat_to_bits [simp]: "length (nat_to_bits w n) = w"
  by (induction w arbitrary: n) auto

lemma bits_to_nat_Nil [simp]: "bits_to_nat [] = 0"
  by (simp add: bits_to_nat_def)

lemma bits_to_nat_snoc [simp]: "bits_to_nat (bs @ [b]) = 2 * bits_to_nat bs + (if b then 1 else 0)"
  by (simp add: bits_to_nat_def)

lemma bits_to_nat_nat_to_bits: "bits_to_nat (nat_to_bits w n) = n mod 2 ^ w"
proof (induction w arbitrary: n)
  case 0
  then show ?case by (simp add: bits_to_nat_def)
next
  case (Suc w)
  have "2 * ((n div 2) mod 2 ^ w) + n mod 2 = n mod (2 * 2 ^ w)"
    by (simp add: mod_mult2_eq add.commute)
  with Suc show ?case by (auto simp: odd_iff_mod_2_eq_one)
qed

lemma bits_to_nat_bound: "bits_to_nat bs < 2 ^ length bs"
  by (induction bs rule: rev_induct) auto

lemma nat_to_bits_bits_to_nat: "nat_to_bits (length bs) (bits_to_nat bs) = bs"
proof (induction bs rule: rev_induct)
  case Nil
  then show ?case by simp
next
  case (snoc b bs)
  have "(2 * bits_to_nat bs + (if b then 1 else 0)) div 2 = bits_to_nat bs" by auto
  with snoc show ?case by simp
qed

lemma length_byte_bits [simp]: "length (byte_bits c) = 8"
  by (simp add: byte_bits_def)

lemma char_of_byte_bits [simp]: "char_of (bits_to_nat (byte_bits c)) = c"
  by (simp add: byte_bits_def bits_to_nat_nat_to_bits)

lemma chunks_Nil [simp]: "chunks k [] = []"
  by (simp add: chunks.simps)

lemma chunks_append_full:
  "length xs = k \<Longrightarrow> 0 < k \<Longrightarrow> chunks k (xs @ ys) = xs # chunks k ys"
  by (subst chunks.simps) auto

lemma chunks_concat_bytes: "chunks 8 (concat (map byte_bits s)) = map byte_bits s"
  by (induction s) (simp_all add: chunks_append_full)

lemma b32_value_char: "i < 32 \<Longrightarrow> b32_value (b32_char i) = Some i"
  by (auto simp: b32_value_def b32_char_def Let_def)

lemma bits_to_nat_pad_bound: "length g \<le> 5 \<Longrightarrow> bits_to_nat (pad_to 5 g) < 32"
  using bits_to_nat_bound [of "pad_to 5 g"] by (simp add: pad_to_def)

lemma chunks_length: "0 < k \<Longrightarrow> g \<in> set (chunks k xs) \<Longrightarrow> length g \<le> k"
proof (induction k xs rule: chunks.induct)
  case (1 k xs)
  then show ?case by (subst (asm) chunks.simps) (auto split: if_splits)
qed

lemma concat_padded_chunks:
  "0 < k \<Longrightarrow>
   concat (map (\<lambda>g. g @ replicate (k - length g) x) (chunks k xs)) =
     xs @ replicate ((k - length xs mod k) mod k) x"
proof (induction k xs rule: chunks.induct)
  case (1 k xs)
  show ?case
  proof (cases "xs = []")
    case True
    then show ?thesis by simp
  next
    case False
    show ?thesis
    proof (cases "length xs \<le> k")
      case True
      with False \<open>0 < k\<close> have "chunks k xs = [xs]"
        by (subst chunks.simps) simp
      moreover have "(k - length xs mod k) mod k = k - length xs"
        using True False \<open>0 < k\<close> by (cases "length xs = k") auto
      ultimately show ?thesis by simp
    next
      case long: False
      with False \<open>0 < k\<close> have c: "chunks k xs = take k xs # chunks k (drop k xs)"
        by (subst chunks.simps) simp
      have m: "(length xs - k) mod k = length xs mod k"
        using long by (simp add: le_mod_geq)
      have IH: "concat (map (\<lambda>g. g @ replicate (k - length g) x) (chunks k (drop k xs))) =
                drop k xs @ replicate ((k - length (drop k xs) mod k) mod k) x"
        using "1.IH" False \<open>0 < k\<close> by blast
      have "length (take k xs) = k" using long by simp
      then have "concat (map (\<lambda>g. g @ replicate (k - length g) x) (chunks k xs)) =
                 (take k xs @ drop k xs) @ replicate ((k - length xs mod k) mod k) x"
        by (simp add: c IH m)
      then show ?thesis by simp
    qed
  qed
qed

lemma opt_map_map_Some:
  "(\<And>x. x \<in> set xs \<Longrightarrow> f (g x) = Some (h x)) \<Longrightarrow> opt_map f (map g xs) = Some (map h xs)"
  by (induction xs) auto

lemma length_pad_to: "length g \<le> k \<Longrightarrow> length (pad_to k g) = k"
  by (simp add: pad_to_def)

lemma base32_decode_encode: "base32_decode (base32_encode s) = Some s"
proof -
  let ?B = "concat (map byte_bits s)"
  let ?G = "chunks 5 ?B"
  let ?p = "(5 - length ?B mod 5) mod 5"
  have vals: "opt_map b32_value (base32_encode s) = Some (map (\<lambda>g. bits_to_nat (pad_to 5 g)) ?G)"
    unfolding base32_encode_def
    by (rule opt_map_map_Some) (simp add: b32_value_char bits_to_nat_pad_bound chunks_length)
  have each: "nat_to_bits 5 (bits_to_nat (pad_to 5 g)) = pad_to 5 g" if "g \<in> set ?G" for g
  proof -
    from that have "length (pad_to 5 g) = 5"
      by (simp add: length_pad_to chunks_length)
    then show ?thesis by (metis nat_to_bits_bits_to_nat)
  qed
  have "map (nat_to_bits 5) (map (\<lambda>g. bits_to_nat (pad_to 5 g)) ?G) = map (pad_to 5) ?G"
    using each by simp
  then have "concat (map (nat_to_bits 5) (map (\<lambda>g. bits_to_nat (pad_to 5 g)) ?G)) =
             concat (map (pad_to 5) ?G)"
    by (rule arg_cong)
  also have "\<dots> = ?B @ replicate ?p False"
    using concat_padded_chunks [of 5 False ?B] by (simp add: pad_to_def [abs_def])
  finally have bits: "concat (map (nat_to_bits 5) (map (\<lambda>g. bits_to_nat (pad_to 5 g)) ?G)) =
                   ?B @ replicate ?p False" .
  have lenB: "length ?B = 8 * length s"
    by (induction s) auto
  have p5: "?p < 5" by simp
  then have n: "(length ?B + ?p) div 8 = length s"
    using lenB by simp
  show ?thesis
    unfolding base32_decode_def vals option.case(2) bits Let_def
    using p5 by (simp add: n lenB chunks_concat_bytes comp_def)
qed

end
