(* ===== verification/Demangle.thy ===== *)
theory Demangle
  imports Base32
begin

text \<open>
  Cross-module identifiers. The shader composer (naga_oil, outside this repository)
  renames an item \<open>B\<close> imported from module \<open>P\<close> to
  \<open>B ++ "X_naga_oil_mod_X" ++ base32(P) ++ "X"\<close>. \<open>bevy_util::demangle\<close> undoes it
  with the regular expression \<open>([\w\d_]+)X_naga_oil_mod_X([A-Z0-9]*)X\<close>, replacing
  a match by \<open>P::B\<close>; \<open>demangle_splitting_mod_path_and_item\<close> then splits the result
  at its last \<open>::\<close>. Both are modelled from the spec and the composer's convention,
  on identifiers (strings of word characters), where the greedy regular expression
  picks the last occurrence of the decoration that is followed by a base32 run and
  an \<open>X\<close>. \<open>demangle_and_qualify\<close> and \<open>RustSourceItem::from_mangled\<close>
  (\<open>src/wgsl_bindgen/src/quote_gen/utils.rs\<close>) are translated from the source. A
  decoration whose base32 payload does not decode makes the code panic
  (\<open>unwrap\<close>), which is the \<open>Panic\<close> branch here.
\<close>

definition decoration_pre :: string where
  "decoration_pre = ''X_naga_oil_mod_X''"

definition decoration_post :: string where
  "decoration_post = ''X''"

definition mod_reference_root :: string where
  "mod_reference_root = ''_root''"

text \<open>The composer's decoration of an item name with its module path.\<close>

definition mangle :: "string \<Rightarrow> string \<Rightarrow> string" where
  "mangle item path = item @ decoration_pre @ base32_encode path @ decoration_post"

definition is_word_char :: "char \<Rightarrow> bool" where
  "is_word_char c \<longleftrightarrow>
     (let n = (of_char c :: nat) in (48 \<le> n \<and> n \<le> 57) \<or> (65 \<le> n \<and> n \<le> 90) \<or> (97 \<le> n \<and> n \<le> 122) \<or> n = 95)"

definition is_upper_digit :: "char \<Rightarrow> bool" where
  "is_upper_digit c \<longleftrightarrow> (let n = (of_char c :: nat) in (48 \<le> n \<and> n \<le> 57) \<or> (65 \<le> n \<and> n \<le> 90))"

definition last_index_of :: "char \<Rightarrow> string \<Rightarrow> nat option" where
  "last_index_of c s =
     (let is = filter (\<lambda>i. s ! i = c) [0..<length s] in if is = [] then None else Some (last is))"

text \<open>
  A decoration at the start of \<open>r\<close>: the prefix, then the longest run of
  \<open>[A-Z0-9]\<close> that still leaves an \<open>X\<close> after it (the greedy \<open>*\<close> backs off to the
  last \<open>X\<close> of the run). Returns the payload and what follows the closing \<open>X\<close>.
\<close>

definition decoration_at :: "string \<Rightarrow> (string \<times> string) option" where
  "decoration_at r =
     (if take (length decoration_pre) r \<noteq> decoration_pre then None
      else let t = drop (length decoration_pre) r; run = takeWhile is_upper_digit t in
           case last_index_of (CHR ''X'') run of
             None \<Rightarrow> None
           | Some j \<Rightarrow> Some (take j run, drop (Suc j) t))"

text \<open>The last position \<open>i \<ge> 1\<close> where a word-character item ends and a decoration starts.\<close>

definition last_decoration :: "string \<Rightarrow> (nat \<times> string \<times> string) option" where
  "last_decoration s =
     (let is = filter (\<lambda>i. list_all is_word_char (take i s) \<and> decoration_at (drop i s) \<noteq> None)
                 [1..<length s]
      in if is = [] then None
         else case decoration_at (drop (last is) s) of
                None \<Rightarrow> None
              | Some (e, rest) \<Rightarrow> Some (last is, e, rest))"

definition demangle :: "string \<Rightarrow> string gen" where
  "demangle s =
     (case last_decoration s of
        None \<Rightarrow> Inr s
      | Some (i, e, rest) \<Rightarrow>
          (case base32_decode e of
             None \<Rightarrow> Inl (Panic ''invalid base32 module name'')
           | Some path \<Rightarrow> Inr (path @ ''::'' @ take i s @ rest)))"

fun has_sep :: "string \<Rightarrow> bool" where
  "has_sep (a # b # rest) = ((a = CHR '':'' \<and> b = CHR '':'') \<or> has_sep (b # rest))"
| "has_sep _ = False"

definition last_sep :: "string \<Rightarrow> nat option" where
  "last_sep d =
     (let ps = filter (\<lambda>p. take 2 (drop p d) = ''::'') [0..<length d] in
      if ps = [] then None else Some (last ps))"

definition rsplit_path :: "string \<Rightarrow> string option \<times> string" where
  "rsplit_path d = (case last_sep d of None \<Rightarrow> (None, d) | Some p \<Rightarrow> (Some (take p d), drop (p + 2) d))"

definition demangle_splitting_mod_path_and_item :: "string \<Rightarrow> (string option \<times> string) gen" where
  "demangle_splitting_mod_path_and_item s = gen_bind (demangle s) (\<lambda>d. Inr (rsplit_path d))"

text \<open>
  \<open>demangle_and_qualify\<close> (utils.rs): a demangled path is qualified from the shared
  root and handed to \<open>syn::parse_str\<close>, whose result is \<open>unwrap\<close>ped. The parser
  belongs to syn, so it is a parameter: it returns the tokens of a text that
  lexes, or \<open>None\<close> for one that does not (an \<open>Err\<close>, and then a panic).
\<close>

definition demangle_and_qualify :: "(string \<Rightarrow> 't option) \<Rightarrow> string \<Rightarrow> 't gen" where
  "demangle_and_qualify parse_str s =
     gen_bind (demangle s)
       (\<lambda>demangled. expect ''called `Result::unwrap()` on an `Err` value''
          (parse_str (if has_sep demangled then mod_reference_root @ ''::'' @ demangled else demangled)))"

record 'a rust_source_item =
  mod_path :: "string option"
  item_name :: string
  item :: 'a

text \<open>\<open>RustSourceItem::from_mangled\<close> (utils.rs).\<close>

definition from_mangled :: "string \<Rightarrow> 'a \<Rightarrow> 'a rust_source_item gen" where
  "from_mangled name tokens =
     gen_bind (demangle_splitting_mod_path_and_item name)
       (\<lambda>(p, n). Inr \<lparr>mod_path = p, item_name = n, item = tokens\<rparr>)"

lemma last_filter_upt:
  "a \<le> k \<Longrightarrow> k < b \<Longrightarrow> P k \<Longrightarrow> (\<forall>j. k < j \<and> j < b \<longrightarrow> \<not> P j) \<Longrightarrow>
   filter P [a..<b] \<noteq> [] \<and> last (filter P [a..<b]) = k"
proof (induction b)
  case 0
  then show ?case by simp
next
  case (Suc b)
  show ?case
  proof (cases "k = b")
    case True
    with Suc.prems show ?thesis by simp
  next
    case False
    with Suc.prems have "k < b" and "\<not> P b" by auto
    with Suc.IH Suc.prems show ?thesis by simp
  qed
qed

lemma b32_char_upper_digit: "i < 32 \<Longrightarrow> is_upper_digit (b32_char i)"
  by (auto simp: is_upper_digit_def b32_char_def Let_def)

lemma base32_encode_upper_digit: "c \<in> set (base32_encode s) \<Longrightarrow> is_upper_digit c"
  by (auto simp: base32_encode_def intro!: b32_char_upper_digit bits_to_nat_pad_bound
           dest: chunks_length [rotated])

lemma decoration_at_mangled:
  "decoration_at (decoration_pre @ base32_encode p @ decoration_post) = Some (base32_encode p, [])"
proof -
  let ?e = "base32_encode p"
  have X: "is_upper_digit (CHR ''X'')" by (simp add: is_upper_digit_def)
  have run: "takeWhile is_upper_digit (?e @ ''X'') = ?e @ ''X''"
    using base32_encode_upper_digit X by (simp add: takeWhile_eq_all_conv)
  have "filter (\<lambda>i. (?e @ ''X'') ! i = CHR ''X'') [0..<length (?e @ ''X'')] \<noteq> [] \<and>
        last (filter (\<lambda>i. (?e @ ''X'') ! i = CHR ''X'') [0..<length (?e @ ''X'')]) = length ?e"
    by (rule last_filter_upt) (auto simp: nth_append)
  then have "last_index_of (CHR ''X'') (?e @ ''X'') = Some (length ?e)"
    by (simp add: last_index_of_def)
  then show ?thesis
    by (simp add: decoration_at_def decoration_post_def run)
qed

lemma decoration_pre_overlaps: "list_all (\<lambda>d. take (16 - d) decoration_pre \<noteq> drop d decoration_pre) [1..<15]"
  by (simp add: decoration_pre_def upt_rec)

lemma underscore_not_upper_digit: "\<not> is_upper_digit (CHR ''_'')"
  by (simp add: is_upper_digit_def)

lemma length_decoration_pre: "length decoration_pre = 16"
  by (simp add: decoration_pre_def)

lemma no_decoration_inside:
  assumes w: "\<forall>c \<in> set w. is_upper_digit c" and d: "0 < d"
  shows "take 16 (drop d (decoration_pre @ w)) \<noteq> decoration_pre"
proof
  assume eq: "take 16 (drop d (decoration_pre @ w)) = decoration_pre"
  consider "d < 15" | "d = 15" | "16 \<le> d" by linarith
  then show False
  proof cases
    case 1
    have "take (16 - d) (take 16 (drop d (decoration_pre @ w))) = drop d decoration_pre"
      using 1 by (simp add: length_decoration_pre)
    with eq have "take (16 - d) decoration_pre = drop d decoration_pre" by simp
    moreover have "d \<in> set [1..<15]" using 1 d by simp
    ultimately show False using decoration_pre_overlaps by (simp add: list_all_iff)
  next
    case 2
    with eq have "take 15 w = drop 1 decoration_pre"
      by (simp add: decoration_pre_def)
    then have "CHR ''_'' \<in> set (take 15 w)" by (simp add: decoration_pre_def)
    then have "CHR ''_'' \<in> set w" by (rule in_set_takeD)
    with w underscore_not_upper_digit show False by blast
  next
    case 3
    with eq have "take 16 (drop (d - 16) w) = decoration_pre"
      by (simp add: length_decoration_pre)
    then have "CHR ''_'' \<in> set (take 16 (drop (d - 16) w))" by (simp add: decoration_pre_def)
    then have "CHR ''_'' \<in> set w" by (meson in_set_dropD in_set_takeD)
    with w underscore_not_upper_digit show False by blast
  qed
qed

lemma colon_not_word_char: "\<not> is_word_char CHR '':''"
  by (simp add: is_word_char_def)

lemma decoration_at_None: "take 16 r \<noteq> decoration_pre \<Longrightarrow> decoration_at r = None"
  by (simp add: decoration_at_def length_decoration_pre)

lemma last_decoration_mangle:
  assumes nm: "nm \<noteq> []" "list_all is_word_char nm"
  shows "last_decoration (mangle nm path) = Some (length nm, base32_encode path, [])"
proof -
  let ?w = "base32_encode path @ decoration_post"
  let ?s = "mangle nm path"
  have s: "?s = nm @ decoration_pre @ ?w" by (simp add: mangle_def)
  have w: "\<forall>c \<in> set ?w. is_upper_digit c"
    using base32_encode_upper_digit by (auto simp: decoration_post_def is_upper_digit_def)
  have at: "decoration_at (drop (length nm) ?s) = Some (base32_encode path, [])"
    using decoration_at_mangled [of path] by (simp add: s)
  let ?P = "\<lambda>i. list_all is_word_char (take i ?s) \<and> decoration_at (drop i ?s) \<noteq> None"
  have later: "\<not> ?P j" if "length nm < j" for j
  proof -
    have "drop j ?s = drop (j - length nm) (decoration_pre @ ?w)"
      using that by (simp add: s)
    then have "decoration_at (drop j ?s) = None"
      using no_decoration_inside [OF w, of "j - length nm"] that by (simp add: decoration_at_None)
    then show ?thesis by simp
  qed
  have k1: "1 \<le> length nm" using nm by (cases nm) auto
  have k2: "length nm < length ?s" by (simp add: s decoration_pre_def)
  have "take (length nm) ?s = nm" by (simp add: s)
  then have Pk: "?P (length nm)" using at nm by simp
  have "filter ?P [1..<length ?s] \<noteq> [] \<and> last (filter ?P [1..<length ?s]) = length nm"
    by (rule last_filter_upt [where P = "?P", OF k1 k2 Pk]) (use later in blast)
  then show ?thesis
    by (simp add: last_decoration_def at Let_def)
qed

lemma demangle_mangle:
  "nm \<noteq> [] \<Longrightarrow> list_all is_word_char nm \<Longrightarrow>
   demangle (mangle nm path) = Inr (path @ ''::'' @ nm)"
  by (simp add: demangle_def last_decoration_mangle base32_decode_encode) (simp add: mangle_def)

lemma sep_at: "take 2 (drop j d) = ''::'' \<Longrightarrow> Suc j < length d \<and> d ! Suc j = CHR '':''"
proof -
  assume h: "take 2 (drop j d) = ''::''"
  then have "length (take 2 (drop j d)) = 2" by simp
  then have len: "Suc j < length d" by simp
  have "take 2 (drop j d) ! 1 = d ! Suc j" using len by simp
  with h len show ?thesis by simp
qed

lemma last_sep_join:
  assumes "CHR '':'' \<notin> set nm"
  shows "last_sep (path @ ''::'' @ nm) = Some (length path)"
proof -
  let ?d = "path @ ''::'' @ nm"
  let ?P = "\<lambda>p. take 2 (drop p ?d) = ''::''"
  have later: "\<not> ?P j" if "length path < j" for j
  proof
    assume "?P j"
    then have "Suc j < length ?d \<and> ?d ! Suc j = CHR '':''" by (rule sep_at)
    then have c: "?d ! Suc j = CHR '':''" and "Suc j < length ?d" by simp_all
    then have "?d ! Suc j = nm ! (Suc j - length path - 2)" and "Suc j - length path - 2 < length nm"
      using that by (auto simp: nth_append)
    with c assms show False by (metis nth_mem)
  qed
  have "filter ?P [0..<length ?d] \<noteq> [] \<and> last (filter ?P [0..<length ?d]) = length path"
    by (rule last_filter_upt) (use later in auto)
  then show ?thesis by (simp add: last_sep_def Let_def)
qed

lemma rsplit_path_join:
  "CHR '':'' \<notin> set nm \<Longrightarrow> rsplit_path (path @ CHR '':'' # CHR '':'' # nm) = (Some path, nm)"
  using last_sep_join [of nm path] by (simp add: rsplit_path_def)

lemma has_sep_join: "has_sep (xs @ CHR '':'' # CHR '':'' # ys)"
proof (induction xs)
  case Nil
  then show ?case by simp
next
  case (Cons a xs)
  then show ?case by (cases "xs @ CHR '':'' # CHR '':'' # ys") auto
qed

lemma no_colon_item: "list_all is_word_char nm \<Longrightarrow> CHR '':'' \<notin> set nm"
  using colon_not_word_char by (auto simp: list_all_iff)

text \<open>
  C6. Round trip of the composer's mangling through \<open>RustSourceItem::from_mangled\<close>:
  for a nonempty identifier \<open>nm\<close> of word characters and any module path,
  demangling \<open>mangle nm path\<close> gives back the module path and the item name, and the
  item's tokens are kept.
\<close>

theorem from_mangled_mangle:
  "nm \<noteq> [] \<Longrightarrow> list_all is_word_char nm \<Longrightarrow>
   from_mangled (mangle nm path) t = Inr \<lparr>mod_path = Some path, item_name = nm, item = t\<rparr>"
  by (simp add: from_mangled_def demangle_splitting_mod_path_and_item_def demangle_mangle
        rsplit_path_join no_colon_item)

text \<open>
  C7. On a mangled identifier, \<open>demangle_and_qualify\<close> hands the parser exactly
  the fully qualified path \<open>_root::path::nm\<close>: the result is the parser's tokens
  for that text, or the \<open>unwrap\<close> panic when the text does not lex.
\<close>

theorem demangle_and_qualify_mangle:
  "nm \<noteq> [] \<Longrightarrow> list_all is_word_char nm \<Longrightarrow>
   demangle_and_qualify parse_str (mangle nm path) =
     expect ''called `Result::unwrap()` on an `Err` value''
       (parse_str (mod_reference_root @ ''::'' @ path @ ''::'' @ nm))"
  by (simp add: demangle_and_qualify_def demangle_mangle has_sep_join)

lemma last_decoration_None:
  "\<forall>i<length s. take 16 (drop i s) \<noteq> decoration_pre \<Longrightarrow> last_decoration s = None"
  by (auto simp: last_decoration_def Let_def filter_empty_conv decoration_at_None)

lemma has_sep_no_colon: "CHR '':'' \<notin> set d \<Longrightarrow> \<not> has_sep d"
  by (induction d rule: has_sep.induct) auto

lemma last_sep_no_colon: "CHR '':'' \<notin> set d \<Longrightarrow> last_sep d = None"
  by (auto simp: last_sep_def Let_def filter_empty_conv dest!: sep_at) (metis nth_mem)

text \<open>
  C8. An identifier that carries no decoration and no \<open>::\<close> is not qualified:
  \<open>demangle_and_qualify\<close> hands it to the parser unchanged (its tokens, or the
  \<open>unwrap\<close> panic when it does not lex), and \<open>from_mangled\<close> places the item at the
  source root (no module path) under that name.
\<close>

theorem plain_identifier_unchanged:
  "\<forall>i<length s. take 16 (drop i s) \<noteq> decoration_pre \<Longrightarrow> CHR '':'' \<notin> set s \<Longrightarrow>
   demangle_and_qualify parse_str s = expect ''called `Result::unwrap()` on an `Err` value'' (parse_str s) \<and>
   from_mangled s t = Inr \<lparr>mod_path = None, item_name = s, item = t\<rparr>"
  by (simp add: demangle_and_qualify_def from_mangled_def demangle_splitting_mod_path_and_item_def
      demangle_def last_decoration_None has_sep_no_colon rsplit_path_def last_sep_no_colon)

lemma mangle_Uniforms_types: "mangle ''Uniforms'' ''types'' = ''UniformsX_naga_oil_mod_XOR4XAZLTX''"
  by code_simp

theorem from_mangled_mangle_witness:
  "''Uniforms'' \<noteq> [] \<and> list_all is_word_char ''Uniforms'' \<and>
   from_mangled ''UniformsX_naga_oil_mod_XOR4XAZLTX'' (0::nat) =
     Inr \<lparr>mod_path = Some ''types'', item_name = ''Uniforms'', item = 0\<rparr>"
  using from_mangled_mangle [of "''Uniforms''" "''types''" "0::nat"]
  by (simp add: mangle_Uniforms_types is_word_char_def)

theorem demangle_and_qualify_mangle_witness:
  "''Uniforms'' \<noteq> [] \<and> list_all is_word_char ''Uniforms'' \<and>
   demangle_and_qualify Some ''UniformsX_naga_oil_mod_XOR4XAZLTX'' = Inr ''_root::types::Uniforms'' \<and>
   demangle_and_qualify (\<lambda>_. None :: string option) ''UniformsX_naga_oil_mod_XOR4XAZLTX'' =
     Inl (Panic ''called `Result::unwrap()` on an `Err` value'')"
  using demangle_and_qualify_mangle [of "''Uniforms''" Some "''types''"]
        demangle_and_qualify_mangle [of "''Uniforms''" "\<lambda>_. None :: string option" "''types''"]
  by (simp add: mangle_Uniforms_types is_word_char_def mod_reference_root_def)

theorem plain_identifier_unchanged_witness:
  "demangle_and_qualify Some ''MatricesF64'' = Inr ''MatricesF64'' \<and>
   from_mangled ''MatricesF64'' (0::nat) = Inr \<lparr>mod_path = None, item_name = ''MatricesF64'', item = 0\<rparr>"
proof -
  have h: "\<forall>i<length ''MatricesF64''. take 16 (drop i ''MatricesF64'') \<noteq> decoration_pre"
    by (simp add: decoration_pre_def All_less_Suc)
  show ?thesis using plain_identifier_unchanged [OF h, of Some "0::nat"] by simp
qed

end
