(* ===== verification/Tokens.thy ===== *)
theory Tokens
  imports Naga
begin

text \<open>
  The vocabulary of generated code. \<open>lib.rs\<close> builds \<open>proc_macro2::TokenStream\<close>s
  with \<open>quote!\<close>; a token stream is modelled as a list of \<open>rust_item\<close>s, one
  constructor per shape of declaration the generator writes, carrying exactly the
  values the code splices into it (\<open>quote!()\<close> is the empty list). The theory also
  holds the library functions the generator calls to make names:
  \<open>Ident::new\<close> (which panics on a string that is not an identifier),
  \<open>CaseExt::to_snake\<close>, and \<open>wgsl::vertex_format\<close> with the \<open>Debug\<close> names of
  \<open>wgpu::VertexFormat\<close>.
\<close>

section \<open>Identifiers\<close>

definition is_ascii_lower :: "char \<Rightarrow> bool" where
  "is_ascii_lower c \<longleftrightarrow> (97::nat) \<le> of_char c \<and> of_char c \<le> (122::nat)"

definition is_ascii_digit :: "char \<Rightarrow> bool" where
  "is_ascii_digit c \<longleftrightarrow> (48::nat) \<le> of_char c \<and> of_char c \<le> (57::nat)"

definition is_ident_start :: "char \<Rightarrow> bool" where
  "is_ident_start c \<longleftrightarrow> is_ascii_upper c \<or> is_ascii_lower c \<or> c = CHR ''_''"

definition is_ident_continue :: "char \<Rightarrow> bool" where
  "is_ident_continue c \<longleftrightarrow> is_ident_start c \<or> is_ascii_digit c"

text \<open>
  \<open>Ident::new(s, Span::call_site())\<close>: proc_macro2's \<open>validate_ident\<close> panics on
  the empty string, on a string of digits, and on anything that does not start
  with an identifier-start character followed by identifier-continue characters
  (on ASCII strings).
\<close>

definition ident :: "string \<Rightarrow> string gen" where
  "ident s =
     (if s = [] then Inl (Panic ''Ident is not allowed to be empty; use Option<Ident>'')
      else if list_all is_ascii_digit s then Inl (Panic ''Ident cannot be a number; use Literal instead'')
      else if is_ident_start (hd s) \<and> list_all is_ident_continue (tl s) then Inr s
      else Inl (Panic ''not a valid Ident''))"

definition valid_ident :: "string \<Rightarrow> bool" where
  "valid_ident s \<longleftrightarrow> s \<noteq> [] \<and> is_ident_start (hd s) \<and> list_all is_ident_continue (tl s)"

text \<open>
  \<open>CaseExt::to_snake\<close> (crate \<open>case\<close>): an underscore before every upper-case
  letter but the first, and every letter lower-cased.
\<close>

fun to_snake_from :: "bool \<Rightarrow> string \<Rightarrow> string" where
  "to_snake_from first [] = []"
| "to_snake_from first (c # cs) =
     (if \<not> first \<and> is_ascii_upper c then CHR ''_'' # ascii_lower c # to_snake_from False cs
      else ascii_lower c # to_snake_from False cs)"

definition to_snake :: "string \<Rightarrow> string" where
  "to_snake s = to_snake_from True s"

section \<open>Vertex formats\<close>

datatype vertex_format =
    Uint32 | Uint32x2 | Uint32x3 | Uint32x4
  | Sint32 | Sint32x2 | Sint32x3 | Sint32x4
  | Float32 | Float32x2 | Float32x3 | Float32x4
  | Float64 | Float64x2 | Float64x3 | Float64x4

text \<open>
  \<open>wgsl::vertex_format\<close>: the vertex format of a scalar or vector member type of
  a vertex input struct; every other type is a \<open>todo!()\<close>.
\<close>

definition scalar_format :: "scalar_kind \<Rightarrow> nat \<Rightarrow> vertex_format list option" where
  "scalar_format k w =
     (case k of
        Sint \<Rightarrow> if w = 4 then Some [Sint32, Sint32x2, Sint32x3, Sint32x4] else None
      | Uint \<Rightarrow> if w = 4 then Some [Uint32, Uint32x2, Uint32x3, Uint32x4] else None
      | Float \<Rightarrow>
          if w = 4 then Some [Float32, Float32x2, Float32x3, Float32x4]
          else if w = 8 then Some [Float64, Float64x2, Float64x3, Float64x4]
          else None
      | Bool \<Rightarrow> None)"

definition vertex_format_of :: "naga_type \<Rightarrow> vertex_format gen" where
  "vertex_format_of ty =
     (case inner ty of
        Scalar k w \<Rightarrow> (case scalar_format k w of Some fs \<Rightarrow> Inr (fs ! 0) | None \<Rightarrow> Inl (Panic ''not yet implemented''))
      | Vector n k w \<Rightarrow>
          (case scalar_format k w of
             Some fs \<Rightarrow> Inr (fs ! (vector_size_count n - 1))
           | None \<Rightarrow> Inl (Panic ''not yet implemented''))
      | _ \<Rightarrow> Inl (Panic ''not yet implemented''))"

text \<open>\<open>format!("{format:?}")\<close>: the variant's name.\<close>

definition vertex_format_name :: "vertex_format \<Rightarrow> string" where
  "vertex_format_name f =
     (case f of
        Uint32 \<Rightarrow> ''Uint32'' | Uint32x2 \<Rightarrow> ''Uint32x2'' | Uint32x3 \<Rightarrow> ''Uint32x3'' | Uint32x4 \<Rightarrow> ''Uint32x4''
      | Sint32 \<Rightarrow> ''Sint32'' | Sint32x2 \<Rightarrow> ''Sint32x2'' | Sint32x3 \<Rightarrow> ''Sint32x3'' | Sint32x4 \<Rightarrow> ''Sint32x4''
      | Float32 \<Rightarrow> ''Float32'' | Float32x2 \<Rightarrow> ''Float32x2'' | Float32x3 \<Rightarrow> ''Float32x3''
      | Float32x4 \<Rightarrow> ''Float32x4''
      | Float64 \<Rightarrow> ''Float64'' | Float64x2 \<Rightarrow> ''Float64x2'' | Float64x3 \<Rightarrow> ''Float64x3''
      | Float64x4 \<Rightarrow> ''Float64x4'')"

section \<open>Generated declarations\<close>

text \<open>
  One constructor per declaration shape of \<open>lib.rs\<close>:
  \<^item> \<open>ConstStr n v\<close>: \<open>pub const n: &str = "v";\<close> (\<open>entry_point_constants\<close>);
  \<^item> \<open>ConstWorkgroupSize n x y z\<close>: \<open>pub const n: [u32; 3] = [x, y, z];\<close>;
  \<^item> \<open>ComputePipelineFn f label ep\<close>: \<open>pub fn f(device) -> wgpu::ComputePipeline\<close>
    with the given label and entry point;
  \<^item> \<open>Mod n items\<close>: \<open>pub mod n { items }\<close>;
  \<^item> \<open>VertexEntryStruct\<close> and \<open>VertexStateFn\<close>: the fixed \<open>VertexEntry<N>\<close> struct
    and \<open>vertex_state\<close> function;
  \<^item> \<open>VertexEntryFn f c n params buffers\<close>: \<open>pub fn f(params: wgpu::VertexStepMode, ..)
    -> VertexEntry<n>\<close> returning entry point \<open>c\<close> and the buffer layouts, each a
    struct name and the step-mode parameter passed to its \<open>vertex_buffer_layout\<close>;
  \<^item> \<open>VertexImpl s k attrs\<close>: \<open>impl s\<close> with \<open>VERTEX_ATTRIBUTES: [_; k]\<close>, one
    attribute per (format name, field, shader location), and \<open>vertex_buffer_layout\<close>;
  \<^item> \<open>PipelineLayoutFn gs\<close>: \<open>create_pipeline_layout\<close> over
    \<open>bind_groups::g::get_bind_group_layout(device)\<close> for each \<open>g\<close> of \<open>gs\<close>;
  \<^item> \<open>ShaderModuleEmbedded\<close> and \<open>ShaderString s\<close>: \<open>create_shader_module\<close> from
    \<open>SHADER_STRING\<close> and the raw string constant holding the shader text;
  \<^item> \<open>InitComposer deps\<close>, \<open>MakeNagaModule p\<close>, \<open>NagaModuleToString\<close> and
    \<open>ShaderModuleComposer\<close>: the composer variant of shader loading, \<open>deps\<close> the
    relative path and optional alias of each dependency;
  \<^item> \<open>RootReexport\<close> and \<open>UseRoot\<close>: \<open>pub use super::*;\<close> at the head of the
    shared root module and \<open>use super::{_root, _root::*};\<close> at the head of every
    other module;
  \<^item> \<open>Opaque s\<close>: tokens made by a collaborator outside this repository.
\<close>

datatype rust_item =
    ConstStr string string
  | ConstWorkgroupSize string nat nat nat
  | ComputePipelineFn string string string
  | Mod string "rust_item list"
  | VertexEntryStruct
  | VertexStateFn
  | VertexEntryFn string string nat "string list" "(string \<times> string) list"
  | VertexImpl string nat "(string \<times> string \<times> nat) list"
  | PipelineLayoutFn "string list"
  | ShaderModuleEmbedded
  | ShaderString string
  | InitComposer "(string \<times> string option) list"
  | MakeNagaModule string
  | NagaModuleToString
  | ShaderModuleComposer
  | RootReexport
  | UseRoot
  | Opaque string

type_synonym token_stream = "rust_item list"

section \<open>Lemmas on identifiers\<close>


lemma underscore_code: "c = CHR ''_'' \<longleftrightarrow> (of_char c :: nat) = 95"
proof
  assume "of_char c = (95::nat)"
  then have "(of_char c :: nat) = of_char CHR ''_''" by simp
  then show "c = CHR ''_''" by (simp only: of_char_eq_iff)
qed simp

lemma start_code:
  "is_ident_start c \<longleftrightarrow>
     (let n = (of_char c :: nat) in (65 \<le> n \<and> n \<le> 90) \<or> (97 \<le> n \<and> n \<le> 122) \<or> n = 95)"
  by (simp add: is_ident_start_def is_ascii_upper_def is_ascii_lower_def underscore_code Let_def)

lemma continue_code:
  "is_ident_continue c \<longleftrightarrow>
     (let n = (of_char c :: nat) in (65 \<le> n \<and> n \<le> 90) \<or> (97 \<le> n \<and> n \<le> 122) \<or> n = 95 \<or> (48 \<le> n \<and> n \<le> 57))"
  by (simp add: is_ident_continue_def start_code is_ascii_digit_def Let_def)

lemma of_char_ascii_upper:
  "(of_char (ascii_upper c) :: nat) =
     (if 97 \<le> (of_char c :: nat) \<and> (of_char c :: nat) \<le> 122 then of_char c - 32 else of_char c)"
  by (auto simp: ascii_upper_def Let_def intro!: mod_less)

lemma of_char_ascii_lower:
  "(of_char (ascii_lower c) :: nat) =
     (if 65 \<le> (of_char c :: nat) \<and> (of_char c :: nat) \<le> 90 then of_char c + 32 else of_char c)"
  by (simp add: ascii_lower_def Let_def)

lemma start_upper: "is_ident_start (ascii_upper c) \<longleftrightarrow> is_ident_start c"
  unfolding start_code of_char_ascii_upper Let_def by auto

lemma continue_upper: "is_ident_continue (ascii_upper c) \<longleftrightarrow> is_ident_continue c"
  unfolding continue_code of_char_ascii_upper Let_def by auto

lemma start_lower: "is_ident_start (ascii_lower c) \<longleftrightarrow> is_ident_start c"
  unfolding start_code of_char_ascii_lower Let_def by auto

lemma continue_lower: "is_ident_continue (ascii_lower c) \<longleftrightarrow> is_ident_continue c"
  unfolding continue_code of_char_ascii_lower Let_def by auto

lemma underscore_continue [simp]: "is_ident_continue CHR ''_''"
  by (simp add: is_ident_continue_def is_ident_start_def)

lemma start_not_digit: "is_ident_start c \<Longrightarrow> \<not> is_ascii_digit c"
  by (auto simp: is_ident_start_def is_ascii_digit_def is_ascii_upper_def is_ascii_lower_def)

lemma ident_Inr_iff: "ident s = Inr t \<longleftrightarrow> valid_ident s \<and> t = s"
  by (cases s) (auto simp: ident_def valid_ident_def dest: start_not_digit)

lemma ident_valid [simp]: "valid_ident s \<Longrightarrow> ident s = Inr s"
  by (simp add: ident_Inr_iff)

lemma ident_invalid: "\<not> valid_ident s \<Longrightarrow> \<exists>msg. ident s = Inl (Panic msg)"
  by (auto simp: ident_def valid_ident_def)

lemma valid_ident_continue: "valid_ident s \<Longrightarrow> list_all is_ident_continue s"
  by (cases s) (auto simp: valid_ident_def is_ident_continue_def)

lemma valid_ident_append:
  "valid_ident a \<Longrightarrow> list_all is_ident_continue b \<Longrightarrow> valid_ident (a @ b)"
  by (cases a) (auto simp: valid_ident_def)

lemma valid_ident_Cons:
  "is_ident_start c \<Longrightarrow> list_all is_ident_continue s \<Longrightarrow> valid_ident (c # s)"
  by (simp add: valid_ident_def)

lemma valid_ident_upper: "valid_ident s \<Longrightarrow> valid_ident (to_uppercase s)"
  by (cases s) (auto simp: valid_ident_def to_uppercase_def start_upper continue_upper list_all_iff)

lemma continue_to_snake_from: "list_all is_ident_continue s \<Longrightarrow> list_all is_ident_continue (to_snake_from b s)"
  by (induction b s rule: to_snake_from.induct)
     (auto simp: continue_lower)

lemma valid_ident_to_snake: "valid_ident s \<Longrightarrow> valid_ident (to_snake s)"
  by (cases s) (auto simp: valid_ident_def to_snake_def start_lower continue_to_snake_from)

text \<open>Evaluation of identifier checks and case mappings on literal names.\<close>

lemmas ident_eval = valid_ident_def start_code continue_code to_uppercase_def ascii_upper_def
  is_ascii_digit_def char_of_def bit_0

end
