(* ===== verification/Codegen.thy ===== *)
theory Codegen
  imports Tokens BindGroups
begin

text \<open>
  The per-module generators of \<open>src/wgsl_bindgen/src/lib.rs\<close> that read the entry
  points and the bind-group table: \<open>indexed_name_to_ident\<close>, \<open>workgroup_size\<close>,
  \<open>create_compute_pipeline\<close>, \<open>compute_module\<close>, \<open>entry_point_constants\<close>, and the
  \<open>create_pipeline_layout\<close> function that \<open>create_rust_bindings\<close> writes from the
  keys of the bind-group table. Each returns its token stream, or the panic of an
  \<open>Ident::new\<close> on a name that is not an identifier. The lemmas give the output of
  each generator when the entry-point names are identifiers (which the WGSL front
  end guarantees), show that no compute scaffolding is written for a module
  without compute entry points, and that the pipeline layout lists
  \<open>BindGroup0\<close>..\<open>BindGroup(n-1)\<close> in order for a valid bind-group table.
\<close>

definition indexed_name_to_ident :: "string \<Rightarrow> u32 \<Rightarrow> string gen" where
  "indexed_name_to_ident name index = ident (name @ u32_to_string index)"

definition create_compute_pipeline :: "entry_point \<Rightarrow> rust_item gen" where
  "create_compute_pipeline e =
     gen_bind (ident (''create_'' @ ep_name e @ ''_pipeline'')) (\<lambda>pipeline_name.
       Inr (ComputePipelineFn pipeline_name (''Compute Pipeline '' @ ep_name e) (ep_name e)))"

text \<open>\<open>workgroup_size\<close> (named apart from the entry point's field).\<close>

definition workgroup_size_const :: "entry_point \<Rightarrow> rust_item gen" where
  "workgroup_size_const e =
     gen_bind (ident (to_uppercase (ep_name e) @ ''_WORKGROUP_SIZE'')) (\<lambda>name.
       case workgroup_size e of (x, y, z) \<Rightarrow> Inr (ConstWorkgroupSize name (unat x) (unat y) (unat z)))"

text \<open>
  \<open>compute_module\<close>: for each compute entry point its workgroup-size constant and
  pipeline constructor, inside \<open>pub mod compute\<close>; nothing at all when there is
  no compute entry point.
\<close>

definition compute_entry :: "entry_point \<Rightarrow> token_stream gen" where
  "compute_entry e =
     gen_bind (workgroup_size_const e) (\<lambda>workgroup_size_constant.
     gen_bind (create_compute_pipeline e) (\<lambda>create_pipeline.
       Inr [workgroup_size_constant, create_pipeline]))"

definition compute_module :: "naga_module \<Rightarrow> token_stream gen" where
  "compute_module m =
     gen_bind (gen_map compute_entry (filter (\<lambda>e. stage e = Compute) (entry_points m)))
       (\<lambda>entry_points.
          if entry_points = [] then Inr []
          else Inr [Mod ''compute'' (concat entry_points)])"

definition entry_point_constants :: "naga_module \<Rightarrow> token_stream gen" where
  "entry_point_constants m =
     gen_map (\<lambda>entry_point.
        gen_bind (ident (''ENTRY_'' @ to_uppercase (ep_name entry_point))) (\<lambda>const_name.
          Inr (ConstStr const_name (ep_name entry_point))))
       (entry_points m)"

text \<open>
  The \<open>create_pipeline_layout\<close> function written by \<open>create_rust_bindings\<close>: one
  \<open>bind_groups::BindGroup<g>::get_bind_group_layout(device)\<close> per key of the
  bind-group table, in key order.
\<close>

definition create_pipeline_layout :: "bind_group_data \<Rightarrow> rust_item gen" where
  "create_pipeline_layout bind_group_data =
     gen_bind (gen_map (\<lambda>group_no. indexed_name_to_ident ''BindGroup'' group_no) (map fst bind_group_data))
       (\<lambda>bind_group_layouts. Inr (PipelineLayoutFn bind_group_layouts))"

text \<open>Entry points of the examples (the shapes of the unit tests of lib.rs).\<close>

definition example_entry :: "string \<Rightarrow> shader_stage \<Rightarrow> u32 \<times> u32 \<times> u32 \<Rightarrow> entry_point" where
  "example_entry n s w = \<lparr>ep_name = n, stage = s, workgroup_size = w, arguments = []\<rparr>"

definition example_entries_module :: "entry_point list \<Rightarrow> naga_module" where
  "example_entries_module es = \<lparr>types = [], global_variables = [], entry_points = es\<rparr>"

lemma string_of_nat_digits: "list_all is_ascii_digit (string_of_nat n)"
proof (induction n rule: string_of_nat.induct)
  case (1 n)
  have d: "is_ascii_digit (char_of (48 + k)) " if "k < 10" for k :: nat
    using that by (simp add: is_ascii_digit_def)
  show ?case
    using 1 by (subst string_of_nat.simps) (simp add: d)
qed

lemma digits_continue: "list_all is_ascii_digit s \<Longrightarrow> list_all is_ident_continue s"
  by (auto simp: list_all_iff is_ident_continue_def)

lemma literal_continue:
  "list_all is_ident_continue ''_WORKGROUP_SIZE''"
  "list_all is_ident_continue ''_pipeline''"
  "list_all is_ident_continue ''reate_''"
  "list_all is_ident_continue ''NTRY_''"
  "list_all is_ident_continue ''indGroup''"
  "is_ident_start CHR ''c''" "is_ident_start CHR ''E''" "is_ident_start CHR ''B''"
  by (simp_all add: continue_code start_code)

lemma valid_ident_name_forms:
  assumes "valid_ident n"
  shows "valid_ident (to_uppercase n @ ''_WORKGROUP_SIZE'')"
    and "valid_ident (''create_'' @ n @ ''_pipeline'')"
    and "valid_ident (''ENTRY_'' @ to_uppercase n)"
  using assms literal_continue valid_ident_continue [OF valid_ident_upper [OF assms]]
        valid_ident_continue [OF assms]
  by (auto intro!: valid_ident_append valid_ident_upper valid_ident_Cons)

lemma valid_bind_group_name: "valid_ident (''BindGroup'' @ string_of_nat k)"
  using literal_continue digits_continue [OF string_of_nat_digits]
  by (auto intro!: valid_ident_Cons)

lemma compute_entry_valid:
  "valid_ident (ep_name e) \<Longrightarrow>
   compute_entry e =
     Inr [ConstWorkgroupSize (to_uppercase (ep_name e) @ ''_WORKGROUP_SIZE'')
            (unat (fst (workgroup_size e))) (unat (fst (snd (workgroup_size e)))) (unat (snd (snd (workgroup_size e)))),
          ComputePipelineFn (''create_'' @ ep_name e @ ''_pipeline'') (''Compute Pipeline '' @ ep_name e) (ep_name e)]"
  using valid_ident_name_forms [of "ep_name e"]
  by (simp add: compute_entry_def workgroup_size_const_def create_compute_pipeline_def split: prod.split)

text \<open>
  C9. No empty scaffolding: \<open>compute_module\<close> writes nothing at all exactly when
  the module has no compute entry point (and otherwise a \<open>compute\<close> module or a panic).
\<close>

theorem compute_module_empty_iff:
  "compute_module m = Inr [] \<longleftrightarrow> (\<forall>e \<in> set (entry_points m). stage e \<noteq> Compute)"
proof
  assume r: "compute_module m = Inr []"
  show "\<forall>e \<in> set (entry_points m). stage e \<noteq> Compute"
  proof (rule ccontr)
    assume "\<not> ?thesis"
    then have ne: "filter (\<lambda>e. stage e = Compute) (entry_points m) \<noteq> []"
      by (auto simp: filter_empty_conv)
    from r obtain es where es: "gen_map compute_entry (filter (\<lambda>e. stage e = Compute) (entry_points m)) = Inr es"
      and "(if es = [] then Inr [] else Inr [Mod ''compute'' (concat es)]) = (Inr [] :: token_stream gen)"
      by (auto simp: compute_module_def gen_bind_eq_Inr)
    then have "es = []" by (auto split: if_splits)
    with es ne show False by (auto dest: gen_map_length)
  qed
next
  assume "\<forall>e \<in> set (entry_points m). stage e \<noteq> Compute"
  then have "filter (\<lambda>e. stage e = Compute) (entry_points m) = []"
    by (simp add: filter_empty_conv)
  then show "compute_module m = Inr []" by (simp add: compute_module_def)
qed

text \<open>
  C10. When the compute entry points have identifier names, \<open>compute_module\<close>
  writes, inside one \<open>pub mod compute\<close>, for each compute entry point in order its
  \<open>NAME_WORKGROUP_SIZE\<close> constant holding the three workgroup dimensions and its
  \<open>create_name_pipeline\<close> constructor labelled \<open>Compute Pipeline name\<close>.
\<close>

theorem compute_module_tokens:
  "\<forall>e \<in> set (entry_points m). stage e = Compute \<longrightarrow> valid_ident (ep_name e) \<Longrightarrow>
   compute_module m =
     Inr (if \<forall>e \<in> set (entry_points m). stage e \<noteq> Compute then []
          else [Mod ''compute''
                 (concat (map (\<lambda>e.
                    [ConstWorkgroupSize (to_uppercase (ep_name e) @ ''_WORKGROUP_SIZE'')
                       (unat (fst (workgroup_size e))) (unat (fst (snd (workgroup_size e))))
                       (unat (snd (snd (workgroup_size e)))),
                     ComputePipelineFn (''create_'' @ ep_name e @ ''_pipeline'')
                       (''Compute Pipeline '' @ ep_name e) (ep_name e)])
                  (filter (\<lambda>e. stage e = Compute) (entry_points m))))])"
proof -
  assume v: "\<forall>e \<in> set (entry_points m). stage e = Compute \<longrightarrow> valid_ident (ep_name e)"
  let ?cs = "filter (\<lambda>e. stage e = Compute) (entry_points m)"
  have "gen_map compute_entry ?cs =
        Inr (map (\<lambda>e.
                    [ConstWorkgroupSize (to_uppercase (ep_name e) @ ''_WORKGROUP_SIZE'')
                       (unat (fst (workgroup_size e))) (unat (fst (snd (workgroup_size e))))
                       (unat (snd (snd (workgroup_size e)))),
                     ComputePipelineFn (''create_'' @ ep_name e @ ''_pipeline'')
                       (''Compute Pipeline '' @ ep_name e) (ep_name e)]) ?cs)"
    by (rule gen_map_total, rule compute_entry_valid) (use v in auto)
  then show ?thesis by (simp add: compute_module_def filter_empty_conv)
qed

text \<open>
  C11. \<open>entry_point_constants\<close> writes one \<open>ENTRY_NAME: &str = "name"\<close> constant
  per entry point, in the module's order, the constant named by the upper-cased
  entry-point name.
\<close>

theorem entry_point_constants_tokens:
  "\<forall>e \<in> set (entry_points m). valid_ident (ep_name e) \<Longrightarrow>
   entry_point_constants m =
     Inr (map (\<lambda>e. ConstStr (''ENTRY_'' @ to_uppercase (ep_name e)) (ep_name e)) (entry_points m))"
  unfolding entry_point_constants_def
proof (rule gen_map_total)
  fix e assume "\<forall>e \<in> set (entry_points m). valid_ident (ep_name e)" "e \<in> set (entry_points m)"
  then show "gen_bind (ident (''ENTRY_'' @ to_uppercase (ep_name e))) (\<lambda>const_name. Inr (ConstStr const_name (ep_name e))) =
             Inr (ConstStr (''ENTRY_'' @ to_uppercase (ep_name e)) (ep_name e))"
    using valid_ident_name_forms(3) [of "ep_name e"] by simp
qed

text \<open>
  C12. For a bind-group table accepted by the analysis, the generated
  \<open>create_pipeline_layout\<close> lists the layouts of \<open>BindGroup0\<close>, ..., \<open>BindGroup(n-1)\<close>
  in this order, one per group of the table: the pipeline layout's slot \<open>i\<close> is
  bind group \<open>i\<close>.
\<close>

theorem create_pipeline_layout_groups:
  "get_bind_group_data m = Inr t \<Longrightarrow>
   create_pipeline_layout t = Inr (PipelineLayoutFn (map (\<lambda>k. ''BindGroup'' @ string_of_nat k) [0..<length t]))"
proof -
  assume ok: "get_bind_group_data m = Inr t"
  have keys: "map (\<lambda>p. unat (fst p)) t = [0..<length t]"
    using get_bind_group_data_consecutive [OF ok] by (simp add: consecutive_groups_def)
  have "gen_map (indexed_name_to_ident ''BindGroup'') (map fst t) =
        Inr (map (\<lambda>g. ''BindGroup'' @ string_of_nat (unat g)) (map fst t))"
  proof (rule gen_map_total)
    fix g show "indexed_name_to_ident ''BindGroup'' g = Inr (''BindGroup'' @ string_of_nat (unat g))"
      using valid_bind_group_name [of "unat g"] by (simp add: indexed_name_to_ident_def u32_to_string_def)
  qed
  also have "map (\<lambda>g. ''BindGroup'' @ string_of_nat (unat g)) (map fst t) =
             map (\<lambda>k. ''BindGroup'' @ string_of_nat k) (map (\<lambda>p. unat (fst p)) t)"
    by simp
  finally show ?thesis by (simp add: create_pipeline_layout_def keys)
qed

lemma example_entry_simps [simp]:
  "ep_name (example_entry n s w) = n" "stage (example_entry n s w) = s"
  "workgroup_size (example_entry n s w) = w"
  "entry_points (example_entries_module es) = es"
  by (simp_all add: example_entry_def example_entries_module_def)

theorem compute_module_empty_iff_witness:
  "compute_module (example_entries_module [example_entry ''main'' Vertex (0, 0, 0)]) = Inr []"
  using compute_module_empty_iff [of "example_entries_module [example_entry ''main'' Vertex (0, 0, 0)]"]
  by simp

theorem compute_module_tokens_witness:
  "compute_module (example_entries_module [example_entry ''main1'' Compute (1, 2, 3),
                                           example_entry ''main2'' Compute (256, 1, 1)]) =
   Inr [Mod ''compute''
         [ConstWorkgroupSize ''MAIN1_WORKGROUP_SIZE'' 1 2 3,
          ComputePipelineFn ''create_main1_pipeline'' ''Compute Pipeline main1'' ''main1'',
          ConstWorkgroupSize ''MAIN2_WORKGROUP_SIZE'' 256 1 1,
          ComputePipelineFn ''create_main2_pipeline'' ''Compute Pipeline main2'' ''main2'']]"
  using compute_module_tokens [of "example_entries_module [example_entry ''main1'' Compute (1, 2, 3),
                                           example_entry ''main2'' Compute (256, 1, 1)]"]
  by (simp add: ident_eval)

theorem entry_point_constants_tokens_witness:
  "entry_point_constants (example_entries_module
      [example_entry ''vs_main'' Vertex (0, 0, 0), example_entry ''another_vs'' Vertex (0, 0, 0),
       example_entry ''fs_main'' Fragment (0, 0, 0), example_entry ''another_fs'' Fragment (0, 0, 0)]) =
   Inr [ConstStr ''ENTRY_VS_MAIN'' ''vs_main'', ConstStr ''ENTRY_ANOTHER_VS'' ''another_vs'',
        ConstStr ''ENTRY_FS_MAIN'' ''fs_main'', ConstStr ''ENTRY_ANOTHER_FS'' ''another_fs'']"
  using entry_point_constants_tokens [of "example_entries_module
      [example_entry ''vs_main'' Vertex (0, 0, 0), example_entry ''another_vs'' Vertex (0, 0, 0),
       example_entry ''fs_main'' Fragment (0, 0, 0), example_entry ''another_fs'' Fragment (0, 0, 0)]"]
  by (simp add: ident_eval)

theorem create_pipeline_layout_groups_witness:
  "\<exists>t. get_bind_group_data example_two_groups = Inr t \<and>
       create_pipeline_layout t = Inr (PipelineLayoutFn [''BindGroup0'', ''BindGroup1''])"
proof -
  obtain t where t: "get_bind_group_data example_two_groups = Inr t"
    by (simp add: get_bind_group_data_def example_defs consecutive_groups_def group_binding_of_def)
  moreover have "length t = 2"
    using t by (auto simp: get_bind_group_data_def example_defs consecutive_groups_def group_binding_of_def)
  ultimately show ?thesis
    using create_pipeline_layout_groups [OF t] by (simp add: upt_rec string_of_nat.simps ident_eval)
qed

end
