(* ===== verification/Vertex.thy ===== *)
theory Vertex
  imports Codegen
begin

text \<open>
  The vertex-buffer part of \<open>src/wgsl_bindgen/src/lib.rs\<close>: \<open>vertex_states\<close> (the
  \<open>VertexEntry<N>\<close> scaffolding and one \<open>*_entry\<close> constructor per vertex entry
  point), \<open>vertex_input_structs\<close> and \<open>vertex_struct_methods\<close> (the
  \<open>VERTEX_ATTRIBUTES\<close> array and \<open>vertex_buffer_layout\<close> of each vertex input
  struct). Both read \<open>wgsl::get_vertex_input_structs\<close> (wgsl.rs, outside
  \<open>src/\<close>), modelled from spec 4.4 and from the unit tests of lib.rs: the struct
  arguments without a binding of the first vertex entry point, each with its
  \<open>@location\<close> members in location order. The \<open>map\<close> closure of
  \<open>vertex_states\<close> that pushes into \<open>step_mode_params\<close> while it builds the
  layout expressions is modelled with that vector as explicit state.
\<close>

record vertex_input =
  vi_name :: string
  vi_fields :: "(nat \<times> struct_member) list"

definition location_members :: "struct_member list \<Rightarrow> (nat \<times> struct_member) list" where
  "location_members struct_members =
     sort_key fst (List.map_filter (\<lambda>mem. case m_binding mem of
                                           Some (Location l) \<Rightarrow> Some (l, mem)
                                         | _ \<Rightarrow> None) struct_members)"

definition vertex_input_of :: "naga_module \<Rightarrow> function_argument \<Rightarrow> vertex_input option gen" where
  "vertex_input_of m argument =
     gen_bind (nth_checked (types m) (arg_ty argument)) (\<lambda>arg_type.
       case inner arg_type of
         Struct struct_members _ \<Rightarrow>
           gen_bind (expect ''called `Option::unwrap()` on a `None` value'' (ty_name arg_type)) (\<lambda>name.
             Inr (Some \<lparr>vi_name = name, vi_fields = location_members struct_members\<rparr>))
       | _ \<Rightarrow> Inr None)"

definition get_vertex_input_structs :: "naga_module \<Rightarrow> vertex_input list gen" where
  "get_vertex_input_structs m =
     (case find (\<lambda>e. stage e = Vertex) (entry_points m) of
        None \<Rightarrow> Inr []
      | Some vertex_entry \<Rightarrow>
          gen_bind (gen_map (vertex_input_of m) (filter (\<lambda>a. arg_binding a = None) (arguments vertex_entry)))
            (\<lambda>inputs. Inr (List.map_filter id inputs)))"

text \<open>
  The \<open>map\<close> over the vertex inputs in \<open>vertex_states\<close>: for each input its
  struct identifier and snake-case step-mode identifier; the step-mode parameter
  is pushed onto \<open>step_mode_params\<close> and the layout expression
  \<open>Name::vertex_buffer_layout(step_mode)\<close> is the closure's value.
\<close>

fun vertex_buffer_params ::
  "string list \<Rightarrow> vertex_input list \<Rightarrow> (string list \<times> (string \<times> string) list) gen" where
  "vertex_buffer_params step_mode_params [] = Inr (step_mode_params, [])"
| "vertex_buffer_params step_mode_params (input # inputs) =
     gen_bind (ident (vi_name input)) (\<lambda>name.
     gen_bind (ident (to_snake (vi_name input))) (\<lambda>step_mode.
     gen_bind (vertex_buffer_params (step_mode_params @ [step_mode]) inputs) (\<lambda>(ps, layouts).
       Inr (ps, (name, step_mode) # layouts))))"

definition vertex_entry_fn ::
  "nat \<Rightarrow> string list \<Rightarrow> (string \<times> string) list \<Rightarrow> entry_point \<Rightarrow> rust_item gen" where
  "vertex_entry_fn n step_mode_params layout_expressions entry_point =
     gen_bind (ident (ep_name entry_point @ ''_entry'')) (\<lambda>fn_name.
     gen_bind (ident (''ENTRY_'' @ to_uppercase (ep_name entry_point))) (\<lambda>const_name.
       Inr (VertexEntryFn fn_name const_name n step_mode_params layout_expressions)))"

definition vertex_states :: "naga_module \<Rightarrow> token_stream gen" where
  "vertex_states m =
     gen_bind (get_vertex_input_structs m) (\<lambda>vertex_inputs.
     gen_bind (vertex_buffer_params [] vertex_inputs) (\<lambda>(step_mode_params, layout_expressions).
     gen_bind (gen_map (vertex_entry_fn (length vertex_inputs) step_mode_params layout_expressions)
                 (filter (\<lambda>e. stage e = Vertex) (entry_points m))) (\<lambda>vertex_entries.
       if vertex_entries = [] then Inr []
       else Inr (VertexEntryStruct # VertexStateFn # vertex_entries))))"

text \<open>
  One \<open>wgpu::VertexAttribute\<close> of \<open>vertex_input_structs\<close>: the member's name
  (\<open>m.name.as_ref().unwrap()\<close>, parsed as tokens), its format (the member type
  looked up in the arena, \<open>wgsl::vertex_format\<close>, the \<open>Debug\<close> name as an
  identifier) and its shader location. The byte offset is
  \<open>std::mem::offset_of!(Name, field)\<close>, left to the Rust compiler.
\<close>

definition vertex_attribute :: "naga_module \<Rightarrow> nat \<times> struct_member \<Rightarrow> (string \<times> string \<times> nat) gen" where
  "vertex_attribute m lm =
     (case lm of (location, mem) \<Rightarrow>
        gen_bind (expect ''called `Option::unwrap()` on a `None` value'' (m_name mem)) (\<lambda>field_name.
        gen_bind (nth_checked (types m) (m_ty mem)) (\<lambda>ty.
        gen_bind (vertex_format_of ty) (\<lambda>format.
        gen_bind (ident (vertex_format_name format)) (\<lambda>format_ident.
          Inr (format_ident, field_name, location))))))"

definition vertex_impl :: "naga_module \<Rightarrow> vertex_input \<Rightarrow> rust_item gen" where
  "vertex_impl m input =
     gen_bind (ident (vi_name input)) (\<lambda>name.
     gen_bind (gen_map (vertex_attribute m) (vi_fields input)) (\<lambda>attributes.
       Inr (VertexImpl name (length (vi_fields input)) attributes)))"

definition vertex_input_structs :: "naga_module \<Rightarrow> token_stream gen" where
  "vertex_input_structs m =
     gen_bind (get_vertex_input_structs m) (\<lambda>vertex_inputs. gen_map (vertex_impl m) vertex_inputs)"

definition vertex_struct_methods :: "naga_module \<Rightarrow> token_stream gen" where
  "vertex_struct_methods m = vertex_input_structs m"

text \<open>
  The shape of a vertex format as wgpu defines it (scalar kind, bytes per component,
  components), and the shape of a scalar or vector type of the IR: a vertex
  attribute is well typed when the two agree.
\<close>

definition format_shape :: "vertex_format \<Rightarrow> scalar_kind \<times> nat \<times> nat" where
  "format_shape f =
     (case f of
        Uint32 \<Rightarrow> (Uint, 4, 1) | Uint32x2 \<Rightarrow> (Uint, 4, 2) | Uint32x3 \<Rightarrow> (Uint, 4, 3) | Uint32x4 \<Rightarrow> (Uint, 4, 4)
      | Sint32 \<Rightarrow> (Sint, 4, 1) | Sint32x2 \<Rightarrow> (Sint, 4, 2) | Sint32x3 \<Rightarrow> (Sint, 4, 3) | Sint32x4 \<Rightarrow> (Sint, 4, 4)
      | Float32 \<Rightarrow> (Float, 4, 1) | Float32x2 \<Rightarrow> (Float, 4, 2) | Float32x3 \<Rightarrow> (Float, 4, 3)
      | Float32x4 \<Rightarrow> (Float, 4, 4)
      | Float64 \<Rightarrow> (Float, 8, 1) | Float64x2 \<Rightarrow> (Float, 8, 2) | Float64x3 \<Rightarrow> (Float, 8, 3)
      | Float64x4 \<Rightarrow> (Float, 8, 4))"

definition type_shape :: "type_inner \<Rightarrow> (scalar_kind \<times> nat \<times> nat) option" where
  "type_shape t =
     (case t of
        Scalar k w \<Rightarrow> Some (k, w, 1)
      | Vector n k w \<Rightarrow> Some (k, w, vector_size_count n)
      | _ \<Rightarrow> None)"


text \<open>Modules of the examples (spec 8 and the unit tests of lib.rs).\<close>

definition example_vertex_input :: "string \<Rightarrow> struct_member list \<Rightarrow> naga_type" where
  "example_vertex_input n ms = \<lparr>ty_name = Some n, inner = Struct ms 0\<rparr>"

definition example_member :: "string \<Rightarrow> nat \<Rightarrow> nat \<Rightarrow> struct_member" where
  "example_member n ty loc = \<lparr>m_name = Some n, m_ty = ty, m_binding = Some (Location loc), m_offset = 0\<rparr>"

definition example_vertex_entry :: "string \<Rightarrow> nat list \<Rightarrow> entry_point" where
  "example_vertex_entry n tys =
     \<lparr>ep_name = n, stage = Vertex, workgroup_size = (0, 0, 0),
      arguments = map (\<lambda>t. \<lparr>arg_name = None, arg_ty = t, arg_binding = None\<rparr>) tys\<rparr>"

text \<open>\<open>f32\<close>, \<open>vec2<f32>\<close>, \<open>vec3<f32>\<close>, \<open>vec4<f32>\<close> at handles 0..3.\<close>

definition example_float_types :: "naga_type list" where
  "example_float_types =
     [\<lparr>ty_name = None, inner = Scalar Float 4\<rparr>, \<lparr>ty_name = None, inner = Vector Bi Float 4\<rparr>,
      \<lparr>ty_name = None, inner = Vector Tri Float 4\<rparr>, \<lparr>ty_name = None, inner = Vector Quad Float 4\<rparr>]"

text \<open>The struct of spec 8: members at locations 0..3 of types \<open>f32\<close> .. \<open>vec4<f32>\<close>.\<close>

definition example_vertex_module :: naga_module where
  "example_vertex_module =
     \<lparr>types = example_float_types @
        [example_vertex_input ''VertexInput0''
           [example_member ''a'' 0 0, example_member ''b'' 1 1, example_member ''c'' 2 2, example_member ''d'' 3 3]],
      global_variables = [], entry_points = [example_vertex_entry ''main'' [4]]\<rparr>"

text \<open>Two vertex entry points taking the same input struct (test \<open>write_vertex_shader_multiple_entries\<close>).\<close>

definition example_shared_input_module :: naga_module where
  "example_shared_input_module =
     \<lparr>types = example_float_types @ [example_vertex_input ''VertexInput'' [example_member ''position'' 3 0]],
      global_variables = [],
      entry_points = [example_vertex_entry ''vs_main_1'' [4], example_vertex_entry ''vs_main_2'' [4]]\<rparr>"

lemmas vertex_example_defs = example_vertex_input_def example_member_def example_vertex_entry_def
  example_float_types_def example_vertex_module_def example_shared_input_module_def



lemma valid_ident_entry_fn: "valid_ident n \<Longrightarrow> valid_ident (n @ ''_entry'')"
  by (rule valid_ident_append) (simp_all add: continue_code)

text \<open>
  The \<open>map\<close> closure of \<open>vertex_states\<close> that pushes each step-mode parameter onto
  \<open>step_mode_params\<close> computes the same two lists as two independent maps.
\<close>

lemma vertex_buffer_params_maps:
  "\<forall>i \<in> set inputs. valid_ident (vi_name i) \<Longrightarrow>
   vertex_buffer_params ps inputs =
     Inr (ps @ map (\<lambda>i. to_snake (vi_name i)) inputs, map (\<lambda>i. (vi_name i, to_snake (vi_name i))) inputs)"
  by (induction inputs arbitrary: ps) (simp_all add: valid_ident_to_snake)

lemma get_vertex_input_structs_no_vertex:
  "\<forall>e \<in> set (entry_points m). stage e \<noteq> Vertex \<Longrightarrow> get_vertex_input_structs m = Inr []"
proof -
  assume "\<forall>e \<in> set (entry_points m). stage e \<noteq> Vertex"
  then have "find (\<lambda>e. stage e = Vertex) (entry_points m) = None" by (auto simp: find_None_iff)
  then show ?thesis by (simp add: get_vertex_input_structs_def)
qed

text \<open>
  C13. \<open>vertex_states\<close> writes nothing at all exactly when the module has no vertex
  entry point.
\<close>

theorem vertex_states_empty_iff:
  "vertex_states m = Inr [] \<longleftrightarrow> (\<forall>e \<in> set (entry_points m). stage e \<noteq> Vertex)"
proof
  assume r: "vertex_states m = Inr []"
  show "\<forall>e \<in> set (entry_points m). stage e \<noteq> Vertex"
  proof (rule ccontr)
    assume "\<not> ?thesis"
    then have ne: "filter (\<lambda>e. stage e = Vertex) (entry_points m) \<noteq> []"
      by (auto simp: filter_empty_conv)
    from r obtain n ps ls es where
      es: "gen_map (vertex_entry_fn n ps ls) (filter (\<lambda>e. stage e = Vertex) (entry_points m)) = Inr es"
      and "(if es = [] then Inr [] else Inr (VertexEntryStruct # VertexStateFn # es)) = (Inr [] :: token_stream gen)"
      by (auto simp: vertex_states_def gen_bind_eq_Inr)
    then have "es = []" by (auto split: if_splits)
    with es ne show False by (auto dest: gen_map_length)
  qed
next
  assume "\<forall>e \<in> set (entry_points m). stage e \<noteq> Vertex"
  then show "vertex_states m = Inr []"
    by (simp add: vertex_states_def get_vertex_input_structs_no_vertex filter_empty_conv)
qed

text \<open>
  C14. With identifier names, \<open>vertex_states\<close> writes the \<open>VertexEntry\<close> struct, the
  \<open>vertex_state\<close> function and, for each vertex entry point in order, a
  \<open>name_entry\<close> constructor referring to \<open>ENTRY_NAME\<close> whose buffer count is the
  number of vertex inputs and whose buffers are the inputs' layouts, each with its
  own step-mode parameter. Every vertex entry point gets the same buffers.
\<close>

theorem vertex_states_tokens:
  assumes inputs: "get_vertex_input_structs m = Inr vis"
    and names: "\<forall>i \<in> set vis. valid_ident (vi_name i)"
    and entries: "\<forall>e \<in> set (entry_points m). stage e = Vertex \<longrightarrow> valid_ident (ep_name e)"
  shows "vertex_states m =
     Inr (if \<forall>e \<in> set (entry_points m). stage e \<noteq> Vertex then []
          else VertexEntryStruct # VertexStateFn #
               map (\<lambda>e. VertexEntryFn (ep_name e @ ''_entry'') (''ENTRY_'' @ to_uppercase (ep_name e))
                          (length vis) (map (\<lambda>i. to_snake (vi_name i)) vis)
                          (map (\<lambda>i. (vi_name i, to_snake (vi_name i))) vis))
                   (filter (\<lambda>e. stage e = Vertex) (entry_points m)))"
proof -
  let ?ps = "map (\<lambda>i. to_snake (vi_name i)) vis"
  let ?ls = "map (\<lambda>i. (vi_name i, to_snake (vi_name i))) vis"
  have "gen_map (vertex_entry_fn (length vis) ?ps ?ls) (filter (\<lambda>e. stage e = Vertex) (entry_points m)) =
        Inr (map (\<lambda>e. VertexEntryFn (ep_name e @ ''_entry'') (''ENTRY_'' @ to_uppercase (ep_name e))
                          (length vis) ?ps ?ls) (filter (\<lambda>e. stage e = Vertex) (entry_points m)))"
  proof (rule gen_map_total)
    fix e assume "e \<in> set (filter (\<lambda>e. stage e = Vertex) (entry_points m))"
    with entries have "valid_ident (ep_name e)" by auto
    then show "vertex_entry_fn (length vis) ?ps ?ls e =
               Inr (VertexEntryFn (ep_name e @ ''_entry'') (''ENTRY_'' @ to_uppercase (ep_name e)) (length vis) ?ps ?ls)"
      using valid_ident_entry_fn valid_ident_name_forms(3) by (simp add: vertex_entry_fn_def)
  qed
  then show ?thesis
    using vertex_buffer_params_maps [OF names, of "[]"]
    by (simp add: vertex_states_def inputs filter_empty_conv)
qed

lemma sorted_location_members: "sorted (map fst (location_members ms))"
  by (simp add: location_members_def)

lemma vertex_input_of_sorted:
  "vertex_input_of m a = Inr (Some v) \<Longrightarrow> sorted (map fst (vi_fields v))"
  by (auto simp: vertex_input_of_def gen_bind_def expect_def sorted_location_members
      split: type_inner.splits sum.splits option.splits)

lemma get_vertex_input_structs_sorted:
  "get_vertex_input_structs m = Inr vis \<Longrightarrow> v \<in> set vis \<Longrightarrow> sorted (map fst (vi_fields v))"
proof -
  assume g: "get_vertex_input_structs m = Inr vis" and v: "v \<in> set vis"
  have "\<exists>(e :: entry_point) os. gen_map (vertex_input_of m) (filter (\<lambda>a. arg_binding a = None) (arguments e)) = Inr os \<and>
                vis = List.map_filter id os"
    using g v by (auto simp: get_vertex_input_structs_def gen_bind_eq_Inr split: option.splits)
  then obtain e :: entry_point and os where os: "gen_map (vertex_input_of m) (filter (\<lambda>a. arg_binding a = None) (arguments e)) = Inr os"
    and vis: "vis = List.map_filter id os"
    by blast
  from v vis have "Some v \<in> set os" by (auto simp: List.map_filter_def)
  with os obtain a where "vertex_input_of m a = Inr (Some v)"
    by (auto simp: gen_map_Inr_iff list_all2_conv_all_nth in_set_conv_nth)
  then show ?thesis by (rule vertex_input_of_sorted)
qed

lemma vertex_attribute_location:
  "vertex_attribute m lm = Inr a \<Longrightarrow> snd (snd a) = fst lm"
  by (auto simp: vertex_attribute_def gen_bind_eq_Inr split: prod.splits)

lemma vertex_attributes_locations:
  "gen_map (vertex_attribute m) fs = Inr attrs \<Longrightarrow> map (\<lambda>a. snd (snd a)) attrs = map fst fs"
  by (induction fs arbitrary: attrs) (auto simp: gen_bind_eq_Inr dest!: vertex_attribute_location)

text \<open>
  C15. Every item written by \<open>vertex_input_structs\<close> is an \<open>impl\<close> whose
  \<open>VERTEX_ATTRIBUTES\<close> array length equals its number of attributes (so the
  generated array type checks), with attributes in increasing shader-location order.
\<close>

theorem vertex_input_structs_shape:
  "vertex_input_structs m = Inr items \<Longrightarrow>
   \<forall>it \<in> set items. \<exists>name k attrs. it = VertexImpl name k attrs \<and> k = length attrs \<and>
                                    sorted (map (\<lambda>a. snd (snd a)) attrs)"
proof
  fix it assume r: "vertex_input_structs m = Inr items" and it: "it \<in> set items"
  from r obtain vis where vis: "get_vertex_input_structs m = Inr vis"
    and items: "gen_map (vertex_impl m) vis = Inr items"
    by (auto simp: vertex_input_structs_def gen_bind_eq_Inr)
  from it obtain j where j: "j < length items" "it = items ! j" by (auto simp: in_set_conv_nth)
  with items have v: "vis ! j \<in> set vis" and iv: "vertex_impl m (vis ! j) = Inr it"
    by (auto simp: gen_map_Inr_iff list_all2_conv_all_nth)
  from iv obtain name attrs where it_eq: "it = VertexImpl name (length (vi_fields (vis ! j))) attrs"
    and attrs: "gen_map (vertex_attribute m) (vi_fields (vis ! j)) = Inr attrs"
    by (auto simp: vertex_impl_def gen_bind_eq_Inr)
  have "length attrs = length (vi_fields (vis ! j))" using attrs by (rule gen_map_length)
  moreover have "sorted (map (\<lambda>a. snd (snd a)) attrs)"
    using vertex_attributes_locations [OF attrs] get_vertex_input_structs_sorted [OF vis v] by simp
  ultimately show "\<exists>name k attrs. it = VertexImpl name k attrs \<and> k = length attrs \<and>
                                    sorted (map (\<lambda>a. snd (snd a)) attrs)"
    using it_eq by auto
qed

theorem vertex_states_empty_iff_witness:
  "vertex_states (example_entries_module [example_entry ''main'' Fragment (0, 0, 0)]) = Inr []"
  using vertex_states_empty_iff [of "example_entries_module [example_entry ''main'' Fragment (0, 0, 0)]"]
  by simp

lemma example_shared_inputs:
  "get_vertex_input_structs example_shared_input_module =
     Inr [\<lparr>vi_name = ''VertexInput'', vi_fields = [(0, example_member ''position'' 3 0)]\<rparr>]"
  by (simp add: get_vertex_input_structs_def vertex_input_of_def location_members_def
      vertex_example_defs List.map_filter_def nth_checked_def)

theorem vertex_states_tokens_witness:
  "vertex_states example_shared_input_module =
   Inr [VertexEntryStruct, VertexStateFn,
        VertexEntryFn ''vs_main_1_entry'' ''ENTRY_VS_MAIN_1'' 1 [''vertex_input''] [(''VertexInput'', ''vertex_input'')],
        VertexEntryFn ''vs_main_2_entry'' ''ENTRY_VS_MAIN_2'' 1 [''vertex_input''] [(''VertexInput'', ''vertex_input'')]]"
  using vertex_states_tokens [OF example_shared_inputs]
  by (simp add: vertex_example_defs ident_eval to_snake_def ascii_lower_def is_ascii_upper_def)

theorem vertex_input_structs_shape_witness:
  "vertex_struct_methods example_vertex_module =
     Inr [VertexImpl ''VertexInput0'' 4
           [(''Float32'', ''a'', 0), (''Float32x2'', ''b'', 1), (''Float32x3'', ''c'', 2), (''Float32x4'', ''d'', 3)]] \<and>
   sorted (map (\<lambda>a. snd (snd a))
     [(''Float32'', ''a'', 0::nat), (''Float32x2'', ''b'', 1), (''Float32x3'', ''c'', 2), (''Float32x4'', ''d'', 3)])"
proof -
  have r: "vertex_input_structs example_vertex_module =
     Inr [VertexImpl ''VertexInput0'' 4
           [(''Float32'', ''a'', 0), (''Float32x2'', ''b'', 1), (''Float32x3'', ''c'', 2), (''Float32x4'', ''d'', 3)]]"
    by code_simp
  show ?thesis using vertex_input_structs_shape [OF r] r by (simp add: vertex_struct_methods_def)
qed

lemma vertex_format_of_shape:
  "vertex_format_of ty = Inr f \<Longrightarrow> type_shape (inner ty) = Some (format_shape f)"
  by (cases "inner ty")
     (auto simp: vertex_format_of_def scalar_format_def type_shape_def format_shape_def vector_size_count_def
           split: scalar_kind.splits vector_size.splits if_splits)

text \<open>
  C33. Vertex attributes are well typed: an attribute that \<open>vertex_input_structs\<close>
  writes for a member names the member and keeps its location, and its
  \<open>wgpu::VertexFormat\<close> has the scalar kind, component width and component count of
  the member's type in the shader.
\<close>

theorem vertex_attribute_format_type:
  "vertex_attribute m (location, mem) = Inr (format_ident, field_name, l) \<Longrightarrow>
   l = location \<and> m_name mem = Some field_name \<and> m_ty mem < length (types m) \<and>
   (\<exists>f. format_ident = vertex_format_name f \<and> type_shape (inner (types m ! m_ty mem)) = Some (format_shape f))"
  by (auto simp: vertex_attribute_def gen_bind_eq_Inr expect_def nth_checked_def ident_Inr_iff
           split: option.splits if_splits dest!: vertex_format_of_shape)

theorem vertex_attribute_format_type_witness:
  "\<exists>f. ''Float32x2'' = vertex_format_name f \<and>
       type_shape (inner (types example_vertex_module ! 1)) = Some (format_shape f)"
proof -
  have "vertex_attribute example_vertex_module (1, example_member ''b'' 1 1) = Inr (''Float32x2'', ''b'', 1)"
    by code_simp
  from vertex_attribute_format_type [OF this] show ?thesis by (simp add: example_member_def)
qed

lemma ident_vertex_format_name [simp]: "ident (vertex_format_name f) = Inr (vertex_format_name f)"
  by (cases f) (simp_all add: vertex_format_name_def ident_def is_ident_start_def is_ident_continue_def
      is_ascii_upper_def is_ascii_lower_def is_ascii_digit_def)





end
