(* ===== verification/ModBuilder.thy ===== *)
theory ModBuilder
  imports Tokens Demangle
begin

text \<open>
  The declaration merge engine (\<open>quote_gen::RustModBuilder\<close>, outside \<open>src/\<close>),
  modelled from spec 4.5. The namespace tree maps module paths, in the order they
  were first seen, to their declarations in the order they were added. \<open>add\<close>
  appends an anonymous block of tokens to a module; \<open>add_items\<close> places each
  \<open>RustSourceItem\<close> in its demangled module, or in the given module when it has
  none, keeping the first declaration of a (module, name) identity: an exact
  duplicate is dropped, a different body under the same identity is an
  \<open>InconsistentDeclaration\<close>. \<open>generate\<close> writes one module per path, the shared
  root re-exporting the crate and every other module importing the root.
  The lemmas show that the tree stays well formed (no module twice, no name twice
  in a module), that a declaration is never replaced once placed, that
  \<open>add_items\<close> refines an abstract partial map from identities to bodies, and that
  modules keep their first-seen order.
\<close>

datatype merge_error = InconsistentDeclaration string string

datatype mod_decl = Anonymous token_stream | Named string token_stream

type_synonym namespace_tree = "(string \<times> mod_decl list) list"

definition decls :: "namespace_tree \<Rightarrow> string \<Rightarrow> mod_decl list" where
  "decls t path = (case map_of t path of None \<Rightarrow> [] | Some ds \<Rightarrow> ds)"

fun named_body :: "string \<Rightarrow> mod_decl list \<Rightarrow> token_stream option" where
  "named_body n [] = None"
| "named_body n (Named n' b # ds) = (if n = n' then Some b else named_body n ds)"
| "named_body n (Anonymous _ # ds) = named_body n ds"

fun named_names :: "mod_decl list \<Rightarrow> string list" where
  "named_names [] = []"
| "named_names (Named n _ # ds) = n # named_names ds"
| "named_names (Anonymous _ # ds) = named_names ds"

definition mod_add :: "string \<Rightarrow> token_stream \<Rightarrow> namespace_tree \<Rightarrow> namespace_tree" where
  "mod_add path ts t = al_upd path [] (\<lambda>ds. ds @ [Anonymous ts]) t"

definition mod_add_unique ::
  "string \<Rightarrow> string \<Rightarrow> token_stream \<Rightarrow> namespace_tree \<Rightarrow> merge_error + namespace_tree" where
  "mod_add_unique path name body t =
     (case named_body name (decls t path) of
        None \<Rightarrow> Inr (al_upd path [] (\<lambda>ds. ds @ [Named name body]) t)
      | Some b \<Rightarrow> if b = body then Inr t else Inl (InconsistentDeclaration path name))"

definition item_target :: "string \<Rightarrow> token_stream rust_source_item \<Rightarrow> string" where
  "item_target path it = (case mod_path it of None \<Rightarrow> path | Some p \<Rightarrow> p)"

fun mod_add_items ::
  "string \<Rightarrow> token_stream rust_source_item list \<Rightarrow> namespace_tree \<Rightarrow> merge_error + namespace_tree" where
  "mod_add_items path [] t = Inr t"
| "mod_add_items path (it # its) t =
     (case mod_add_unique (item_target path it) (item_name it) (item it) t of
        Inl e \<Rightarrow> Inl e
      | Inr t' \<Rightarrow> mod_add_items path its t')"

definition decl_tokens :: "mod_decl \<Rightarrow> token_stream" where
  "decl_tokens d = (case d of Anonymous ts \<Rightarrow> ts | Named _ b \<Rightarrow> b)"

definition generate :: "namespace_tree \<Rightarrow> token_stream" where
  "generate t =
     map (\<lambda>(p, ds). Mod p ((if p = mod_reference_root then RootReexport else UseRoot) #
                             concat (map decl_tokens ds))) t"

text \<open>Well-formedness: no module path twice, no declared name twice in a module.\<close>

definition namespace_wf :: "namespace_tree \<Rightarrow> bool" where
  "namespace_wf t \<longleftrightarrow> distinct (map fst t) \<and> (\<forall>(p, ds) \<in> set t. distinct (named_names ds))"

text \<open>The abstract view: the body declared under each (module, name) identity.\<close>

definition view :: "namespace_tree \<Rightarrow> string \<times> string \<Rightarrow> token_stream option" where
  "view t = (\<lambda>(p, n). named_body n (decls t p))"

definition abs_add ::
  "string \<times> string \<Rightarrow> token_stream \<Rightarrow> (string \<times> string \<Rightarrow> token_stream option) \<Rightarrow>
   merge_error + (string \<times> string \<Rightarrow> token_stream option)" where
  "abs_add k body m =
     (case m k of
        None \<Rightarrow> Inr (m(k \<mapsto> body))
      | Some b \<Rightarrow> if b = body then Inr m else Inl (InconsistentDeclaration (fst k) (snd k)))"

fun abs_add_items ::
  "string \<Rightarrow> token_stream rust_source_item list \<Rightarrow> (string \<times> string \<Rightarrow> token_stream option) \<Rightarrow>
   merge_error + (string \<times> string \<Rightarrow> token_stream option)" where
  "abs_add_items path [] m = Inr m"
| "abs_add_items path (it # its) m =
     (case abs_add (item_target path it, item_name it) (item it) m of
        Inl e \<Rightarrow> Inl e
      | Inr m' \<Rightarrow> abs_add_items path its m')"

text \<open>The items of the examples: a struct from module \<open>types\<close>, an entry-local struct, and the first again.\<close>

definition example_item :: "string option \<Rightarrow> string \<Rightarrow> string \<Rightarrow> token_stream rust_source_item" where
  "example_item p n body = \<lparr>mod_path = p, item_name = n, item = [Opaque body]\<rparr>"

definition example_items :: "token_stream rust_source_item list" where
  "example_items =
     [example_item (Some ''types'') ''Uniforms'' ''struct Uniforms'',
      example_item None ''VertexInput'' ''struct VertexInput'',
      example_item (Some ''types'') ''Uniforms'' ''struct Uniforms'']"

definition example_tree :: namespace_tree where
  "example_tree =
     [(''_root'', []), (''types'', [Named ''Uniforms'' [Opaque ''struct Uniforms'']]),
      (''shader'', [Named ''VertexInput'' [Opaque ''struct VertexInput'']])]"

lemma named_body_None_iff: "named_body n ds = None \<longleftrightarrow> n \<notin> set (named_names ds)"
  by (induction n ds rule: named_body.induct) auto

lemma named_body_snoc_named:
  "named_body n (ds @ [Named n' b]) =
     (case named_body n ds of None \<Rightarrow> if n = n' then Some b else None | Some x \<Rightarrow> Some x)"
  by (induction n ds rule: named_body.induct) auto

lemma named_body_snoc_anon [simp]: "named_body n (ds @ [Anonymous ts]) = named_body n ds"
  by (induction n ds rule: named_body.induct) auto

lemma named_names_snoc [simp]:
  "named_names (ds @ [Named n b]) = named_names ds @ [n]"
  "named_names (ds @ [Anonymous ts]) = named_names ds"
  by (induction ds rule: named_names.induct) auto

lemma decls_al_upd:
  "decls (al_upd k [] f t) p = (if p = k then f (decls t k) else decls t p)"
  by (simp add: decls_def map_of_al_upd split: option.split)

lemma namespace_wf_al_upd:
  assumes wf: "namespace_wf t" and new: "distinct (named_names (f (decls t k)))"
  shows "namespace_wf (al_upd k [] f t)"
proof -
  have "\<forall>(p, ds) \<in> set (al_upd k [] f t). distinct (named_names ds)"
  proof (rule al_upd_all)
    show "\<forall>(p, ds) \<in> set t. distinct (named_names ds)" using wf by (simp add: namespace_wf_def)
    show "distinct (named_names (f (case map_of t k of None \<Rightarrow> [] | Some v \<Rightarrow> v)))"
      using new by (simp add: decls_def)
  qed
  with wf show ?thesis by (simp add: namespace_wf_def al_upd_distinct)
qed

lemma namespace_wf_decls: "namespace_wf t \<Longrightarrow> distinct (named_names (decls t p))"
  by (auto simp: namespace_wf_def decls_def split: option.splits dest: map_of_SomeD)

lemma mod_add_wf: "namespace_wf t \<Longrightarrow> namespace_wf (mod_add p ts t)"
  unfolding mod_add_def by (rule namespace_wf_al_upd) (simp_all add: namespace_wf_decls)

lemma mod_add_unique_wf:
  "namespace_wf t \<Longrightarrow> mod_add_unique p n b t = Inr t' \<Longrightarrow> namespace_wf t'"
  by (auto simp: mod_add_unique_def named_body_None_iff namespace_wf_decls
      intro!: namespace_wf_al_upd split: option.splits if_splits)

lemma mod_add_items_wf:
  "namespace_wf t \<Longrightarrow> mod_add_items path its t = Inr t' \<Longrightarrow> namespace_wf t'"
  by (induction path its t rule: mod_add_items.induct)
     (auto split: sum.splits dest: mod_add_unique_wf)

lemma view_al_upd_named:
  "named_body n (decls t p) = None \<Longrightarrow>
   view (al_upd p [] (\<lambda>ds. ds @ [Named n b]) t) = (view t)((p, n) \<mapsto> b)"
  by (auto simp: view_def decls_al_upd named_body_snoc_named split: option.splits)

lemma mod_add_unique_refines:
  "map_sum id view (mod_add_unique p n b t) = abs_add (p, n) b (view t)"
  by (simp add: mod_add_unique_def abs_add_def view_al_upd_named split: option.splits)
     (simp add: view_def)

text \<open>
  C17. Refinement: on the abstract view (the body declared under each module and name), placing a list of items is the abstract insertion into a partial map, which keeps an existing body, accepts an identical one and reports InconsistentDeclaration for a different one; the error of the concrete run is the abstract one.
\<close>

theorem mod_add_items_refines:
  "map_sum id view (mod_add_items path its t) = abs_add_items path its (view t)"
proof (induction path its t rule: mod_add_items.induct)
  case (1 path t)
  then show ?case by simp
next
  case (2 path it its t)
  have r: "map_sum id view (mod_add_unique (item_target path it) (item_name it) (item it) t) =
           abs_add (item_target path it, item_name it) (item it) (view t)"
    by (rule mod_add_unique_refines)
  show ?case
  proof (cases "mod_add_unique (item_target path it) (item_name it) (item it) t")
    case (Inl e)
    with r have "abs_add (item_target path it, item_name it) (item it) (view t) = Inl e" by simp
    with Inl show ?thesis by simp
  next
    case (Inr t')
    with r have "abs_add (item_target path it, item_name it) (item it) (view t) = Inr (view t')" by simp
    with Inr 2 show ?thesis by simp
  qed
qed

lemma abs_add_keeps: "m k = Some b0 \<Longrightarrow> abs_add k' b m = Inr m' \<Longrightarrow> m' k = Some b0"
  by (auto simp: abs_add_def split: option.splits if_splits)

lemma abs_add_items_keeps:
  "m k = Some b0 \<Longrightarrow> abs_add_items path its m = Inr m' \<Longrightarrow> m' k = Some b0"
  by (induction path its m rule: abs_add_items.induct) (auto split: sum.splits dest: abs_add_keeps)

text \<open>
  C18. First-seen wins: a declaration already in the tree is never replaced by placing further items.
\<close>

theorem mod_add_items_first_seen:
  "view t k = Some b0 \<Longrightarrow> mod_add_items path its t = Inr t' \<Longrightarrow> view t' k = Some b0"
proof -
  assume k: "view t k = Some b0" and r: "mod_add_items path its t = Inr t'"
  from r have "abs_add_items path its (view t) = Inr (view t')"
    using mod_add_items_refines [of path its t] by simp
  with k show ?thesis by (rule abs_add_items_keeps)
qed

lemma mod_add_unique_present: "named_body n (decls t p) = Some b \<Longrightarrow> mod_add_unique p n b t = Inr t"
  by (simp add: mod_add_unique_def)

lemma mod_add_unique_view: "mod_add_unique p n b t = Inr t' \<Longrightarrow> view t' (p, n) = Some b"
  using mod_add_unique_refines [of p n b t]
  by (auto simp: abs_add_def split: option.splits if_splits)

text \<open>
  C19. Exact duplicates are not an error: placing the same items again into the resulting tree succeeds and changes nothing.
\<close>

theorem mod_add_items_idempotent:
  "mod_add_items path its t = Inr t' \<Longrightarrow> mod_add_items path its t' = Inr t'"
proof -
  assume r: "mod_add_items path its t = Inr t'"
  have present: "\<forall>it \<in> set its. view t' (item_target path it, item_name it) = Some (item it)"
    using r
  proof (induction path its t rule: mod_add_items.induct)
    case (1 path t)
    then show ?case by simp
  next
    case (2 path it its t)
    then obtain t1 where t1: "mod_add_unique (item_target path it) (item_name it) (item it) t = Inr t1"
      and rest: "mod_add_items path its t1 = Inr t'"
      by (auto split: sum.splits)
    have "view t' (item_target path it, item_name it) = Some (item it)"
      using mod_add_items_first_seen [OF mod_add_unique_view [OF t1] rest] .
    with 2(1) [OF t1 rest] show ?case by simp
  qed
  have "mod_add_items path its' t' = Inr t'" if "\<forall>it \<in> set its'. view t' (item_target path it, item_name it) = Some (item it)" for its'
    using that by (induction its') (simp_all add: view_def mod_add_unique_present)
  with present show ?thesis by blast
qed

lemma mod_add_items_order:
  "mod_add_items path its t = Inr t' \<Longrightarrow> \<exists>ks. map fst t' = map fst t @ ks"
proof (induction path its t rule: mod_add_items.induct)
  case (1 path t)
  then show ?case by simp
next
  case (2 path it its t)
  then obtain t1 where t1: "mod_add_unique (item_target path it) (item_name it) (item it) t = Inr t1"
    and rest: "mod_add_items path its t1 = Inr t'"
    by (auto split: sum.splits)
  have "\<exists>ks. map fst t1 = map fst t @ ks"
    using t1 by (auto simp: mod_add_unique_def al_upd_extends split: option.splits if_splits)
  with 2(1) [OF t1 rest] show ?case by force
qed

lemmas merge_example_defs = example_item_def example_items_def example_tree_def

lemma example_add_items: "mod_add_items ''shader'' example_items [(''_root'', [])] = Inr example_tree"
  by (simp add: merge_example_defs mod_add_unique_def item_target_def decls_def)

theorem mod_add_items_first_seen_witness:
  "view example_tree (''types'', ''Uniforms'') = Some [Opaque ''struct Uniforms'']"
  using mod_add_items_first_seen [of "[(''_root'', []), (''types'', [Named ''Uniforms'' [Opaque ''struct Uniforms'']])]"
          "(''types'', ''Uniforms'')" "[Opaque ''struct Uniforms'']" "''shader''"
          "[example_item None ''VertexInput'' ''struct VertexInput'']" example_tree]
  by (simp add: merge_example_defs view_def decls_def mod_add_unique_def item_target_def)

theorem mod_add_items_idempotent_witness: "mod_add_items ''shader'' example_items example_tree = Inr example_tree"
  using mod_add_items_idempotent [OF example_add_items] .

end
