(* ===== verification/Orchestrator.thy ===== *)
theory Orchestrator
  imports Vertex ModBuilder
begin

text \<open>
  The entry orchestrator of \<open>src/wgsl_bindgen/src/lib.rs\<close>: \<open>create_rust_bindings\<close>
  runs, for each entry in the configured order, bind-group analysis (whose error
  \<open>?\<close> propagates), the placement of the struct and constant items (whose merge
  error is \<open>unwrap\<close>ped into a panic), and the per-module generators, each adding
  its tokens to the entry's module of the \<open>RustModBuilder\<close>; the tree is then
  written out. \<open>shader_module\<close> chooses between embedding the final shader text
  and building the shader with the composer at run time.

  Generators that live outside \<open>src/\<close> and are not specified beyond their
  interface (\<open>structs::structs_items\<close>, \<open>consts::consts_items\<close>,
  \<open>bindgroup::bind_groups_module\<close>, \<open>add_prelude_types_assertions\<close>, naga's
  WGSL writer \<open>module_to_source\<close>, \<open>pathdiff::diff_paths\<close>, \<open>Path::parent\<close>,
  the \<open>CARGO_MANIFEST_DIR\<close> variable) are the fields of a \<open>collaborators\<close>
  record: every lemma holds for all of them. \<open>pretty_print\<close> (external text
  emission, spec 1) is not modelled: the result is the token tree it prints.
  The lemmas show which errors a run can return and where it stops, that the
  tree stays well formed, and that its modules come out in first-seen order, entry
  by entry.
\<close>

datatype wgsl_type_serialize_strategy = Encase | Bytemuck

datatype wgsl_shader_source_output_type = FinalShaderString | Composer

record wgsl_bindgen_option =
  serialization_strategy :: wgsl_type_serialize_strategy
  shader_source_output_type :: wgsl_shader_source_output_type
  output_file :: "string option"

record dependency =
  dep_file_path :: string
  dep_module_name :: "string option"

text \<open>\<open>WgslEntryResult\<close>, with \<open>SourceWithFullDependenciesResult\<close> flattened.\<close>

record wgsl_entry_result =
  mod_name :: string
  naga_module :: naga_module
  full_dependencies :: "dependency list"
  source_file_path :: string

record collaborators =
  prelude_types_assertions :: "wgsl_bindgen_option \<Rightarrow> token_stream"
  structs_items :: "naga_module \<Rightarrow> wgsl_bindgen_option \<Rightarrow> token_stream rust_source_item list"
  consts_items :: "naga_module \<Rightarrow> token_stream rust_source_item list"
  bind_groups_module :: "bind_group_data \<Rightarrow> u32 \<Rightarrow> token_stream"
  module_to_source :: "naga_module \<Rightarrow> string option"
  diff_paths :: "string \<Rightarrow> string \<Rightarrow> string option"
  path_parent :: "string \<Rightarrow> string option"
  cargo_manifest_dir :: "string option"

text \<open>The \<open>?\<close> on \<open>get_bind_group_data\<close>: its error is returned to the caller.\<close>

definition module_result :: "create_module_error + 'a \<Rightarrow> 'a gen" where
  "module_result r = (case r of Inl e \<Rightarrow> Inl (ModuleError e) | Inr x \<Rightarrow> Inr x)"

definition shader_module_using_final_shader_string ::
  "collaborators \<Rightarrow> wgsl_entry_result \<Rightarrow> token_stream gen" where
  "shader_module_using_final_shader_string c entry =
     gen_bind (expect ''called `Result::unwrap()` on an `Err` value'' (module_to_source c (naga_module entry)))
       (\<lambda>shader_content. Inr [ShaderModuleEmbedded, ShaderString shader_content])"

definition output_dir :: "collaborators \<Rightarrow> wgsl_bindgen_option \<Rightarrow> string" where
  "output_dir c options =
     (case (case output_file options of None \<Rightarrow> None | Some f \<Rightarrow> path_parent c f) of
        Some d \<Rightarrow> d
      | None \<Rightarrow> (case cargo_manifest_dir c of Some d \<Rightarrow> d | None \<Rightarrow> ''.''))"

definition get_relative_path :: "collaborators \<Rightarrow> string \<Rightarrow> string \<Rightarrow> string gen" where
  "get_relative_path c dir file = expect ''failed to get relative path'' (diff_paths c file dir)"

definition shader_module_using_composer ::
  "collaborators \<Rightarrow> wgsl_entry_result \<Rightarrow> wgsl_bindgen_option \<Rightarrow> token_stream gen" where
  "shader_module_using_composer c entry options =
     (let dir = output_dir c options in
      gen_bind (gen_map (\<lambda>dep. gen_bind (get_relative_path c dir (dep_file_path dep))
                                  (\<lambda>relative_file_path. Inr (relative_file_path, dep_module_name dep)))
                        (full_dependencies entry)) (\<lambda>add_shader_modules.
      gen_bind (get_relative_path c dir (source_file_path entry)) (\<lambda>entry_relative_path.
        Inr [InitComposer add_shader_modules, MakeNagaModule entry_relative_path,
             NagaModuleToString, ShaderModuleComposer])))"

definition shader_module :: "collaborators \<Rightarrow> wgsl_entry_result \<Rightarrow> wgsl_bindgen_option \<Rightarrow> token_stream gen" where
  "shader_module c entry options =
     (case shader_source_output_type options of
        FinalShaderString \<Rightarrow> shader_module_using_final_shader_string c entry
      | Composer \<Rightarrow> shader_module_using_composer c entry options)"

text \<open>The body of the loop of \<open>create_rust_bindings\<close> for one entry.\<close>

definition add_entry ::
  "collaborators \<Rightarrow> wgsl_bindgen_option \<Rightarrow> namespace_tree \<Rightarrow> wgsl_entry_result \<Rightarrow> namespace_tree gen" where
  "add_entry c options mod_builder entry =
     (let name = mod_name entry; m = naga_module entry in
      gen_bind (module_result (get_bind_group_data m)) (\<lambda>bind_group_data.
      let stages = shader_stages m in
      gen_bind (unwrap ''called `Result::unwrap()` on an `Err` value''
                  (mod_add_items name (structs_items c m options) mod_builder)) (\<lambda>mod_builder.
      gen_bind (unwrap ''called `Result::unwrap()` on an `Err` value''
                  (mod_add_items name (consts_items c m) mod_builder)) (\<lambda>mod_builder.
      let mod_builder = mod_add name (bind_groups_module c bind_group_data stages) mod_builder in
      gen_bind (vertex_struct_methods m) (\<lambda>ts. let mod_builder = mod_add name ts mod_builder in
      gen_bind (compute_module m) (\<lambda>ts. let mod_builder = mod_add name ts mod_builder in
      gen_bind (entry_point_constants m) (\<lambda>ts. let mod_builder = mod_add name ts mod_builder in
      gen_bind (vertex_states m) (\<lambda>ts. let mod_builder = mod_add name ts mod_builder in
      gen_bind (create_pipeline_layout bind_group_data) (\<lambda>pipeline_layout_fn.
      let mod_builder = mod_add name [pipeline_layout_fn] mod_builder in
      gen_bind (shader_module c entry options) (\<lambda>ts. Inr (mod_add name ts mod_builder)))))))))))"

fun add_entries ::
  "collaborators \<Rightarrow> wgsl_bindgen_option \<Rightarrow> namespace_tree \<Rightarrow> wgsl_entry_result list \<Rightarrow> namespace_tree gen" where
  "add_entries c options mod_builder [] = Inr mod_builder"
| "add_entries c options mod_builder (entry # entries) =
     gen_bind (add_entry c options mod_builder entry) (\<lambda>mod_builder. add_entries c options mod_builder entries)"

definition root_builder :: "collaborators \<Rightarrow> wgsl_bindgen_option \<Rightarrow> namespace_tree" where
  "root_builder c options = mod_add mod_reference_root (prelude_types_assertions c options) []"

definition create_rust_bindings ::
  "collaborators \<Rightarrow> wgsl_entry_result list \<Rightarrow> wgsl_bindgen_option \<Rightarrow> token_stream gen" where
  "create_rust_bindings c entries options =
     gen_bind (add_entries c options (root_builder c options) entries) (\<lambda>mod_builder. Inr (generate mod_builder))"

text \<open>Results that can only fail by panicking: no \<open>CreateModuleError\<close> is among their failures.\<close>

definition panic_only :: "'a gen \<Rightarrow> bool" where
  "panic_only r \<longleftrightarrow> (\<forall>e. r \<noteq> Inl (ModuleError e))"

named_theorems panic_only_intros "generators that can only fail with a panic"

definition example_collaborators :: collaborators where
  "example_collaborators =
     \<lparr>prelude_types_assertions = (\<lambda>_. []), structs_items = (\<lambda>_ _. []), consts_items = (\<lambda>_. []),
      bind_groups_module = (\<lambda>_ _. []), module_to_source = (\<lambda>_. Some ''fn fs_main() {}''),
      diff_paths = (\<lambda>f d. Some f), path_parent = (\<lambda>_. None), cargo_manifest_dir = None\<rparr>"

definition example_options :: wgsl_bindgen_option where
  "example_options = \<lparr>serialization_strategy = Encase, shader_source_output_type = FinalShaderString,
                       output_file = None\<rparr>"

definition example_entry_result :: "string \<Rightarrow> naga_module \<Rightarrow> wgsl_entry_result" where
  "example_entry_result n m = \<lparr>mod_name = n, naga_module = m, full_dependencies = [], source_file_path = ''''\<rparr>"

definition example_composer_entry :: wgsl_entry_result where
  "example_composer_entry =
     \<lparr>mod_name = ''shader'', naga_module = example_entries_module [],
      full_dependencies = [\<lparr>dep_file_path = ''types.wgsl'', dep_module_name = Some ''types''\<rparr>,
                           \<lparr>dep_file_path = ''util.wgsl'', dep_module_name = None\<rparr>],
      source_file_path = ''shader.wgsl''\<rparr>"

lemma panic_only_Inr [panic_only_intros]: "panic_only (Inr x)"
  and panic_only_Panic [panic_only_intros]: "panic_only (Inl (Panic msg))"
  by (simp_all add: panic_only_def)

lemma panic_only_bind [panic_only_intros]:
  "panic_only m \<Longrightarrow> (\<And>x. panic_only (f x)) \<Longrightarrow> panic_only (gen_bind m f)"
  by (cases m) (auto simp: panic_only_def)

lemma panic_only_if [panic_only_intros]:
  "panic_only a \<Longrightarrow> panic_only b \<Longrightarrow> panic_only (if P then a else b)"
  by simp

lemma panic_only_map [panic_only_intros]:
  "(\<And>x. panic_only (f x)) \<Longrightarrow> panic_only (gen_map f xs)"
  by (induction xs) (auto intro!: panic_only_intros)

lemma panic_only_basic [panic_only_intros]:
  "panic_only (ident s)" "panic_only (expect msg x)" "panic_only (unwrap msg r)"
  "panic_only (nth_checked xs i)"
  by (auto simp: panic_only_def ident_def expect_def unwrap_def nth_checked_def
      split: option.splits sum.splits)

lemma panic_only_case_prod [panic_only_intros]:
  "(\<And>a b. panic_only (f a b)) \<Longrightarrow> panic_only (case p of (a, b) \<Rightarrow> f a b)"
  by (cases p) simp

lemma panic_only_generators [panic_only_intros]:
  "panic_only (vertex_struct_methods m)" "panic_only (compute_module m)"
  "panic_only (entry_point_constants m)" "panic_only (vertex_states m)"
  "panic_only (create_pipeline_layout d)" "panic_only (shader_module c entry options)"
  proof -
    have vf: "panic_only (vertex_format_of ty)" for ty
      by (auto simp: vertex_format_of_def panic_only_def split: type_inner.splits option.splits)
    have gv: "panic_only (get_vertex_input_structs m)"
      unfolding get_vertex_input_structs_def vertex_input_of_def
      by (auto intro!: panic_only_intros split: option.splits type_inner.splits)
    have bp: "panic_only (vertex_buffer_params ps vis)" for ps vis
      by (induction ps vis rule: vertex_buffer_params.induct) (auto intro!: panic_only_intros)
    show "panic_only (vertex_struct_methods m)"
      unfolding vertex_struct_methods_def vertex_input_structs_def vertex_impl_def vertex_attribute_def
      by (auto intro!: panic_only_intros gv vf)
    show "panic_only (compute_module m)"
      unfolding compute_module_def compute_entry_def workgroup_size_const_def create_compute_pipeline_def
      by (auto intro!: panic_only_intros)
    show "panic_only (entry_point_constants m)"
      unfolding entry_point_constants_def by (auto intro!: panic_only_intros)
    show "panic_only (vertex_states m)"
      unfolding vertex_states_def vertex_entry_fn_def by (auto intro!: panic_only_intros gv bp)
    show "panic_only (create_pipeline_layout d)"
      unfolding create_pipeline_layout_def indexed_name_to_ident_def by (auto intro!: panic_only_intros)
    show "panic_only (shader_module c entry options)"
      unfolding shader_module_def shader_module_using_final_shader_string_def
        shader_module_using_composer_def get_relative_path_def Let_def
      by (auto intro!: panic_only_intros split: wgsl_shader_source_output_type.splits)
  qed

lemma add_entry_bind_error:
  "get_bind_group_data (naga_module e) = Inl err \<Longrightarrow> add_entry c options mb e = Inl (ModuleError err)"
  by (simp add: add_entry_def module_result_def)

lemma add_entry_after_analysis:
  "get_bind_group_data (naga_module e) = Inr d \<Longrightarrow> panic_only (add_entry c options mb e)"
  unfolding add_entry_def Let_def
  by (auto simp: module_result_def intro!: panic_only_intros)

lemma add_entry_ModuleError:
  "add_entry c options mb e = Inl (ModuleError err) \<Longrightarrow> get_bind_group_data (naga_module e) = Inl err"
proof (cases "get_bind_group_data (naga_module e)")
  case (Inl err')
  moreover assume "add_entry c options mb e = Inl (ModuleError err)"
  ultimately show ?thesis by (simp add: add_entry_bind_error)
next
  case (Inr d)
  moreover assume "add_entry c options mb e = Inl (ModuleError err)"
  ultimately show ?thesis using add_entry_after_analysis [OF Inr] by (simp add: panic_only_def)
qed

lemma add_entry_Inr_analysis:
  "add_entry c options mb e = Inr mb' \<Longrightarrow> \<exists>t. get_bind_group_data (naga_module e) = Inr t"
  by (cases "get_bind_group_data (naga_module e)") (simp_all add: add_entry_bind_error)

lemma add_entries_append:
  "add_entries c options mb (xs @ ys) = gen_bind (add_entries c options mb xs) (\<lambda>mb. add_entries c options mb ys)"
  by (induction xs arbitrary: mb) (auto simp: gen_bind_def split: sum.splits)

lemma add_entries_ModuleError:
  "add_entries c options mb es = Inl (ModuleError err) \<Longrightarrow> \<exists>e \<in> set es. get_bind_group_data (naga_module e) = Inl err"
  by (induction es arbitrary: mb) (auto simp: gen_bind_eq_Inl dest: add_entry_ModuleError)

lemma add_entries_Inr:
  "add_entries c options mb es = Inr mb' \<Longrightarrow> \<forall>e \<in> set es. \<exists>t. get_bind_group_data (naga_module e) = Inr t"
  by (induction es arbitrary: mb) (auto simp: gen_bind_eq_Inr dest: add_entry_Inr_analysis)

text \<open>
  C21. A CreateModuleError returned by the run is the error of the bind-group analysis of one of the entries; no other step produces one (the others can only panic).
\<close>

theorem create_rust_bindings_module_error:
  "create_rust_bindings c es options = Inl (ModuleError err) \<Longrightarrow>
   \<exists>e \<in> set es. get_bind_group_data (naga_module e) = Inl err"
  by (auto simp: create_rust_bindings_def gen_bind_eq_Inl dest: add_entries_ModuleError)

text \<open>
  C22. The run stops at the first entry whose bind-group analysis fails, after the entries before it were processed, and returns that entry's error whatever follows (spec 7: the first error is forwarded, nothing is written).
\<close>

theorem create_rust_bindings_first_error:
  "add_entries c options (root_builder c options) pre = Inr mb \<Longrightarrow>
   get_bind_group_data (naga_module e) = Inl err \<Longrightarrow>
   create_rust_bindings c (pre @ e # post) options = Inl (ModuleError err)"
  by (simp add: create_rust_bindings_def add_entries_append add_entry_bind_error)

text \<open>
  C20. No partial success: the run returns output only when the bind-group analysis of every entry succeeded.
\<close>

theorem create_rust_bindings_all_valid:
  "create_rust_bindings c es options = Inr out \<Longrightarrow>
   \<forall>e \<in> set es. \<exists>t. get_bind_group_data (naga_module e) = Inr t"
  by (auto simp: create_rust_bindings_def gen_bind_eq_Inr dest: add_entries_Inr)

lemma mod_add_key [simp]: "p \<in> fst ` set (mod_add p ts t)"
  unfolding mod_add_def by (induction t) force+

lemma unwrap_eq_Inr: "unwrap msg r = Inr x \<longleftrightarrow> r = Inr x"
  by (cases r) simp_all

lemma mod_add_keys: "map fst (mod_add p ts t) = map fst t @ (if p \<in> fst ` set t then [] else [p])"
  by (simp add: mod_add_def al_upd_keys)

lemma named_body_decls_key: "named_body n (decls t p) = Some b \<Longrightarrow> p \<in> fst ` set t"
  by (force simp: decls_def split: option.splits dest: map_of_SomeD)

lemma mod_add_unique_keys:
  assumes "mod_add_unique p n b t = Inr t'" "map fst t = first_seen ks"
  shows "map fst t' = first_seen (ks @ [p])"
proof (cases "named_body n (decls t p)")
  case None
  with assms show ?thesis by (auto simp: mod_add_unique_def al_upd_keys_first_seen)
next
  case (Some b')
  have "set (map fst t) = set ks" using assms(2) by simp
  with named_body_decls_key [OF Some] have "p \<in> set ks" by auto
  with Some assms show ?thesis by (auto simp: mod_add_unique_def split: if_splits)
qed

lemma mod_add_items_keys:
  "mod_add_items p its t = Inr t' \<Longrightarrow> map fst t = first_seen ks \<Longrightarrow>
   map fst t' = first_seen (ks @ map (item_target p) its)"
proof (induction its arbitrary: t ks)
  case (Cons it its)
  then obtain t1 where u: "mod_add_unique (item_target p it) (item_name it) (item it) t = Inr t1"
    and r: "mod_add_items p its t1 = Inr t'"
    by (auto split: sum.splits)
  from Cons.IH [OF r mod_add_unique_keys [OF u Cons.prems(2)]] show ?case by simp
qed simp

lemma add_entry_keys:
  assumes r: "add_entry c options mb e = Inr mb'" and k: "map fst mb = first_seen ks"
  shows "map fst mb' = first_seen (ks @ map (item_target (mod_name e))
                                      (structs_items c (naga_module e) options @ consts_items c (naga_module e))
                                  @ [mod_name e])"
proof -
  from r obtain d t1 t2 ts1 ts2 ts3 ts4 pl ts5 where
    i1: "mod_add_items (mod_name e) (structs_items c (naga_module e) options) mb = Inr t1" and
    i2: "mod_add_items (mod_name e) (consts_items c (naga_module e)) t1 = Inr t2" and
    mb': "mb' = mod_add (mod_name e) ts5 (mod_add (mod_name e) [pl] (mod_add (mod_name e) ts4
            (mod_add (mod_name e) ts3 (mod_add (mod_name e) ts2 (mod_add (mod_name e) ts1
            (mod_add (mod_name e) (bind_groups_module c d (shader_stages (naga_module e))) t2))))))"
    unfolding add_entry_def Let_def
    by (auto simp: gen_bind_eq_Inr module_result_def unwrap_eq_Inr split: sum.splits)
  let ?ks = "ks @ map (item_target (mod_name e))
                   (structs_items c (naga_module e) options @ consts_items c (naga_module e))"
  have t2: "map fst t2 = first_seen ?ks"
    using mod_add_items_keys [OF i2 mod_add_items_keys [OF i1 k]] by simp
  then have s2: "fst ` set t2 = set ?ks"
    by (metis set_first_seen set_map)
  have "map fst mb' = map fst t2 @ (if mod_name e \<in> fst ` set t2 then [] else [mod_name e])"
    unfolding mb' by (simp only: mod_add_keys mod_add_key if_True append_Nil2)
  also have "\<dots> = first_seen (?ks @ [mod_name e])"
    by (simp only: t2 s2 first_seen_snoc)
  finally show ?thesis by simp
qed

lemma add_entries_keys:
  "add_entries c options mb es = Inr mb' \<Longrightarrow> map fst mb = first_seen ks \<Longrightarrow>
   map fst mb' = first_seen (ks @ concat (map (\<lambda>e. map (item_target (mod_name e))
                                      (structs_items c (naga_module e) options @ consts_items c (naga_module e))
                                  @ [mod_name e]) es))"
proof (induction es arbitrary: mb ks)
  case (Cons e es)
  then obtain mb1 where e: "add_entry c options mb e = Inr mb1" and rest: "add_entries c options mb1 es = Inr mb'"
    by (auto simp: gen_bind_eq_Inr)
  from Cons.IH [OF rest add_entry_keys [OF e Cons.prems(2)]] show ?case by simp
qed simp

text \<open>
  C16. Deterministic module order (spec 4.5): the modules of a successful run's output are the shared root _root, then, entry by entry in the configured order, the modules that its struct and constant items are placed in and the entry's own module, each module at its first appearance.
\<close>

theorem create_rust_bindings_module_order:
  "create_rust_bindings c es options = Inr out \<Longrightarrow>
   \<exists>t. out = generate t \<and>
       map fst t = first_seen (mod_reference_root #
         concat (map (\<lambda>e. map (item_target (mod_name e))
                                (structs_items c (naga_module e) options @ consts_items c (naga_module e))
                             @ [mod_name e]) es))"
proof -
  assume "create_rust_bindings c es options = Inr out"
  then obtain t where t: "add_entries c options (root_builder c options) es = Inr t" and out: "out = generate t"
    by (auto simp: create_rust_bindings_def gen_bind_eq_Inr)
  have "map fst (root_builder c options) = first_seen [mod_reference_root]"
    by (simp add: root_builder_def mod_add_def first_seen_def)
  from add_entries_keys [OF t this] out show ?thesis by auto
qed

lemma gen_map_first_failure:
  assumes "x \<in> set xs" "f x = Inl e" "\<And>y e'. f y = Inl e' \<Longrightarrow> e' = e"
  shows "gen_map f xs = Inl e"
  using assms(1)
proof (induction xs)
  case Nil
  then show ?case by simp
next
  case (Cons a xs)
  show ?case
  proof (cases "f a")
    case (Inl e')
    with assms(3) have "e' = e" by blast
    with Inl show ?thesis by simp
  next
    case (Inr y)
    with assms(2) Cons.prems have "x \<in> set xs" by auto
    with Cons.IH Inr show ?thesis by simp
  qed
qed

text \<open>
  C23. With the composer output, every dependency of the entry is registered with its path relative to the output directory and its alias, in dependency order, followed by the entry's own module.
\<close>

theorem shader_module_composer_deps:
  assumes deps: "\<forall>d \<in> set (full_dependencies entry). diff_paths c (dep_file_path d) (output_dir c options) \<noteq> None"
    and src: "diff_paths c (source_file_path entry) (output_dir c options) = Some p"
  shows "shader_module_using_composer c entry options =
           Inr [InitComposer (map (\<lambda>d. (the (diff_paths c (dep_file_path d) (output_dir c options)), dep_module_name d))
                                  (full_dependencies entry)),
                MakeNagaModule p, NagaModuleToString, ShaderModuleComposer]"
proof -
  have "gen_map (\<lambda>dep. gen_bind (get_relative_path c (output_dir c options) (dep_file_path dep))
                       (\<lambda>relative_file_path. Inr (relative_file_path, dep_module_name dep))) (full_dependencies entry) =
        Inr (map (\<lambda>d. (the (diff_paths c (dep_file_path d) (output_dir c options)), dep_module_name d))
                 (full_dependencies entry))"
    using deps by (intro gen_map_total) (auto simp: get_relative_path_def)
  then show ?thesis by (simp add: shader_module_using_composer_def get_relative_path_def src)
qed

text \<open>
  C24. With the composer output, a dependency whose path cannot be made relative to the output directory makes generation panic with "failed to get relative path".
\<close>

theorem shader_module_composer_missing_path:
  "\<exists>d \<in> set (full_dependencies entry). diff_paths c (dep_file_path d) (output_dir c options) = None \<Longrightarrow>
   shader_module_using_composer c entry options = Inl (Panic ''failed to get relative path'')"
proof -
  assume "\<exists>d \<in> set (full_dependencies entry). diff_paths c (dep_file_path d) (output_dir c options) = None"
  then obtain d where d: "d \<in> set (full_dependencies entry)" "diff_paths c (dep_file_path d) (output_dir c options) = None"
    by blast
  have fails: "e' = Panic ''failed to get relative path''"
    if "gen_bind (get_relative_path c (output_dir c options) (dep_file_path y))
          (\<lambda>relative_file_path. Inr (relative_file_path, dep_module_name y)) = Inl e'" for y e'
    using that by (cases "diff_paths c (dep_file_path y) (output_dir c options)")
                  (simp_all add: get_relative_path_def)
  have "gen_map (\<lambda>dep. gen_bind (get_relative_path c (output_dir c options) (dep_file_path dep))
                       (\<lambda>relative_file_path. Inr (relative_file_path, dep_module_name dep))) (full_dependencies entry) =
        Inl (Panic ''failed to get relative path'')"
    by (rule gen_map_first_failure [OF d(1)]) (simp_all add: get_relative_path_def d(2) fails)
  then show ?thesis by (simp add: shader_module_using_composer_def)
qed


lemma example_run:
  "create_rust_bindings example_collaborators
     [example_entry_result ''test'' (example_entries_module [example_entry ''fs_main'' Fragment (0, 0, 0)])]
     example_options =
   Inr [Mod ''_root'' [RootReexport],
        Mod ''test'' [UseRoot, ConstStr ''ENTRY_FS_MAIN'' ''fs_main'', PipelineLayoutFn [],
                      ShaderModuleEmbedded, ShaderString ''fn fs_main() {}'']]"
  by code_simp

theorem create_rust_bindings_module_order_witness:
  "\<exists>out t. create_rust_bindings
              (example_collaborators\<lparr>structs_items := (\<lambda>_ _. [\<lparr>mod_path = Some ''types'', item_name = ''Uniforms'',
                                                            item = [Opaque ''struct Uniforms'']\<rparr>])\<rparr>)
              [example_entry_result ''a'' (example_entries_module []), example_entry_result ''b'' (example_entries_module [])]
              example_options = Inr out \<and>
            out = generate t \<and> map fst t = [''_root'', ''types'', ''a'', ''b'']"
proof -
  let ?c = "example_collaborators\<lparr>structs_items := (\<lambda>_ _. [\<lparr>mod_path = Some ''types'', item_name = ''Uniforms'',
                                                            item = [Opaque ''struct Uniforms'']\<rparr>])\<rparr>"
  let ?es = "[example_entry_result ''a'' (example_entries_module []), example_entry_result ''b'' (example_entries_module [])]"
  have "\<not> isl (create_rust_bindings ?c ?es example_options)"
    by code_simp
  then obtain out where r: "create_rust_bindings ?c ?es example_options = Inr out"
    by (cases "create_rust_bindings ?c ?es example_options") auto
  from create_rust_bindings_module_order [OF r] obtain t where
    "out = generate t \<and> map fst t = first_seen (mod_reference_root #
         concat (map (\<lambda>e. map (item_target (mod_name e))
                                (structs_items ?c (naga_module e) example_options @ consts_items ?c (naga_module e))
                             @ [mod_name e]) ?es))" by blast
  then have "out = generate t \<and> map fst t = [''_root'', ''types'', ''a'', ''b'']"
    by (simp add: example_collaborators_def example_entry_result_def item_target_def mod_reference_root_def first_seen_def)
  then show ?thesis using r by (intro exI [of _ out] exI [of _ t] conjI) simp_all
qed

theorem create_rust_bindings_all_valid_witness:
  "\<exists>t. get_bind_group_data (example_entries_module [example_entry ''fs_main'' Fragment (0, 0, 0)]) = Inr t"
  using create_rust_bindings_all_valid [OF example_run] by (simp add: example_entry_result_def)

lemma example_gap_run:
  "create_rust_bindings example_collaborators
     [example_entry_result ''test'' (example_entries_module [example_entry ''fs_main'' Fragment (0, 0, 0)]),
      example_entry_result ''gap'' example_gap] example_options =
   Inl (ModuleError NonConsecutiveBindGroups)"
  by code_simp

theorem create_rust_bindings_module_error_witness:
  "get_bind_group_data (example_entries_module [example_entry ''fs_main'' Fragment (0, 0, 0)]) = Inl NonConsecutiveBindGroups \<or>
   get_bind_group_data example_gap = Inl NonConsecutiveBindGroups"
  using create_rust_bindings_module_error [OF example_gap_run] by (simp add: example_entry_result_def)

theorem create_rust_bindings_first_error_witness:
  "create_rust_bindings example_collaborators
     ([example_entry_result ''test'' (example_entries_module [example_entry ''fs_main'' Fragment (0, 0, 0)])] @
      example_entry_result ''gap'' example_gap # [example_entry_result ''test2'' example_two_groups]) example_options =
   Inl (ModuleError NonConsecutiveBindGroups)"
proof -
  have "\<not> isl (add_entries example_collaborators example_options (root_builder example_collaborators example_options)
          [example_entry_result ''test'' (example_entries_module [example_entry ''fs_main'' Fragment (0, 0, 0)])])"
    by code_simp
  then obtain mb where pre: "add_entries example_collaborators example_options (root_builder example_collaborators example_options)
          [example_entry_result ''test'' (example_entries_module [example_entry ''fs_main'' Fragment (0, 0, 0)])] = Inr mb"
    by (cases "add_entries example_collaborators example_options (root_builder example_collaborators example_options)
          [example_entry_result ''test'' (example_entries_module [example_entry ''fs_main'' Fragment (0, 0, 0)])]") auto
  have gap: "get_bind_group_data (naga_module (example_entry_result ''gap'' example_gap)) = Inl NonConsecutiveBindGroups"
    by code_simp
  show ?thesis by (rule create_rust_bindings_first_error [OF pre gap])
qed


theorem shader_module_composer_deps_witness:
  "shader_module_using_composer example_collaborators example_composer_entry example_options =
   Inr [InitComposer [(''types.wgsl'', Some ''types''), (''util.wgsl'', None)], MakeNagaModule ''shader.wgsl'',
        NagaModuleToString, ShaderModuleComposer]"
  using shader_module_composer_deps [of example_composer_entry example_collaborators example_options "''shader.wgsl''"]
  by (simp add: example_composer_entry_def example_collaborators_def)

theorem shader_module_composer_missing_path_witness:
  "shader_module_using_composer (example_collaborators\<lparr>diff_paths := (\<lambda>f d. if f = ''util.wgsl'' then None else Some f)\<rparr>)
     example_composer_entry example_options = Inl (Panic ''failed to get relative path'')"
  using shader_module_composer_missing_path [of example_composer_entry
          "example_collaborators\<lparr>diff_paths := (\<lambda>f d. if f = ''util.wgsl'' then None else Some f)\<rparr>" example_options]
  by (simp add: example_composer_entry_def)

end
