(* ===== verification/ExampleApp.thy ===== *)
theory ExampleApp
  imports Prelude "HOL-Library.Stream"
begin

text \<open>
  The event handling of the example application (\<open>src/example/src/main.rs\<close>). The
  GPU objects of \<open>State\<close> (device, queue, pipeline, bind groups, buffers) are
  created once and never change; what the event loop changes is the window size
  kept in \<open>State::size\<close>, the surface configuration \<open>config\<close>, the size the
  surface was last configured with and how many times \<open>surface.configure\<close> was
  called, whether the loop was asked to exit, whether a redraw was requested, the
  frames presented and the surface errors logged by \<open>eprintln!\<close>.
  \<open>render\<close> fails only where \<open>get_current_texture()?\<close> does; the surface's answer is
  part of the \<open>RedrawRequested\<close> event here, since it comes from outside the
  program. The loop is a step function on events and, as in event systems, an
  inductive reachability predicate over it; the lemmas are invariants proved by
  rule induction and the behaviour of each handler.
\<close>

type_synonym physical_size = "u32 \<times> u32"

datatype surface_error = Timeout | Outdated | Lost | OutOfMemory

datatype window_event =
    CloseRequested
  | Resized physical_size
  | ScaleFactorChanged
  | RedrawRequested "surface_error option"
  | OtherWindowEvent

datatype event = WindowEvent nat window_event | OtherEvent

record app_state =
  size :: physical_size
  config_size :: physical_size
  surface_size :: physical_size
  configures :: nat
  exited :: bool
  redraw_requested :: bool
  frames :: nat
  logged :: "surface_error list"

text \<open>
  \<open>State::new\<close>: the window's inner size, the surface's default configuration for
  it, and the surface configured once.
\<close>

definition init_state :: "physical_size \<Rightarrow> app_state" where
  "init_state sz =
     \<lparr>size = sz, config_size = sz, surface_size = sz, configures = 1, exited = False,
      redraw_requested = False, frames = 0, logged = []\<rparr>"

text \<open>
  \<open>State::resize\<close>: a size with a zero dimension (a minimised window) is ignored;
  otherwise the size and configuration are updated and the surface is configured.
\<close>

definition resize :: "app_state \<Rightarrow> physical_size \<Rightarrow> app_state" where
  "resize s new_size =
     (if 0 < fst new_size \<and> 0 < snd new_size
      then s\<lparr>size := new_size, config_size := new_size, surface_size := new_size,
             configures := configures s + 1\<rparr>
      else s)"

text \<open>\<open>State::render\<close>: the frame is presented unless acquiring the surface texture fails.\<close>

definition render :: "app_state \<Rightarrow> surface_error option \<Rightarrow> surface_error + app_state" where
  "render s texture = (case texture of Some e \<Rightarrow> Inl e | None \<Rightarrow> Inr (s\<lparr>frames := frames s + 1\<rparr>))"

definition request_redraw :: "app_state \<Rightarrow> app_state" where
  "request_redraw s = s\<lparr>redraw_requested := True\<rparr>"

text \<open>The \<open>RedrawRequested\<close> arm: render, recover from a lost surface, exit when out of memory.\<close>

definition redraw :: "app_state \<Rightarrow> surface_error option \<Rightarrow> app_state" where
  "redraw s texture =
     request_redraw
       (case render s texture of
          Inr s' \<Rightarrow> s'
        | Inl Lost \<Rightarrow> resize s (size s)
        | Inl OutOfMemory \<Rightarrow> s\<lparr>exited := True\<rparr>
        | Inl e \<Rightarrow> s\<lparr>logged := logged s @ [e]\<rparr>)"

text \<open>The closure passed to \<open>event_loop.run\<close>, for the window with identifier \<open>window_id\<close>.\<close>

definition handle_event :: "nat \<Rightarrow> app_state \<Rightarrow> event \<Rightarrow> app_state" where
  "handle_event window_id s ev =
     (case ev of
        WindowEvent wid we \<Rightarrow>
          if wid = window_id then
            (case we of
               CloseRequested \<Rightarrow> s\<lparr>exited := True\<rparr>
             | Resized physical_size \<Rightarrow> request_redraw (resize s physical_size)
             | ScaleFactorChanged \<Rightarrow> s
             | RedrawRequested texture \<Rightarrow> redraw s texture
             | OtherWindowEvent \<Rightarrow> request_redraw s)
          else s
      | OtherEvent \<Rightarrow> s)"

definition run_events :: "nat \<Rightarrow> app_state \<Rightarrow> event list \<Rightarrow> app_state" where
  "run_events window_id s evs = foldl (handle_event window_id) s evs"

text \<open>
  The events on which the handler configures the surface (an accepted resize, a
  lost surface), and the error a redraw of the window logs.
\<close>

definition reconfigures :: "nat \<Rightarrow> event \<Rightarrow> bool" where
  "reconfigures window_id ev =
     (case ev of
        WindowEvent w (Resized n) \<Rightarrow> w = window_id \<and> 0 < fst n \<and> 0 < snd n
      | WindowEvent w (RedrawRequested (Some Lost)) \<Rightarrow> w = window_id
      | _ \<Rightarrow> False)"

definition logged_error :: "nat \<Rightarrow> event \<Rightarrow> surface_error list" where
  "logged_error window_id ev =
     (case ev of
        WindowEvent w (RedrawRequested (Some e)) \<Rightarrow>
          if w = window_id \<and> (e = Timeout \<or> e = Outdated) then [e] else []
      | _ \<Rightarrow> [])"

inductive reach :: "nat \<Rightarrow> physical_size \<Rightarrow> app_state \<Rightarrow> bool" for window_id sz where
  reach_init: "reach window_id sz (init_state sz)"
| reach_step: "reach window_id sz s \<Longrightarrow> reach window_id sz (handle_event window_id s ev)"

text \<open>The surface configuration mirrors the stored size, and no dimension of it is zero.\<close>

definition app_inv :: "app_state \<Rightarrow> bool" where
  "app_inv s \<longleftrightarrow> config_size s = size s \<and> surface_size s = size s \<and> 0 < fst (size s) \<and> 0 < snd (size s)"

text \<open>
  \<open>event_loop.run\<close>: the closure is called on each event the window system delivers
  until it has asked the loop to exit (\<open>target.exit()\<close>); \<open>run\<close> then returns. The
  event source is an infinite stream, and \<open>None\<close> is a loop that never returns.
\<close>

partial_function (option) event_loop_run :: "nat \<Rightarrow> app_state \<Rightarrow> event stream \<Rightarrow> app_state option" where
  "event_loop_run window_id s evs =
     (if exited s then Some s else event_loop_run window_id (handle_event window_id s (shd evs)) (stl evs))"

declare event_loop_run.simps [code]

lemma reach_run_events: "reach w sz (run_events w (init_state sz) evs)"
proof (induction evs rule: rev_induct)
  case Nil
  then show ?case by (simp add: run_events_def reach_init)
next
  case (snoc ev evs)
  then show ?case by (simp add: run_events_def reach_step)
qed

lemma app_inv_resize: "app_inv s \<Longrightarrow> app_inv (resize s n)"
  by (simp add: app_inv_def resize_def)

lemma app_inv_fields [simp]:
  "app_inv (request_redraw s) \<longleftrightarrow> app_inv s"
  "app_inv (s\<lparr>exited := b\<rparr>) \<longleftrightarrow> app_inv s"
  "app_inv (s\<lparr>frames := k\<rparr>) \<longleftrightarrow> app_inv s"
  "app_inv (s\<lparr>logged := l\<rparr>) \<longleftrightarrow> app_inv s"
  by (simp_all add: app_inv_def request_redraw_def)

lemma app_inv_redraw: "app_inv s \<Longrightarrow> app_inv (redraw s texture)"
  by (auto simp: redraw_def render_def app_inv_resize split: option.splits surface_error.splits)

lemma app_inv_handle_event: "app_inv s \<Longrightarrow> app_inv (handle_event w s ev)"
  by (auto simp: handle_event_def app_inv_resize app_inv_redraw split: event.splits window_event.splits)

text \<open>
  C25. Invariant of the event loop, by rule induction over the reachable states: when the window starts with a size of nonzero dimensions, the surface configuration always equals the stored size and no dimension of it is ever zero (wgpu rejects a zero-sized surface configuration).
\<close>

theorem reach_app_inv:
  assumes "0 < fst sz" "0 < snd sz"
  shows "reach w sz s \<Longrightarrow> app_inv s"
proof (induction rule: reach.induct)
  case reach_init
  then show ?case using assms by (simp add: app_inv_def init_state_def)
next
  case (reach_step s ev)
  then show ?case by (simp add: app_inv_handle_event)
qed

text \<open>
  C26. A resize to a size with a zero dimension (a minimised window) leaves the state unchanged.
\<close>

theorem resize_zero_ignored: "fst n = 0 \<or> snd n = 0 \<Longrightarrow> resize s n = s"
  by (auto simp: resize_def)

lemma frames_handle_event:
  "frames (handle_event w s ev) = frames s + (if ev = WindowEvent w (RedrawRequested None) then 1 else 0)"
  by (auto simp: handle_event_def redraw_def render_def resize_def request_redraw_def
      split: event.splits window_event.splits option.splits surface_error.splits)

text \<open>
  C27. The frames presented over a run are exactly the redraw requests of this window whose surface texture was acquired.
\<close>

theorem frames_run_events:
  "frames (run_events w s evs) = frames s + length (filter (\<lambda>ev. ev = WindowEvent w (RedrawRequested None)) evs)"
  unfolding run_events_def
  by (induction evs arbitrary: s) (simp_all add: frames_handle_event)

lemma exited_handle_event:
  "exited (handle_event w s ev) \<longleftrightarrow>
   exited s \<or> ev = WindowEvent w CloseRequested \<or> ev = WindowEvent w (RedrawRequested (Some OutOfMemory))"
  by (auto simp: handle_event_def redraw_def render_def resize_def request_redraw_def
      split: event.splits window_event.splits option.splits surface_error.splits)

text \<open>
  C28. The loop is asked to exit exactly when it already was, or the window was closed, or rendering ran out of memory; exiting is never undone.
\<close>

theorem exited_run_events:
  "exited (run_events w s evs) \<longleftrightarrow>
   exited s \<or> (\<exists>ev \<in> set evs. ev = WindowEvent w CloseRequested \<or> ev = WindowEvent w (RedrawRequested (Some OutOfMemory)))"
  unfolding run_events_def
  by (induction evs arbitrary: s) (auto simp: exited_handle_event)

text \<open>
  C29. Continuous rendering: every event of the window other than a close request and a scale-factor change requests another redraw.
\<close>

theorem redraw_keeps_requesting:
  "we \<noteq> CloseRequested \<Longrightarrow> we \<noteq> ScaleFactorChanged \<Longrightarrow> redraw_requested (handle_event w s (WindowEvent w we))"
  by (cases we) (auto simp: handle_event_def redraw_def request_redraw_def split: sum.splits surface_error.splits)

lemma configures_handle_event:
  "app_inv s \<Longrightarrow> configures (handle_event w s ev) = configures s + (if reconfigures w ev then 1 else 0)"
  by (auto simp: handle_event_def redraw_def render_def resize_def request_redraw_def app_inv_def
      reconfigures_def split: event.splits window_event.splits option.splits surface_error.splits)

lemma logged_handle_event: "logged (handle_event w s ev) = logged s @ logged_error w ev"
  by (auto simp: handle_event_def redraw_def render_def resize_def request_redraw_def logged_error_def
      split: event.splits window_event.splits option.splits surface_error.splits)

text \<open>
  C30. Surface recovery: over any run from a consistent state the surface is configured once for every accepted resize and once for every redraw that finds it lost, and at no other time; in particular a surface reported outdated or timed out is not reconfigured.
\<close>

theorem configures_run_events:
  "app_inv s \<Longrightarrow> configures (run_events w s evs) = configures s + length (filter (reconfigures w) evs)"
  unfolding run_events_def
proof (induction evs arbitrary: s)
  case (Cons ev evs)
  then show ?case
    using app_inv_handle_event [OF Cons.prems] by (simp add: configures_handle_event)
qed simp

text \<open>
  C31. Error reporting: over any run, the errors logged are exactly those of the redraws of this window whose surface timed out or was outdated, in order; a lost surface, an out-of-memory surface and other windows' events log nothing.
\<close>

theorem logged_run_events: "logged (run_events w s evs) = logged s @ concat (map (logged_error w) evs)"
  unfolding run_events_def
  by (induction evs arbitrary: s) (simp_all add: logged_handle_event)

lemma event_loop_run_exited: "exited s \<Longrightarrow> event_loop_run w s evs = Some s"
  by (subst event_loop_run.simps) simp

lemma event_loop_run_step:
  "\<not> exited s \<Longrightarrow> event_loop_run w s evs = event_loop_run w (handle_event w s (shd evs)) (stl evs)"
  by (subst event_loop_run.simps) simp

lemma event_loop_run_exits:
  "evs !! i = WindowEvent w CloseRequested \<or> evs !! i = WindowEvent w (RedrawRequested (Some OutOfMemory)) \<Longrightarrow>
   \<exists>s'. event_loop_run w s evs = Some s'"
proof (induction i arbitrary: s evs)
  case 0
  then have "exited (handle_event w s (shd evs))"
    by (auto simp: exited_handle_event)
  then show ?case
    by (cases "exited s") (simp_all add: event_loop_run_exited event_loop_run_step)
next
  case (Suc i)
  then have "\<exists>s'. event_loop_run w (handle_event w s (shd evs)) (stl evs) = Some s'"
    by simp
  then show ?case
    by (cases "exited s") (simp_all add: event_loop_run_exited event_loop_run_step)
qed

lemma event_loop_run_returns:
  assumes "event_loop_run w s evs = Some s'"
  shows "exited s \<or> (\<exists>i. evs !! i = WindowEvent w CloseRequested \<or>
                          evs !! i = WindowEvent w (RedrawRequested (Some OutOfMemory)))"
proof (rule event_loop_run.raw_induct [where P = "\<lambda>w s evs s'. exited s \<or> (\<exists>i. evs !! i = WindowEvent w CloseRequested \<or>
                          evs !! i = WindowEvent w (RedrawRequested (Some OutOfMemory)))", OF _ assms])
  fix f w s evs s'
  assume IH: "\<And>w s evs s'. f w s evs = Some s' \<Longrightarrow> exited s \<or> (\<exists>i. evs !! i = WindowEvent w CloseRequested \<or>
                          evs !! i = WindowEvent w (RedrawRequested (Some OutOfMemory)))"
    and eq: "(if exited s then Some s else f w (handle_event w s (shd evs)) (stl evs)) = Some s'"
  show "exited s \<or> (\<exists>i. evs !! i = WindowEvent w CloseRequested \<or>
                          evs !! i = WindowEvent w (RedrawRequested (Some OutOfMemory)))"
  proof (cases "exited s")
    case False
    with eq have "f w (handle_event w s (shd evs)) (stl evs) = Some s'" by simp
    from IH [OF this] show ?thesis
    proof
      assume "exited (handle_event w s (shd evs))"
      with False have "evs !! 0 = WindowEvent w CloseRequested \<or>
                       evs !! 0 = WindowEvent w (RedrawRequested (Some OutOfMemory))"
        by (simp add: exited_handle_event)
      then show ?thesis by blast
    next
      assume "\<exists>i. stl evs !! i = WindowEvent w CloseRequested \<or>
                  stl evs !! i = WindowEvent w (RedrawRequested (Some OutOfMemory))"
      then obtain i where "evs !! Suc i = WindowEvent w CloseRequested \<or>
                           evs !! Suc i = WindowEvent w (RedrawRequested (Some OutOfMemory))" by auto
      then show ?thesis by blast
    qed
  qed simp
qed

lemma exited_foldl_mono: "exited s \<Longrightarrow> exited (foldl (handle_event w) s evs)"
  by (induction evs arbitrary: s) (simp_all add: exited_handle_event)

lemma event_loop_run_prefix:
  "\<not> exited (run_events w s (stake i evs)) \<Longrightarrow>
   event_loop_run w s evs = event_loop_run w (run_events w s (stake i evs)) (sdrop i evs)"
proof (induction i arbitrary: s evs)
  case (Suc i)
  have "\<not> exited s"
  proof
    assume "exited s"
    then have "exited (handle_event w s (shd evs))" by (simp add: exited_handle_event)
    then have "exited (run_events w s (stake (Suc i) evs))" by (simp add: run_events_def exited_foldl_mono)
    with Suc.prems show False by simp
  qed
  then show ?case
    using Suc by (simp add: event_loop_run_step run_events_def)
qed (simp add: run_events_def)

text \<open>
  C32. Termination of the event loop: \<open>event_loop.run\<close> returns exactly when the loop was already asked to exit or some event of the window is a close request or a redraw whose surface is out of memory; on an event source with neither it never returns.
\<close>

theorem event_loop_terminates:
  "(\<exists>s'. event_loop_run w s evs = Some s') \<longleftrightarrow>
   exited s \<or> (\<exists>i. evs !! i = WindowEvent w CloseRequested \<or>
                   evs !! i = WindowEvent w (RedrawRequested (Some OutOfMemory)))"
  using event_loop_run_exits event_loop_run_returns event_loop_run_exited by blast

theorem reach_app_inv_witness:
  "app_inv (run_events 1 (init_state (800, 600)) [WindowEvent 1 (Resized (0, 0)), WindowEvent 1 (Resized (1024, 768))])"
  using reach_app_inv [of "(800, 600)" 1] reach_run_events by simp

theorem resize_zero_ignored_witness: "resize (init_state (800, 600)) (0, 600) = init_state (800, 600)"
  using resize_zero_ignored [of "(0, 600)"] by simp

theorem redraw_keeps_requesting_witness:
  "redraw_requested (handle_event 1 (init_state (800, 600)) (WindowEvent 1 OtherWindowEvent))"
  using redraw_keeps_requesting [of OtherWindowEvent] by simp

theorem configures_run_events_witness:
  "configures (run_events 1 (init_state (800, 600))
     [WindowEvent 1 (Resized (0, 0)), WindowEvent 1 (Resized (1024, 768)),
      WindowEvent 1 (RedrawRequested (Some Lost)), WindowEvent 1 (RedrawRequested (Some Outdated)),
      WindowEvent 2 (RedrawRequested (Some Lost))]) = 3"
proof -
  have "app_inv (init_state (800, 600))" by (simp add: app_inv_def init_state_def)
  from configures_run_events [OF this, of 1] show ?thesis
    by (simp add: reconfigures_def init_state_def)
qed

theorem event_loop_terminates_witness:
  "(\<exists>s'. event_loop_run 1 (init_state (800, 600))
           ([WindowEvent 1 OtherWindowEvent, WindowEvent 1 CloseRequested] @- sconst OtherEvent) = Some s') \<and>
   event_loop_run 1 (init_state (800, 600)) (sconst (WindowEvent 1 OtherWindowEvent)) = None"
proof
  show "\<exists>s'. event_loop_run 1 (init_state (800, 600))
           ([WindowEvent 1 OtherWindowEvent, WindowEvent 1 CloseRequested] @- sconst OtherEvent) = Some s'"
    using event_loop_terminates [of 1 "init_state (800, 600)"
            "[WindowEvent 1 OtherWindowEvent, WindowEvent 1 CloseRequested] @- sconst OtherEvent"]
    by (auto simp: init_state_def intro: exI [of _ 1])
  show "event_loop_run 1 (init_state (800, 600)) (sconst (WindowEvent 1 OtherWindowEvent)) = None"
    using event_loop_terminates [of 1 "init_state (800, 600)" "sconst (WindowEvent 1 OtherWindowEvent)"]
    by (cases "event_loop_run 1 (init_state (800, 600)) (sconst (WindowEvent 1 OtherWindowEvent))")
       (auto simp: init_state_def)
qed

end
