(* ===== verification/ExampleSetup.thy ===== *)
theory ExampleSetup
  imports Complex_Main ExampleApp
begin

text \<open>
  \<open>State::new\<close> and \<open>main\<close> of the example application (\<open>src/example/src/main.rs\<close>),
  and the resources \<open>State::render\<close> uses on every frame. The answers of wgpu and
  winit (whether a surface, an adapter, a device and a default configuration are
  available, and the surface's formats) form a \<open>wgpu_env\<close> record, and every
  \<open>unwrap\<close> of \<open>State::new\<close> and every indexing is a panic when the answer is
  missing. What \<open>State::new\<close> builds is the data it hands to wgpu: the gradient
  texture's descriptor and bytes, the sampler, the \<open>rts\<close> and uniform buffers, the
  vertex buffer of \<open>shader::VertexInput\<close> positions, and the entry points of the
  render pipeline. \<open>render\<close> records a fixed list of commands into its pass. The
  lemmas check that the data fits its use: the texture data has the length wgpu
  requires for the descriptor, and the draw call reads only vertices of the
  buffer, which form a triangle that covers the whole clip space. \<open>main\<close> is
  \<open>State::new\<close> followed by \<open>event_loop.run\<close>.
\<close>

datatype texture_format = Rgba8Unorm

text \<open>\<open>TextureFormat::block_copy_size\<close>: bytes per texel of an uncompressed format.\<close>

definition block_copy_size :: "texture_format \<Rightarrow> nat" where
  "block_copy_size f = (case f of Rgba8Unorm \<Rightarrow> 4)"

record extent_3d =
  ext_width :: u32
  ext_height :: u32
  depth_or_array_layers :: u32

record texture_descriptor =
  tex_size :: extent_3d
  mip_level_count :: u32
  sample_count :: u32
  tex_format :: texture_format

text \<open>
  The bytes \<open>create_texture_with_data\<close> reads for a descriptor: every layer of
  every mip level, each level halving the extent (at least one texel).
\<close>

definition texture_data_len :: "texture_descriptor \<Rightarrow> nat" where
  "texture_data_len d =
     sum_list (map (\<lambda>l. max 1 (unat (ext_width (tex_size d)) div 2 ^ l) * max 1 (unat (ext_height (tex_size d)) div 2 ^ l))
                   [0..<unat (mip_level_count d)])
     * unat (depth_or_array_layers (tex_size d)) * block_copy_size (tex_format d)"

definition gradient_texture :: texture_descriptor where
  "gradient_texture =
     \<lparr>tex_size = \<lparr>ext_width = 4, ext_height = 4, depth_or_array_layers = 1\<rparr>,
      mip_level_count = 1, sample_count = 1, tex_format = Rgba8Unorm\<rparr>"

text \<open>The sixteen RGBA texels, row by row: red grows along a row, green down the rows.\<close>

definition gradient_texels :: "u8 list list" where
  "gradient_texels =
     [[0, 0, 255, 255], [64, 0, 255, 255], [128, 0, 255, 255], [255, 0, 255, 255],
      [0, 64, 255, 255], [64, 64, 255, 255], [128, 64, 255, 255], [255, 64, 255, 255],
      [0, 128, 255, 255], [64, 128, 255, 255], [128, 128, 255, 255], [255, 128, 255, 255],
      [0, 255, 255, 255], [64, 255, 255, 255], [128, 255, 255, 255], [255, 255, 255, 255]]"

text \<open>\<open>.into_iter().flatten().collect::<Vec<u8>>()\<close>.\<close>

definition gradient_texture_data :: "u8 list" where
  "gradient_texture_data = concat gradient_texels"

text \<open>The vertex buffer: the \<open>position\<close> of each \<open>shader::VertexInput\<close>.\<close>

definition vertex_buffer_contents :: "(rat \<times> rat \<times> rat) list" where
  "vertex_buffer_contents = [(-1, -1, 0), (3, -1, 0), (-1, 3, 0)]"

text \<open>The commands \<open>render\<close> records: a draw takes a vertex range and an instance range.\<close>

datatype render_command =
    SetPipeline
  | SetBindGroups
  | SetVertexBuffer nat
  | Draw "nat \<times> nat" "nat \<times> nat"

definition render_pass_commands :: "render_command list" where
  "render_pass_commands = [SetPipeline, SetBindGroups, SetVertexBuffer 0, Draw (0, 3) (0, 1)]"

datatype filter_mode = Nearest | Linear

record sampler_descriptor =
  mag_filter :: filter_mode
  min_filter :: filter_mode

datatype vertex_step_mode = StepVertex | StepInstance

text \<open>The answers of winit and wgpu that \<open>main\<close> and \<open>State::new\<close> unwrap.\<close>

record wgpu_env =
  event_loop_created :: bool
  window_created :: bool
  surface_created :: bool
  adapter_found :: bool
  device_created :: bool
  surface_formats :: "string list"
  default_config_found :: bool

text \<open>
  What \<open>State::new\<close> hands to wgpu. The pipeline's entry points are the generated
  constants \<open>ENTRY_VS_MAIN\<close> (through \<open>vs_main_entry\<close>) and \<open>ENTRY_FS_MAIN\<close>; its
  one color target is the surface's first format. Buffer contents are the values
  \<open>bytemuck::cast_slice\<close> lays out.
\<close>

record gpu_resources =
  surface_format :: string
  pipeline_label :: string
  vertex_entry :: string
  vertex_step :: vertex_step_mode
  fragment_entry :: string
  color_targets :: "string list"
  texture :: texture_descriptor
  texture_data :: "u8 list"
  sampler :: sampler_descriptor
  rts_contents :: "u8 list"
  uniforms_color :: "rat list"
  vertex_buffer :: "(rat \<times> rat \<times> rat) list"

definition result_of :: "bool \<Rightarrow> unit + unit" where
  "result_of ok = (if ok then Inr () else Inl ())"

definition state_new :: "wgpu_env \<Rightarrow> physical_size \<Rightarrow> (app_state \<times> gpu_resources) gen" where
  "state_new env sz =
     gen_bind (unwrap ''called `Result::unwrap()` on an `Err` value'' (result_of (surface_created env))) (\<lambda>_.
     gen_bind (expect ''called `Option::unwrap()` on a `None` value''
                (if adapter_found env then Some () else None)) (\<lambda>_.
     gen_bind (unwrap ''called `Result::unwrap()` on an `Err` value'' (result_of (device_created env))) (\<lambda>_.
     gen_bind (nth_checked (surface_formats env) 0) (\<lambda>surface_format.
     gen_bind (expect ''called `Option::unwrap()` on a `None` value''
                (if default_config_found env then Some () else None)) (\<lambda>_.
       Inr (init_state sz,
            \<lparr>surface_format = surface_format, pipeline_label = ''Render Pipeline'',
             vertex_entry = ''vs_main'', vertex_step = StepVertex, fragment_entry = ''fs_main'',
             color_targets = [surface_format],
             texture = gradient_texture, texture_data = gradient_texture_data,
             sampler = \<lparr>mag_filter = Linear, min_filter = Linear\<rparr>,
             rts_contents = [1, 2, 3], uniforms_color = [1, 1, 1, 1],
             vertex_buffer = vertex_buffer_contents\<rparr>))))))"

text \<open>
  \<open>main\<close>: the event loop and the window are created (each \<open>unwrap\<close>ped),
  \<open>State::new\<close> runs, and the event loop dispatches the window's events until it
  is asked to exit.
\<close>

definition main_program ::
  "wgpu_env \<Rightarrow> nat \<Rightarrow> physical_size \<Rightarrow> event stream \<Rightarrow> app_state option gen" where
  "main_program env window_id sz evs =
     gen_bind (unwrap ''called `Result::unwrap()` on an `Err` value'' (result_of (event_loop_created env))) (\<lambda>_.
     gen_bind (unwrap ''called `Result::unwrap()` on an `Err` value'' (result_of (window_created env))) (\<lambda>_.
     gen_bind (state_new env sz) (\<lambda>(state, resources). Inr (event_loop_run window_id state evs))))"

text \<open>
  Rasterisation coverage by edge functions: a point is covered by a triangle when
  it lies on the same side of its three edges.
\<close>

definition edge_fn :: "rat \<times> rat \<times> rat \<Rightarrow> rat \<times> rat \<times> rat \<Rightarrow> rat \<times> rat \<Rightarrow> rat" where
  "edge_fn a b p = (fst b - fst a) * (snd p - fst (snd a)) - (fst (snd b) - fst (snd a)) * (fst p - fst a)"

fun covers :: "(rat \<times> rat \<times> rat) list \<Rightarrow> rat \<times> rat \<Rightarrow> bool" where
  "covers [a, b, c] p =
     (let e1 = edge_fn a b p; e2 = edge_fn b c p; e3 = edge_fn c a p in
      (0 \<le> e1 \<and> 0 \<le> e2 \<and> 0 \<le> e3) \<or> (e1 \<le> 0 \<and> e2 \<le> 0 \<and> e3 \<le> 0))"
| "covers _ p = False"

lemma gradient_texture_data_len: "length gradient_texture_data = texture_data_len gradient_texture"
  by (simp add: gradient_texture_data_def gradient_texels_def texture_data_len_def gradient_texture_def
      block_copy_size_def)

lemma gradient_texel_at:
  "x < 4 \<Longrightarrow> y < 4 \<Longrightarrow>
   take 4 (drop (4 * (4 * y + x)) gradient_texture_data) = [[0, 64, 128, 255] ! x, [0, 64, 128, 255] ! y, 255, 255]"
  by (auto simp: gradient_texture_data_def gradient_texels_def less_Suc_eq numeral_eq_Suc)

lemma covers_full_triangle:
  assumes "-1 \<le> x" "x \<le> 1" "-1 \<le> y" "y \<le> 1"
  shows "covers vertex_buffer_contents (x, y)"
  using assms by (simp add: vertex_buffer_contents_def edge_fn_def Let_def algebra_simps)

lemma draw_in_render_pass: "Draw (v0, v1) inst \<in> set render_pass_commands \<Longrightarrow> v0 = 0 \<and> v1 = 3"
  by (simp add: render_pass_commands_def)

lemma state_new_Inr:
  "state_new env sz = Inr (s, res) \<longleftrightarrow>
   surface_created env \<and> adapter_found env \<and> device_created env \<and> surface_formats env \<noteq> [] \<and>
   default_config_found env \<and> s = init_state sz \<and>
   res = \<lparr>surface_format = hd (surface_formats env), pipeline_label = ''Render Pipeline'',
          vertex_entry = ''vs_main'', vertex_step = StepVertex, fragment_entry = ''fs_main'',
          color_targets = [hd (surface_formats env)],
          texture = gradient_texture, texture_data = gradient_texture_data,
          sampler = \<lparr>mag_filter = Linear, min_filter = Linear\<rparr>,
          rts_contents = [1, 2, 3], uniforms_color = [1, 1, 1, 1],
          vertex_buffer = vertex_buffer_contents\<rparr>"
  by (cases "surface_formats env")
     (auto simp: state_new_def gen_bind_eq_Inr result_of_def unwrap_def expect_def nth_checked_def
           split: sum.splits option.splits)

lemma state_new_panics:
  "\<not> (surface_created env \<and> adapter_found env \<and> device_created env \<and> surface_formats env \<noteq> [] \<and>
      default_config_found env) \<Longrightarrow> \<exists>msg. state_new env sz = Inl (Panic msg)"
  by (cases "surface_formats env")
     (auto simp: state_new_def result_of_def unwrap_def expect_def nth_checked_def)

lemma main_program_terminates:
  assumes "event_loop_created env" "window_created env" "surface_created env" "adapter_found env"
    "device_created env" "surface_formats env \<noteq> []" "default_config_found env"
  shows "(\<exists>s'. main_program env w sz evs = Inr (Some s')) \<longleftrightarrow>
         (\<exists>i. evs !! i = WindowEvent w CloseRequested \<or> evs !! i = WindowEvent w (RedrawRequested (Some OutOfMemory)))"
proof -
  obtain res where n: "state_new env sz = Inr (init_state sz, res)"
    using assms by (simp add: state_new_Inr)
  then have m: "main_program env w sz evs = Inr (event_loop_run w (init_state sz) evs)"
    using assms by (simp add: main_program_def result_of_def)
  show ?thesis
    using event_loop_run_exits [of evs _ w "init_state sz"] event_loop_run_returns [of w "init_state sz" evs]
    by (auto simp: m init_state_def)
qed

text \<open>
  C35. The data \<open>State::new\<close> hands to wgpu fits its use: when \<open>State::new\<close>
  returns, the event loop starts from the initial state of the window's size, the
  gradient texture's data has exactly the length wgpu reads for its 4x4
  \<open>Rgba8Unorm\<close> descriptor, and every draw that \<open>render\<close> records reads only vertices
  the vertex buffer holds, and these form a triangle that covers the whole
  clip-space square, so every pixel of the surface is drawn.
\<close>

theorem state_new_resources_fit:
  "state_new env sz = Inr (s, res) \<Longrightarrow> Draw (v0, v1) inst \<in> set render_pass_commands \<Longrightarrow>
   s = init_state sz \<and>
   length (texture_data res) = texture_data_len (texture res) \<and>
   v1 \<le> length (vertex_buffer res) \<and>
   (\<forall>x y. -1 \<le> x \<and> x \<le> 1 \<and> -1 \<le> y \<and> y \<le> 1 \<longrightarrow>
          covers (map (\<lambda>i. vertex_buffer res ! i) [v0..<v1]) (x, y))"
proof -
  assume n: "state_new env sz = Inr (s, res)" and d: "Draw (v0, v1) inst \<in> set render_pass_commands"
  from n have r: "s = init_state sz" "texture_data res = gradient_texture_data" "texture res = gradient_texture"
    "vertex_buffer res = vertex_buffer_contents"
    by (simp_all add: state_new_Inr)
  from d have v: "v0 = 0" "v1 = 3" by (simp_all add: draw_in_render_pass)
  have "map (\<lambda>i. vertex_buffer_contents ! i) [0..<3] = vertex_buffer_contents"
    by (simp add: vertex_buffer_contents_def upt_rec)
  then show ?thesis
    using r v gradient_texture_data_len covers_full_triangle by (simp add: vertex_buffer_contents_def)
qed

theorem state_new_resources_fit_witness:
  "\<exists>res. state_new \<lparr>event_loop_created = True, window_created = True, surface_created = True, adapter_found = True, device_created = True,
                     surface_formats = [''Bgra8UnormSrgb''], default_config_found = True\<rparr> (800, 600) =
           Inr (init_state (800, 600), res) \<and>
         3 \<le> length (vertex_buffer res) \<and> covers (map (\<lambda>i. vertex_buffer res ! i) [0..<3]) (1, 1)"
proof -
  let ?env = "\<lparr>event_loop_created = True, window_created = True, surface_created = True, adapter_found = True, device_created = True,
               surface_formats = [''Bgra8UnormSrgb''], default_config_found = True\<rparr>"
  obtain res where n: "state_new ?env (800, 600) = Inr (init_state (800, 600), res)"
    by (simp add: state_new_Inr)
  have "Draw (0, 3) (0, 1) \<in> set render_pass_commands" by (simp add: render_pass_commands_def)
  note fit = state_new_resources_fit [OF n this]
  have "covers (map (\<lambda>i. vertex_buffer res ! i) [0..<3]) (1, 1)"
    using fit [THEN conjunct2, THEN conjunct2, THEN conjunct2, rule_format, of 1 1] by simp
  with fit n show ?thesis by blast
qed

end
