(* ===== verification/LibTests.thy ===== *)
theory LibTests
  imports Orchestrator
begin

text \<open>
  The unit tests of \<open>src/wgsl_bindgen/src/lib.rs\<close> (\<open>mod test\<close>). Each test parses a
  WGSL source with naga and checks the output of one generator. Here the parsed
  module is written out as a \<open>naga_module\<close> (\<open>*_source\<close>), with naga's type arena
  in the order the front end fills it (member types before their struct) and its
  layout of struct members; the expected tokens of the test are a token stream
  (\<open>*_expected\<close>); and each \<open>#[test]\<close> function is a boolean definition that holds
  exactly when its assertion does. \<open>create_shader_module\<close> is the test helper that
  wraps one module into a \<open>WgslEntryResult\<close> named \<open>test\<close> and runs
  \<open>create_rust_bindings\<close>. The tests that run the whole generator also meet the
  external crates, which stay parameters: a test that depends on their output
  passes under the assumption that they produce what the test expects of them
  (naga's WGSL writer printing \<open>fs_main\<close>, syn printing a path). The lemmas
  check the model against the repository's tests; they are validation of the
  model, not properties of the program.
\<close>

section \<open>Building the parsed modules\<close>

definition scalar_ty :: "scalar_kind \<Rightarrow> nat \<Rightarrow> naga_type" where
  "scalar_ty k w = \<lparr>ty_name = None, inner = Scalar k w\<rparr>"

definition vector_ty :: "vector_size \<Rightarrow> scalar_kind \<Rightarrow> nat \<Rightarrow> naga_type" where
  "vector_ty n k w = \<lparr>ty_name = None, inner = Vector n k w\<rparr>"

definition struct_ty :: "string \<Rightarrow> struct_member list \<Rightarrow> nat \<Rightarrow> naga_type" where
  "struct_ty n ms span = \<lparr>ty_name = Some n, inner = Struct ms span\<rparr>"

text \<open>A struct member: name, type handle, \<open>@location\<close> (if any) and byte offset.\<close>

definition wgsl_member :: "string \<Rightarrow> nat \<Rightarrow> nat option \<Rightarrow> nat \<Rightarrow> struct_member" where
  "wgsl_member n ty loc offset =
     \<lparr>m_name = Some n, m_ty = ty, m_binding = map_option Location loc, m_offset = offset\<rparr>"

definition uniform_var :: "string \<Rightarrow> u32 \<Rightarrow> u32 \<Rightarrow> nat \<Rightarrow> global_variable" where
  "uniform_var n g b ty =
     \<lparr>gv_name = Some n, space = AsUniform, gv_binding = Some \<lparr>rb_group = g, rb_binding = b\<rparr>, gv_ty = ty\<rparr>"

text \<open>An entry point: name, stage, workgroup size (zero outside compute) and arguments.\<close>

definition entry_fn :: "string \<Rightarrow> shader_stage \<Rightarrow> u32 \<times> u32 \<times> u32 \<Rightarrow> (string \<times> nat) list \<Rightarrow> entry_point" where
  "entry_fn n s wg args =
     \<lparr>ep_name = n, stage = s, workgroup_size = wg,
      arguments = map (\<lambda>(a, ty). \<lparr>arg_name = Some a, arg_ty = ty, arg_binding = None\<rparr>) args\<rparr>"

definition wgsl_module :: "naga_type list \<Rightarrow> global_variable list \<Rightarrow> entry_point list \<Rightarrow> naga_module" where
  "wgsl_module ts gs es = \<lparr>types = ts, global_variables = gs, entry_points = es\<rparr>"

text \<open>Text with a line break after each line (an \<open>indoc!\<close> block).\<close>

definition text_lines :: "string list \<Rightarrow> string" where
  "text_lines ls = concat (map (\<lambda>l. l @ [CHR 0x0A]) ls)"

section \<open>The test helper and the collaborators of the tests\<close>

text \<open>\<open>WgslBindgenOption::default()\<close>: \<open>Encase\<close>, the final shader string embedded, no output file.\<close>

definition default_options :: wgsl_bindgen_option where
  "default_options =
     \<lparr>serialization_strategy = Encase, shader_source_output_type = FinalShaderString, output_file = None\<rparr>"

definition create_shader_module :: "collaborators \<Rightarrow> naga_module \<Rightarrow> wgsl_bindgen_option \<Rightarrow> token_stream gen" where
  "create_shader_module c m options =
     create_rust_bindings c
       [\<lparr>mod_name = ''test'', naga_module = m, full_dependencies = [], source_file_path = ''''\<rparr>] options"

definition embed_source_shader :: string where
  "embed_source_shader = text_lines [''@fragment'', ''fn fs_main() {'', ''    return;'', ''}'']"

section \<open>The tests of create_shader_module\<close>

definition create_shader_module_embed_source_source :: naga_module where
  "create_shader_module_embed_source_source = wgsl_module [] [] [entry_fn ''fs_main'' Fragment (0, 0, 0) []]"

definition create_shader_module_embed_source_expected :: token_stream where
  "create_shader_module_embed_source_expected =
     [Mod ''_root'' [RootReexport],
      Mod ''test'' [UseRoot, ConstStr ''ENTRY_FS_MAIN'' ''fs_main'', PipelineLayoutFn [],
                    ShaderModuleEmbedded, ShaderString embed_source_shader]]"

definition create_shader_module_embed_source :: "collaborators \<Rightarrow> bool" where
  "create_shader_module_embed_source c \<longleftrightarrow>
     (case create_shader_module c create_shader_module_embed_source_source default_options of
        Inr actual \<Rightarrow> create_shader_module_embed_source_expected = actual
      | Inl _ \<Rightarrow> False)"

text \<open>\<open>struct A { f: vec4<f32> }\<close> bound as a uniform at groups 0 and 1.\<close>

definition create_shader_module_consecutive_bind_groups_source :: naga_module where
  "create_shader_module_consecutive_bind_groups_source =
     wgsl_module [vector_ty Quad Float 4, struct_ty ''A'' [wgsl_member ''f'' 0 None 0] 16]
       [uniform_var ''a'' 0 0 1, uniform_var ''b'' 1 0 1]
       [entry_fn ''vs_main'' Vertex (0, 0, 0) [], entry_fn ''fs_main'' Fragment (0, 0, 0) []]"

definition create_shader_module_consecutive_bind_groups :: "collaborators \<Rightarrow> bool" where
  "create_shader_module_consecutive_bind_groups c \<longleftrightarrow>
     \<not> isl (create_shader_module c create_shader_module_consecutive_bind_groups_source default_options)"

definition create_shader_module_non_consecutive_bind_groups_source :: naga_module where
  "create_shader_module_non_consecutive_bind_groups_source =
     wgsl_module [vector_ty Quad Float 4] [uniform_var ''a'' 0 0 0, uniform_var ''b'' 1 0 0, uniform_var ''c'' 3 0 0]
       [entry_fn ''main'' Fragment (0, 0, 0) []]"

definition create_shader_module_non_consecutive_bind_groups :: "collaborators \<Rightarrow> bool" where
  "create_shader_module_non_consecutive_bind_groups c \<longleftrightarrow>
     create_shader_module c create_shader_module_non_consecutive_bind_groups_source default_options =
       Inl (ModuleError NonConsecutiveBindGroups)"

definition create_shader_module_repeated_bindings_source :: naga_module where
  "create_shader_module_repeated_bindings_source =
     wgsl_module [vector_ty Quad Float 4, struct_ty ''A'' [wgsl_member ''f'' 0 None 0] 16]
       [uniform_var ''a'' 0 2 1, uniform_var ''b'' 0 2 1] [entry_fn ''main'' Fragment (0, 0, 0) []]"

definition create_shader_module_repeated_bindings :: "collaborators \<Rightarrow> bool" where
  "create_shader_module_repeated_bindings c \<longleftrightarrow>
     create_shader_module c create_shader_module_repeated_bindings_source default_options =
       Inl (ModuleError (DuplicateBinding 2))"

section \<open>The tests of vertex_struct_methods\<close>

definition write_vertex_module_empty_source :: naga_module where
  "write_vertex_module_empty_source = wgsl_module [] [] [entry_fn ''main'' Vertex (0, 0, 0) []]"

definition write_vertex_module_empty :: bool where
  "write_vertex_module_empty \<longleftrightarrow> vertex_struct_methods write_vertex_module_empty_source = Inr []"

text \<open>
  \<open>struct VertexInput0\<close> with members at locations 0..3 of a scalar and the vectors
  of two, three and four components of kind \<open>k\<close> and width \<open>w\<close>, laid out by naga
  (the member names are those of the test).
\<close>

definition vertex_input0_source :: "scalar_kind \<Rightarrow> nat \<Rightarrow> string list \<Rightarrow> naga_module" where
  "vertex_input0_source k w names =
     wgsl_module [scalar_ty k w, vector_ty Bi k w, vector_ty Tri k w, vector_ty Quad k w,
                  struct_ty ''VertexInput0''
                    [wgsl_member (names ! 0) 0 (Some 0) 0, wgsl_member (names ! 1) 1 (Some 1) (2 * w),
                     wgsl_member (names ! 2) 2 (Some 2) (4 * w), wgsl_member (names ! 3) 3 (Some 3) (8 * w)]
                    (12 * w)]
       [] [entry_fn ''main'' Vertex (0, 0, 0) [(''in0'', 4)]]"

definition vertex_input0_expected :: "string list \<Rightarrow> string list \<Rightarrow> token_stream" where
  "vertex_input0_expected formats names =
     [VertexImpl ''VertexInput0'' 4 (map (\<lambda>i. (formats ! i, names ! i, i)) [0, 1, 2, 3])]"

definition write_vertex_module_single_input_float32_source :: naga_module where
  "write_vertex_module_single_input_float32_source = vertex_input0_source Float 4 [''a'', ''b'', ''c'', ''d'']"

definition write_vertex_module_single_input_float32_expected :: token_stream where
  "write_vertex_module_single_input_float32_expected =
     vertex_input0_expected [''Float32'', ''Float32x2'', ''Float32x3'', ''Float32x4''] [''a'', ''b'', ''c'', ''d'']"

definition write_vertex_module_single_input_float32 :: bool where
  "write_vertex_module_single_input_float32 \<longleftrightarrow>
     vertex_struct_methods write_vertex_module_single_input_float32_source =
       Inr write_vertex_module_single_input_float32_expected"

definition write_vertex_module_single_input_float64_source :: naga_module where
  "write_vertex_module_single_input_float64_source = vertex_input0_source Float 8 [''a'', ''b'', ''c'', ''d'']"

definition write_vertex_module_single_input_float64_expected :: token_stream where
  "write_vertex_module_single_input_float64_expected =
     vertex_input0_expected [''Float64'', ''Float64x2'', ''Float64x3'', ''Float64x4''] [''a'', ''b'', ''c'', ''d'']"

definition write_vertex_module_single_input_float64 :: bool where
  "write_vertex_module_single_input_float64 \<longleftrightarrow>
     vertex_struct_methods write_vertex_module_single_input_float64_source = Inr write_vertex_module_single_input_float64_expected"

definition write_vertex_module_single_input_sint32_source :: naga_module where
  "write_vertex_module_single_input_sint32_source = vertex_input0_source Sint 4 [''a'', ''a'', ''a'', ''a'']"

definition write_vertex_module_single_input_sint32_expected :: token_stream where
  "write_vertex_module_single_input_sint32_expected =
     vertex_input0_expected [''Sint32'', ''Sint32x2'', ''Sint32x3'', ''Sint32x4''] [''a'', ''a'', ''a'', ''a'']"

definition write_vertex_module_single_input_sint32 :: bool where
  "write_vertex_module_single_input_sint32 \<longleftrightarrow>
     vertex_struct_methods write_vertex_module_single_input_sint32_source = Inr write_vertex_module_single_input_sint32_expected"

definition write_vertex_module_single_input_uint32_source :: naga_module where
  "write_vertex_module_single_input_uint32_source = vertex_input0_source Uint 4 [''a'', ''b'', ''c'', ''d'']"

definition write_vertex_module_single_input_uint32_expected :: token_stream where
  "write_vertex_module_single_input_uint32_expected =
     vertex_input0_expected [''Uint32'', ''Uint32x2'', ''Uint32x3'', ''Uint32x4''] [''a'', ''b'', ''c'', ''d'']"

definition write_vertex_module_single_input_uint32 :: bool where
  "write_vertex_module_single_input_uint32 \<longleftrightarrow>
     vertex_struct_methods write_vertex_module_single_input_uint32_source = Inr write_vertex_module_single_input_uint32_expected"

section \<open>The tests of compute_module and entry_point_constants\<close>

definition write_compute_module_empty_source :: naga_module where
  "write_compute_module_empty_source = wgsl_module [] [] [entry_fn ''main'' Vertex (0, 0, 0) []]"

definition write_compute_module_empty :: bool where
  "write_compute_module_empty \<longleftrightarrow> compute_module write_compute_module_empty_source = Inr []"

text \<open>\<open>@workgroup_size(256)\<close>: naga fills the omitted dimensions with 1.\<close>

definition write_compute_module_multiple_entries_source :: naga_module where
  "write_compute_module_multiple_entries_source =
     wgsl_module [] [] [entry_fn ''main1'' Compute (1, 2, 3) [], entry_fn ''main2'' Compute (256, 1, 1) []]"

definition write_compute_module_multiple_entries_expected :: token_stream where
  "write_compute_module_multiple_entries_expected =
     [Mod ''compute''
        [ConstWorkgroupSize ''MAIN1_WORKGROUP_SIZE'' 1 2 3,
         ComputePipelineFn ''create_main1_pipeline'' ''Compute Pipeline main1'' ''main1'',
         ConstWorkgroupSize ''MAIN2_WORKGROUP_SIZE'' 256 1 1,
         ComputePipelineFn ''create_main2_pipeline'' ''Compute Pipeline main2'' ''main2'']]"

definition write_compute_module_multiple_entries :: bool where
  "write_compute_module_multiple_entries \<longleftrightarrow>
     compute_module write_compute_module_multiple_entries_source = Inr write_compute_module_multiple_entries_expected"

definition write_entry_constants_source :: naga_module where
  "write_entry_constants_source =
     wgsl_module [] []
       [entry_fn ''vs_main'' Vertex (0, 0, 0) [], entry_fn ''another_vs'' Vertex (0, 0, 0) [],
        entry_fn ''fs_main'' Fragment (0, 0, 0) [], entry_fn ''another_fs'' Fragment (0, 0, 0) []]"

definition write_entry_constants_expected :: token_stream where
  "write_entry_constants_expected =
     [ConstStr ''ENTRY_VS_MAIN'' ''vs_main'', ConstStr ''ENTRY_ANOTHER_VS'' ''another_vs'',
      ConstStr ''ENTRY_FS_MAIN'' ''fs_main'', ConstStr ''ENTRY_ANOTHER_FS'' ''another_fs'']"

definition write_entry_constants :: bool where
  "write_entry_constants \<longleftrightarrow> entry_point_constants write_entry_constants_source = Inr write_entry_constants_expected"

section \<open>The tests of vertex_states\<close>

definition write_vertex_shader_entry_no_buffers_source :: naga_module where
  "write_vertex_shader_entry_no_buffers_source = wgsl_module [] [] [entry_fn ''vs_main'' Vertex (0, 0, 0) []]"

definition write_vertex_shader_entry_no_buffers_expected :: token_stream where
  "write_vertex_shader_entry_no_buffers_expected =
     [VertexEntryStruct, VertexStateFn, VertexEntryFn ''vs_main_entry'' ''ENTRY_VS_MAIN'' 0 [] []]"

definition write_vertex_shader_entry_no_buffers :: bool where
  "write_vertex_shader_entry_no_buffers \<longleftrightarrow>
     vertex_states write_vertex_shader_entry_no_buffers_source = Inr write_vertex_shader_entry_no_buffers_expected"

definition write_vertex_shader_multiple_entries_source :: naga_module where
  "write_vertex_shader_multiple_entries_source =
     wgsl_module [vector_ty Quad Float 4, struct_ty ''VertexInput'' [wgsl_member ''position'' 0 (Some 0) 0] 16] []
       [entry_fn ''vs_main_1'' Vertex (0, 0, 0) [(''in'', 1)], entry_fn ''vs_main_2'' Vertex (0, 0, 0) [(''in'', 1)]]"

definition write_vertex_shader_multiple_entries_expected :: token_stream where
  "write_vertex_shader_multiple_entries_expected =
     [VertexEntryStruct, VertexStateFn,
      VertexEntryFn ''vs_main_1_entry'' ''ENTRY_VS_MAIN_1'' 1 [''vertex_input''] [(''VertexInput'', ''vertex_input'')],
      VertexEntryFn ''vs_main_2_entry'' ''ENTRY_VS_MAIN_2'' 1 [''vertex_input''] [(''VertexInput'', ''vertex_input'')]]"

definition write_vertex_shader_multiple_entries :: bool where
  "write_vertex_shader_multiple_entries \<longleftrightarrow>
     vertex_states write_vertex_shader_multiple_entries_source = Inr write_vertex_shader_multiple_entries_expected"

definition write_vertex_shader_entry_multiple_buffers_source :: naga_module where
  "write_vertex_shader_entry_multiple_buffers_source =
     wgsl_module [vector_ty Quad Float 4, struct_ty ''Input0'' [wgsl_member ''position'' 0 (Some 0) 0] 16,
                  vector_ty Bi Float 4, struct_ty ''Input1'' [wgsl_member ''some_data'' 2 (Some 1) 0] 8] []
       [entry_fn ''vs_main'' Vertex (0, 0, 0) [(''in0'', 1), (''in1'', 3)]]"

definition write_vertex_shader_entry_multiple_buffers_expected :: token_stream where
  "write_vertex_shader_entry_multiple_buffers_expected =
     [VertexEntryStruct, VertexStateFn,
      VertexEntryFn ''vs_main_entry'' ''ENTRY_VS_MAIN'' 2 [''input0'', ''input1'']
        [(''Input0'', ''input0''), (''Input1'', ''input1'')]]"

definition write_vertex_shader_entry_multiple_buffers :: bool where
  "write_vertex_shader_entry_multiple_buffers \<longleftrightarrow>
     vertex_states write_vertex_shader_entry_multiple_buffers_source =
       Inr write_vertex_shader_entry_multiple_buffers_expected"

definition write_vertex_states_no_entries_source :: naga_module where
  "write_vertex_states_no_entries_source =
     wgsl_module [vector_ty Quad Float 4, struct_ty ''Input'' [wgsl_member ''position'' 0 (Some 0) 0] 16] []
       [entry_fn ''main'' Fragment (0, 0, 0) [(''in'', 1)]]"

definition write_vertex_states_no_entries :: bool where
  "write_vertex_states_no_entries \<longleftrightarrow> vertex_states write_vertex_states_no_entries_source = Inr []"

section \<open>The tests of quote_gen/utils.rs\<close>

text \<open>
  The assertion compares \<open>actual.to_string()\<close>, the text syn prints for the parsed
  tokens (\<open>"_root :: types :: Uniforms"\<close>, a space around each separator); the
  parser and its printer are syn's, so both are parameters.
\<close>

definition should_fully_qualify_mangled_string :: "(string \<Rightarrow> 't option) \<Rightarrow> ('t \<Rightarrow> string) \<Rightarrow> bool" where
  "should_fully_qualify_mangled_string parse_str to_string \<longleftrightarrow>
     (case demangle_and_qualify parse_str ''UniformsX_naga_oil_mod_XOR4XAZLTX'' of
        Inr actual \<Rightarrow> to_string actual = ''_root :: types :: Uniforms''
      | Inl _ \<Rightarrow> False)"

definition should_not_fully_qualify_non_mangled_string :: "(string \<Rightarrow> 't option) \<Rightarrow> ('t \<Rightarrow> string) \<Rightarrow> bool" where
  "should_not_fully_qualify_non_mangled_string parse_str to_string \<longleftrightarrow>
     (case demangle_and_qualify parse_str ''MatricesF64'' of
        Inr actual \<Rightarrow> to_string actual = ''MatricesF64''
      | Inl _ \<Rightarrow> False)"

section \<open>The tests pass on the model\<close>

text \<open>The tests of the per-module generators need no external crate.\<close>

lemma write_vertex_module_empty_passes: "write_vertex_module_empty"
  by code_simp

lemma write_vertex_module_single_input_float32_passes: "write_vertex_module_single_input_float32"
  by code_simp

lemma write_vertex_module_single_input_float64_passes: "write_vertex_module_single_input_float64"
  by code_simp

lemma write_vertex_module_single_input_sint32_passes: "write_vertex_module_single_input_sint32"
  by code_simp

lemma write_vertex_module_single_input_uint32_passes: "write_vertex_module_single_input_uint32"
  by code_simp

lemma write_compute_module_empty_passes: "write_compute_module_empty"
  by code_simp

lemma write_compute_module_multiple_entries_passes: "write_compute_module_multiple_entries"
  by code_simp

lemma write_entry_constants_passes: "write_entry_constants"
  by code_simp

lemma write_vertex_shader_entry_no_buffers_passes: "write_vertex_shader_entry_no_buffers"
  by code_simp

lemma write_vertex_shader_multiple_entries_passes: "write_vertex_shader_multiple_entries"
  by code_simp

lemma write_vertex_shader_entry_multiple_buffers_passes: "write_vertex_shader_entry_multiple_buffers"
  by code_simp

lemma write_vertex_states_no_entries_passes: "write_vertex_states_no_entries"
  by code_simp

text \<open>
  The bind-group tests pass whatever the external crates do: the analysis runs
  before any of them is called. For groups 0 and 1 the analysis succeeds, and the
  run can then fail only by a panic of a collaborator.
\<close>

lemma non_consecutive_bind_group_data:
  "get_bind_group_data create_shader_module_non_consecutive_bind_groups_source = Inl NonConsecutiveBindGroups"
  by code_simp

lemma repeated_bindings_bind_group_data:
  "get_bind_group_data create_shader_module_repeated_bindings_source = Inl (DuplicateBinding 2)"
  by code_simp

lemma consecutive_bind_group_data:
  "\<exists>d. get_bind_group_data create_shader_module_consecutive_bind_groups_source = Inr d"
proof -
  have "\<not> isl (get_bind_group_data create_shader_module_consecutive_bind_groups_source)"
    by code_simp
  then show ?thesis by (cases "get_bind_group_data create_shader_module_consecutive_bind_groups_source") auto
qed

lemma create_shader_module_bind_error:
  "get_bind_group_data m = Inl err \<Longrightarrow> create_shader_module c m options = Inl (ModuleError err)"
  by (simp add: create_shader_module_def create_rust_bindings_def add_entry_bind_error)

lemma create_shader_module_non_consecutive_bind_groups_passes:
  "create_shader_module_non_consecutive_bind_groups c"
  unfolding create_shader_module_non_consecutive_bind_groups_def
  by (rule create_shader_module_bind_error [OF non_consecutive_bind_group_data])

lemma create_shader_module_repeated_bindings_passes: "create_shader_module_repeated_bindings c"
  unfolding create_shader_module_repeated_bindings_def
  by (rule create_shader_module_bind_error [OF repeated_bindings_bind_group_data])

lemma create_shader_module_consecutive_bind_groups_panic_only:
  "panic_only (create_shader_module c create_shader_module_consecutive_bind_groups_source options)"
proof -
  obtain d where "get_bind_group_data create_shader_module_consecutive_bind_groups_source = Inr d"
    using consecutive_bind_group_data by blast
  then show ?thesis
    unfolding create_shader_module_def create_rust_bindings_def
    by (auto intro!: panic_only_intros add_entry_after_analysis)
qed

text \<open>
  \<open>create_shader_module_embed_source\<close> passes when naga's writer prints the
  expected shader text and the other crates add nothing for this shader (no
  prelude, no structs, no constants, no bind groups).
\<close>

lemma embed_source_generators:
  "get_bind_group_data create_shader_module_embed_source_source = Inr []"
  "vertex_struct_methods create_shader_module_embed_source_source = Inr []"
  "compute_module create_shader_module_embed_source_source = Inr []"
  "entry_point_constants create_shader_module_embed_source_source = Inr [ConstStr ''ENTRY_FS_MAIN'' ''fs_main'']"
  "vertex_states create_shader_module_embed_source_source = Inr []"
  "create_pipeline_layout [] = Inr (PipelineLayoutFn [])"
  by code_simp+

lemma create_shader_module_embed_source_passes:
  assumes "prelude_types_assertions c default_options = []"
    and "structs_items c create_shader_module_embed_source_source default_options = []"
    and "consts_items c create_shader_module_embed_source_source = []"
    and "bind_groups_module c [] (shader_stages create_shader_module_embed_source_source) = []"
    and "module_to_source c create_shader_module_embed_source_source = Some embed_source_shader"
  shows "create_shader_module_embed_source c"
  using assms
  by (simp add: create_shader_module_embed_source_def create_shader_module_def create_rust_bindings_def
      add_entry_def embed_source_generators module_result_def root_builder_def mod_add_def
      shader_module_def shader_module_using_final_shader_string_def default_options_def
      create_shader_module_embed_source_expected_def generate_def mod_reference_root_def decl_tokens_def)

lemma uniforms_demangled: "demangle ''UniformsX_naga_oil_mod_XOR4XAZLTX'' = Inr ''types::Uniforms''"
  by code_simp

lemma matrices_demangled: "demangle ''MatricesF64'' = Inr ''MatricesF64''"
  by code_simp

lemma demangle_and_qualify_mangle_eq:
  "demangle_and_qualify parse_str ''UniformsX_naga_oil_mod_XOR4XAZLTX'' =
     expect ''called `Result::unwrap()` on an `Err` value'' (parse_str ''_root::types::Uniforms'')"
  by (simp add: demangle_and_qualify_def uniforms_demangled mod_reference_root_def)

lemma demangle_and_qualify_plain_eq:
  "demangle_and_qualify parse_str ''MatricesF64'' =
     expect ''called `Result::unwrap()` on an `Err` value'' (parse_str ''MatricesF64'')"
  by (simp add: demangle_and_qualify_def matrices_demangled)

lemma should_fully_qualify_mangled_string_passes:
  "parse_str ''_root::types::Uniforms'' = Some t \<Longrightarrow> to_string t = ''_root :: types :: Uniforms'' \<Longrightarrow>
   should_fully_qualify_mangled_string parse_str to_string"
  using demangle_and_qualify_mangle_eq [of parse_str]
  by (simp add: should_fully_qualify_mangled_string_def)

lemma should_not_fully_qualify_non_mangled_string_passes:
  "parse_str ''MatricesF64'' = Some t \<Longrightarrow> to_string t = ''MatricesF64'' \<Longrightarrow>
   should_not_fully_qualify_non_mangled_string parse_str to_string"
  using demangle_and_qualify_plain_eq [of parse_str]
  by (simp add: should_not_fully_qualify_non_mangled_string_def)

end
