(* ===== verification/Spec2Isabelle.thy ===== *)
theory Spec2Isabelle
  imports BindGroups Demangle Codegen Vertex ModBuilder Orchestrator ExampleApp ExampleSetup LibTests
begin

text \<open>
  \<^bold>\<open>A verification development of wgsl_bindgen.\<close>

  wgsl_bindgen reads a WGSL shader, parsed by naga into a \<open>naga::Module\<close>, and
  writes Rust bindings for it. \<open>src/wgsl_bindgen/src/lib.rs\<close> drives the
  generation (\<open>create_rust_bindings\<close>). For every configured entry it does four
  things:
  \<^item> it analyses the bind groups (\<open>bindgroup::get_bind_group_data\<close>);
  \<^item> it places the struct and constant items, whose mangled names
    \<open>quote_gen/utils.rs\<close> demangles, into a \<open>RustModBuilder\<close>;
  \<^item> it adds the tokens of the per-module generators (vertex inputs, compute
    pipelines, entry-point constants, pipeline layout, shader loading);
  \<^item> it writes out the namespace tree.

  \<open>src/example/src/main.rs\<close> is an application that uses the generated code.

  \<^bold>\<open>Theories and what they model.\<close>
  \<^item> \<open>Prelude\<close>: \<open>u32\<close> as \<open>32 word\<close>, \<open>CreateModuleError\<close>, and the result type
    \<open>'a gen = gen_failure + 'a\<close>. It carries both \<open>ModuleError\<close> (propagated by
    \<open>?\<close>) and \<open>Panic\<close> (\<open>unwrap\<close>, \<open>expect\<close>, \<open>todo!\<close>, out-of-range
    indexing). It also has ordered association lists, one in insertion order for
    the merge engine and one in key order for \<open>BTreeMap\<close>, plus ASCII case
    mapping and decimal formatting.
  \<^item> \<open>Naga\<close>: the parts of the IR the generator reads. It is trusted input (spec 1).
  \<^item> \<open>BindGroups\<close>: \<open>get_bind_group_data\<close>, modelled from spec 4.3 because
    bindgroup.rs is not under src/. It collects the bound globals into a
    key-ordered table, then checks consecutive groups, then duplicate bindings.
    \<open>shader_stages\<close> gives the stage flags. Lemmas: the collection loop refines
    the abstract table (\<open>collect_groups_eq_group_table\<close>), and success and both
    errors are characterised exactly (C1-C5).
  \<^item> \<open>Base32\<close>, \<open>Demangle\<close>: the composer's mangling convention and RFC 4648
    base32, with the round trip \<open>decode (encode s) = Some s\<close>. They also model
    \<open>demangle_and_qualify\<close> and \<open>RustSourceItem::from_mangled\<close>
    (\<open>utils.rs\<close>). The \<open>syn::parse_str\<close> that \<open>demangle_and_qualify\<close> calls
    is a parameter (a string to an optional path), and its \<open>unwrap\<close> is a panic
    when the parser refuses. Lemmas: demangling is a left inverse of mangling,
    a mangled name reaches the parser fully qualified, and plain identifiers
    reach it untouched, for every parser (C6-C8).
  \<^item> \<open>Tokens\<close>: a \<open>TokenStream\<close> as a list of \<open>rust_item\<close> declarations, with
    one constructor per shape that \<open>quote!\<close> writes. \<open>Ident::new\<close> panics on
    non-identifiers. Also \<open>to_snake\<close> and \<open>wgsl::vertex_format\<close>.
  \<^item> \<open>Codegen\<close>: \<open>compute_module\<close>, \<open>workgroup_size\<close>,
    \<open>create_compute_pipeline\<close>, \<open>entry_point_constants\<close>,
    \<open>indexed_name_to_ident\<close> and the pipeline layout of \<open>create_rust_bindings\<close>.
    Claims C9-C12.
  \<^item> \<open>Vertex\<close>: \<open>vertex_states\<close>, \<open>vertex_input_structs\<close> and
    \<open>vertex_struct_methods\<close>. \<open>wgsl::get_vertex_input_structs\<close> is modelled from
    spec 4.4 and the lib.rs tests. The closure that pushes into
    \<open>step_mode_params\<close> is modelled as explicit state, and is proved equal to two
    plain maps (\<open>vertex_buffer_params_maps\<close>). Claims C13-C15, and C33-C34: every
    vertex attribute's \<open>wgpu::VertexFormat\<close> has the scalar kind, width and
    component count of the member's type, and the attribute panics exactly on
    an unnamed member, a dangling type handle or a type with no vertex format.
  \<^item> \<open>ModBuilder\<close>: the merge engine (\<open>RustModBuilder\<close>, not under src/),
    modelled from spec 4.5. Lemmas: well-formedness, refinement of an abstract
    partial map, first-seen wins and idempotence (C17-C19);
    \<open>InconsistentDeclaration\<close> is characterised by helper lemmas.
  \<^item> \<open>Orchestrator\<close>: \<open>create_rust_bindings\<close>, \<open>shader_module\<close> and its two
    variants, and \<open>WgslEntryResult\<close>. The collaborators outside src/ are the
    fields of a record, and every lemma holds for all of them. Claims C16 and
    C20-C24: modules come out in first-seen order, entry by entry
    (\<open>first_seen\<close>, the list without its later repeats); output is returned only
    when every entry succeeds; the only returned error is a bind-group error;
    the first failing entry stops the run; composer paths are handled.
  \<^item> \<open>ExampleApp\<close>: the event loop of main.rs, as a step function and an
    inductive reachability relation, and \<open>event_loop.run\<close> as a
    \<open>partial_function (option)\<close> over an infinite event stream. The state
    counts the calls of \<open>surface.configure\<close> and keeps the errors printed by
    \<open>eprintln!\<close>. Claims C25-C32: the surface-configuration invariant, the
    minimised window, the frame count, exit, continuous redraw, that the surface
    is reconfigured exactly on accepted resizes and lost surfaces, that exactly
    the timed-out and outdated redraws are logged, and exactly when the loop
    terminates.
  \<^item> \<open>ExampleSetup\<close>: \<open>main\<close> and \<open>State::new\<close>. The answers of winit and wgpu
    are a record of inputs, and each \<open>unwrap\<close> and the \<open>formats[0]\<close> index is a
    panic when an answer is missing. \<open>State::new\<close> builds the data it hands to
    wgpu (texture descriptor and bytes, sampler, buffers, pipeline entry points),
    and \<open>render\<close> records its render-pass commands. Lemmas: exactly when
    \<open>State::new\<close> succeeds, and that \<open>main\<close> returns exactly on an exit event. Claim
    C35: the texture data has the length wgpu reads, and the draw reads only
    buffered vertices, which cover the whole clip space.
  \<^item> \<open>LibTests\<close>: the unit tests of lib.rs. Each parsed test shader is a
    \<open>naga_module\<close> (\<open>*_source\<close>), each expected output a token stream
    (\<open>*_expected\<close>), each \<open>#[test]\<close> a boolean definition, and the helper
    \<open>create_shader_module\<close> is a definition too. These lemmas validate the model
    against the repository's own tests and are not properties of the program:
    the generator tests pass on the model, the bind-group tests hold for every
    implementation of the external crates, and the utils tests hold for every
    parser that accepts the qualified paths.

  \<^bold>\<open>Bounds and fuel.\<close>
  No fuel is used. Every loop of the generator is a structural recursion over a
  list (\<open>fun\<close>), or a \<open>function\<close> with a measure (\<open>chunks\<close>, by the length of
  its input). The one loop that may not end is winit's \<open>event_loop.run\<close>. It is
  a \<open>partial_function (option)\<close>, in which \<open>None\<close> means it never returns, and
  C32 says exactly when it returns. The integers are at their width: group and
  binding indices, workgroup sizes and texture extents are \<open>u32\<close> words, read
  with \<open>unat\<close>, and texture bytes are \<open>u8\<close> words. Vertex positions (\<open>f32\<close> in
  the code) are exact rationals, which is enough for the coverage argument: the
  positions are small integers and the edge functions are linear. Decimal
  formatting of a \<open>u32\<close> is injective (\<open>u32_to_string_inj\<close>), so distinct
  groups get distinct \<open>BindGroup<n>\<close> names.

  \<^bold>\<open>Not modelled.\<close>
  \<^item> The Type Mapper (types.rs, wgsl_type.rs) and the Layout-Checked Struct
    Builder (structs.rs) are not under src/. Spec 4.1-4.2 give their contracts
    but not their algorithms. Their output enters the orchestrator only through
    \<open>structs_items\<close>, which is a parameter, and every lemma holds for all of its
    implementations.
  \<^item> \<open>bind_groups_module\<close> and \<open>consts_items\<close> are parameters in the same way.
  \<^item> Text emission (\<open>pretty_print\<close>, prettyplease) is not modelled.
  \<^item> In the example application, wgpu's and winit's own behaviour is not
    modelled: whether an adapter or device exists, what the surface answers, and
    the GPU objects themselves. These answers are inputs; the program's
    decisions on them and the data it hands over are modelled
    (\<open>ExampleSetup\<close>, \<open>ExampleApp\<close>).
  \<^item> The external crates that the whole-generator tests reach (the composer,
    the type mapper, the struct builder) are parameters of those tests: a test
    that depends on their output is stated under hypotheses on it.
  \<^item> \<open>syn::parse_str\<close> is a parameter: which strings it accepts is syn's
    grammar, not this program's.
  \<^item> \<open>create_shader_raw_string_literal\<close> (utils.rs) depends on Rust's lexer. It
    is represented by the \<open>ShaderString\<close> token, and its failure on a shader
    containing the characters \<open>"#\<close> is recorded as a finding.
  \<^item> Vertex byte offsets are \<open>offset_of!\<close> in the generated code, so the Rust
    compiler computes them, not the generator.
  \<^item> Identifiers are ASCII strings. Unicode case mapping is not represented.
\<close>

end
